(* ===== verification/Prelude.thy ===== *)
theory Prelude
  imports Complex_Main "HOL-Library.AList"
begin

text \<open>
  Shared vocabulary of the development: the named collections that the component
  theories feed, an error monad for Python exceptions (\<open>'e + 'a\<close>, \<open>Inl\<close> the
  exception), and generic lemmas on lists, association lists and sums that the
  component proofs rely on.
\<close>

named_theorems py_simps \<open>evaluation rules of the Python value semantics\<close>
named_theorems runner_simps \<open>unfolding rules of the checkpointed batch runner\<close>

section \<open>Exceptions as a sum type\<close>

text \<open>
  A Python statement either raises (\<open>Inl e\<close>) or continues with a value
  (\<open>Inr x\<close>); \<open>ebind\<close> sequences two of them and propagates the first exception,
  as Python's control flow does.
\<close>

definition ebind :: "'e + 'a \<Rightarrow> ('a \<Rightarrow> 'e + 'b) \<Rightarrow> 'e + 'b" where
  "ebind m f = (case m of Inl e \<Rightarrow> Inl e | Inr x \<Rightarrow> f x)"

lemma ebind_Inr [simp]: "ebind (Inr x) f = f x"
  by (simp add: ebind_def)

lemma ebind_Inl [simp]: "ebind (Inl e) f = Inl e"
  by (simp add: ebind_def)

lemma ebind_eq_Inr:
  "ebind m f = Inr y \<longleftrightarrow> (\<exists>x. m = Inr x \<and> f x = Inr y)"
  by (cases m) (simp_all add: ebind_def)

lemma ebind_eq_Inl:
  "ebind m f = Inl e \<longleftrightarrow> m = Inl e \<or> (\<exists>x. m = Inr x \<and> f x = Inl e)"
  by (cases m) (simp_all add: ebind_def)

text \<open>
  A \<open>for\<close> loop whose body may raise: the results in order, or the first exception.
\<close>

fun emap :: "('a \<Rightarrow> 'e + 'b) \<Rightarrow> 'a list \<Rightarrow> 'e + 'b list" where
  "emap f [] = Inr []"
| "emap f (x # xs) = ebind (f x) (\<lambda>y. ebind (emap f xs) (\<lambda>ys. Inr (y # ys)))"

lemma emap_Inr_all: "(\<And>x. x \<in> set xs \<Longrightarrow> \<exists>y. f x = Inr y) \<Longrightarrow> \<exists>ys. emap f xs = Inr ys"
  by (induction xs) force+

lemma emap_Inl: "emap f xs = Inl e \<Longrightarrow> \<exists>x\<in>set xs. f x = Inl e"
  by (induction xs) (auto simp: ebind_eq_Inl)

section \<open>Lists\<close>

text \<open>Python's \<open>sep.join(xs)\<close>.\<close>

fun py_join :: "'a list \<Rightarrow> 'a list list \<Rightarrow> 'a list" where
  "py_join sep [] = []"
| "py_join sep [x] = x"
| "py_join sep (x # y # xs) = x @ sep @ py_join sep (y # xs)"

text \<open>Filtering away the members of a set keeps order and distinctness.\<close>

lemma filter_notin_empty [simp]: "set xs \<subseteq> A \<Longrightarrow> filter (\<lambda>x. x \<notin> A) xs = []"
  by (induction xs) auto

lemma set_filter_notin: "set (filter (\<lambda>x. x \<notin> A) xs) = set xs - A"
  by auto

text \<open>\<open>find\<close> is the first element of the corresponding \<open>filter\<close>.\<close>

lemma find_Some_filter: "find P xs = Some x \<Longrightarrow> filter P xs \<noteq> [] \<and> hd (filter P xs) = x"
  by (induction xs) (auto split: if_splits)

lemma ex_find_Some: "(\<exists>y. find P xs = Some y) \<longleftrightarrow> (\<exists>x\<in>set xs. P x)"
  by (induction xs) auto

lemma find_distinct_key:
  "distinct (map f xs) \<Longrightarrow> x \<in> set xs \<Longrightarrow> find (\<lambda>q. f q = f x) xs = Some x"
  by (induction xs) (auto simp: image_iff)

lemma length_le_1_cases: "length xs \<le> 1 \<Longrightarrow> xs = [] \<or> (\<exists>y. xs = [y])"
  by (cases xs) auto

lemma ebind2_Inr: "ebind A (\<lambda>x. ebind (B x) (\<lambda>y. Inr (f x y))) = Inr r \<Longrightarrow> \<exists>x y. r = f x y"
  by (auto simp: ebind_eq_Inr)

section \<open>Association lists as Python dicts\<close>

lemma map_of_update_same [simp]: "map_of (AList.update k v d) k = Some v"
  by (simp add: update_conv')

lemma map_of_update_other [simp]: "k' \<noteq> k \<Longrightarrow> map_of (AList.update k v d) k' = map_of d k'"
  by (simp add: update_conv')

lemma update_not_Nil [simp]: "AList.update k v d \<noteq> []"
  by (induction d) auto

end
