(* ===== verification/PyValue.thy ===== *)
theory PyValue
  imports Prelude
begin

text \<open>
  The fragment of Python's value semantics the pipeline's branching depends on.
  \<^item> \<open>pyval\<close>: the values a parsed JSON reply or a pandas cell can hold
    (\<open>json.loads\<close> gives None, bool, int, float, NaN, str, list and dict; pandas adds
    NaN for a missing cell).
  \<^item> Equality with a number (\<open>v == True\<close>, \<open>v == 3\<close>) never raises; it compares
    numerically for bool, int and float (\<open>1 == True\<close> holds in Python) and is False
    otherwise, NaN included.
  \<^item> Ordering with a number (\<open>v >= 7\<close>, \<open>v <= 2\<close>, \<open>v < 5\<close>) is False for NaN
    and raises \<open>TypeError\<close> for None, str, list and dict.
  \<^item> A dict is an association list with distinct keys; \<open>d.get(k, default)\<close> and
    \<open>d[k] = v\<close> are \<open>dict_get\<close> and \<open>dict_set\<close>; a pandas row \<open>row[c]\<close> raises
    \<open>KeyError\<close> for a missing column (\<open>row_get\<close>).
\<close>

datatype py_error = TypeError | KeyError | IndexError | ValueError

datatype pyval =
    PyNone
  | PyBool bool
  | PyInt int
  | PyFloat real
  | PyNaN
  | PyStr string
  | PyList "pyval list"
  | PyDict "(string \<times> pyval) list"

type_synonym pydict = "(string \<times> pyval) list"

section \<open>Numbers, equality and ordering\<close>

text \<open>The numeric reading of a value: bool is a subclass of int in Python.\<close>

fun py_num :: "pyval \<Rightarrow> real option" where
  "py_num (PyBool b) = Some (if b then 1 else 0)"
| "py_num (PyInt i) = Some (of_int i)"
| "py_num (PyFloat r) = Some r"
| "py_num _ = None"

definition py_eq_num :: "pyval \<Rightarrow> int \<Rightarrow> bool" where
  "py_eq_num v n = (case py_num v of Some r \<Rightarrow> r = of_int n | None \<Rightarrow> False)"

abbreviation py_is_true :: "pyval \<Rightarrow> bool" where
  "py_is_true v \<equiv> py_eq_num v 1"

definition py_cmp :: "(real \<Rightarrow> real \<Rightarrow> bool) \<Rightarrow> pyval \<Rightarrow> int \<Rightarrow> py_error + bool" where
  "py_cmp rel v n =
     (if v = PyNaN then Inr False
      else case py_num v of Some r \<Rightarrow> Inr (rel r (of_int n)) | None \<Rightarrow> Inl TypeError)"

definition py_ge :: "pyval \<Rightarrow> int \<Rightarrow> py_error + bool" where
  "py_ge v n = py_cmp (\<lambda>a b. b \<le> a) v n"

definition py_le :: "pyval \<Rightarrow> int \<Rightarrow> py_error + bool" where
  "py_le v n = py_cmp (\<le>) v n"

definition py_lt :: "pyval \<Rightarrow> int \<Rightarrow> py_error + bool" where
  "py_lt v n = py_cmp (<) v n"

text \<open>A value that \<open><\<close>, \<open><=\<close>, \<open>>=\<close> accept next to a number.\<close>

definition py_orderable :: "pyval \<Rightarrow> bool" where
  "py_orderable v \<longleftrightarrow> v = PyNaN \<or> py_num v \<noteq> None"

section \<open>Dicts and pandas rows\<close>

definition dict_get :: "pydict \<Rightarrow> string \<Rightarrow> pyval \<Rightarrow> pyval" where
  "dict_get d k dflt = (case map_of d k of Some v \<Rightarrow> v | None \<Rightarrow> dflt)"

definition dict_set :: "pydict \<Rightarrow> string \<Rightarrow> pyval \<Rightarrow> pydict" where
  "dict_set d k v = AList.update k v d"

text \<open>\<open>xs[i]\<close> for a non-negative index: \<open>IndexError\<close> past the end.\<close>

definition py_getitem :: "'a list \<Rightarrow> nat \<Rightarrow> py_error + 'a" where
  "py_getitem xs i = (if i < length xs then Inr (xs ! i) else Inl IndexError)"

definition row_get :: "pydict \<Rightarrow> string \<Rightarrow> py_error + pyval" where
  "row_get r c = (case map_of r c of Some v \<Rightarrow> Inr v | None \<Rightarrow> Inl KeyError)"

section \<open>Evaluation rules\<close>

lemma py_eq_num_simps [simp]:
  "py_eq_num (PyBool b) n \<longleftrightarrow> (if b then n = 1 else n = 0)"
  "py_eq_num (PyInt i) n \<longleftrightarrow> i = n"
  "py_eq_num (PyFloat r) n \<longleftrightarrow> r = of_int n"
  "\<not> py_eq_num PyNone n" "\<not> py_eq_num PyNaN n" "\<not> py_eq_num (PyStr s) n"
  "\<not> py_eq_num (PyList xs) n" "\<not> py_eq_num (PyDict d) n"
  by (auto simp: py_eq_num_def)

lemma py_cmp_simps [simp]:
  "py_cmp rel (PyBool b) n = Inr (rel (if b then 1 else 0) (of_int n))"
  "py_cmp rel (PyInt i) n = Inr (rel (of_int i) (of_int n))"
  "py_cmp rel (PyFloat r) n = Inr (rel r (of_int n))"
  "py_cmp rel PyNaN n = Inr False"
  "py_cmp rel PyNone n = Inl TypeError"
  "py_cmp rel (PyStr s) n = Inl TypeError"
  "py_cmp rel (PyList xs) n = Inl TypeError"
  "py_cmp rel (PyDict d) n = Inl TypeError"
  by (simp_all add: py_cmp_def)

lemmas py_order_defs [py_simps] = py_ge_def py_le_def py_lt_def

declare dict_get_def [py_simps] row_get_def [py_simps]

text \<open>An ordering comparison raises exactly on the values that have no number.\<close>

lemma py_cmp_Inl_iff: "py_cmp rel v n = Inl e \<longleftrightarrow> e = TypeError \<and> \<not> py_orderable v"
  by (cases v) (auto simp: py_orderable_def)

lemma py_cmp_not_Inr: "(\<forall>b. py_cmp rel v n \<noteq> Inr b) \<longleftrightarrow> \<not> py_orderable v"
  by (cases v) (auto simp: py_orderable_def)

lemma py_cmp_num: "py_num v = Some r \<Longrightarrow> py_cmp rel v n = Inr (rel r (of_int n))"
  by (cases v) auto

lemma py_eq_num_num: "py_num v = Some r \<Longrightarrow> py_eq_num v n \<longleftrightarrow> r = of_int n"
  by (simp add: py_eq_num_def)

lemma dict_get_set_same [simp]: "dict_get (dict_set d k v) k x = v"
  by (simp add: dict_get_def dict_set_def)

lemma dict_get_set_other [simp]: "k' \<noteq> k \<Longrightarrow> dict_get (dict_set d k v) k' x = dict_get d k' x"
  by (simp add: dict_get_def dict_set_def)

lemma dict_set_not_Nil [simp]: "dict_set d k v \<noteq> []"
  by (simp add: dict_set_def)

end
