(* ===== verification/BaseMetrics.thy ===== *)
theory BaseMetrics
  imports PyValue
begin

text \<open>
  Phase 1, \<open>src/scripts/base_metrics.py\<close>, class \<open>LeakFreeProductPreparator\<close>:
  one feature row per distinct product of the review table
  (\<open>create_product_features\<close>) with the review velocity of
  \<open>_calculate_review_velocity\<close>. A review is a row of the date-filtered table;
  its product name is \<open>None\<close> where pandas holds NaN (an empty cell of the CSV), its
  star rating \<open>None\<close> where the scraper found no star, and its date is the parsed
  calendar day as a day number. Python floats are \<open>real\<close>.
\<close>

record review =
  rv_marka :: string
  rv_urun :: "string option"
  rv_genel_puan :: "real option"
  rv_puan :: "int option"
  rv_date :: int
  rv_yorum :: "string option"
  rv_duzeltilmis_yorum :: "string option"

record product_stats =
  ps_urun :: string
  ps_marka :: string
  ps_genel_puan :: "real option"
  ps_toplam_yorum_sayisi :: nat
  ps_puan_std :: "real option"
  ps_min_puan :: "int option"
  ps_max_puan :: "int option"
  ps_puan_5_oran :: real
  ps_puan_4_oran :: real
  ps_puan_3_oran :: real
  ps_puan_2_oran :: real
  ps_puan_1_oran :: real
  ps_negatif_oran :: real
  ps_pozitif_oran :: real
  ps_yorum_hizi :: real

section \<open>pandas helpers\<close>

text \<open>
  \<open>Series.unique()\<close> keeps the first occurrence of each value, in order (all NaN
  count as one value); \<open>df[df['U'] == p]\<close> selects rows equal to \<open>p\<close>, and NaN equals
  nothing, itself included.
\<close>

fun unique_first :: "'a list \<Rightarrow> 'a list" where
  "unique_first [] = []"
| "unique_first (x # xs) = x # unique_first (filter (\<lambda>y. y \<noteq> x) xs)"

fun nan_eq :: "'a option \<Rightarrow> 'a option \<Rightarrow> bool" where
  "nan_eq (Some a) (Some b) = (a = b)"
| "nan_eq _ _ = False"

definition product_rows :: "review list \<Rightarrow> string option \<Rightarrow> review list" where
  "product_rows df p = filter (\<lambda>r. nan_eq (rv_urun r) p) df"

definition count_where :: "(int \<Rightarrow> bool) \<Rightarrow> review list \<Rightarrow> nat" where
  "count_where P rs = length (filter (\<lambda>r. case rv_puan r of Some x \<Rightarrow> P x | None \<Rightarrow> False) rs)"

definition ratings :: "review list \<Rightarrow> int list" where
  "ratings rs = List.map_filter rv_puan rs"

text \<open>\<open>Series.std()\<close>: sample deviation (ddof 1) of the non-missing values, NaN below two.\<close>

definition series_std :: "int list \<Rightarrow> real option" where
  "series_std xs =
     (if length xs < 2 then None
      else let n = real (length xs); m = (\<Sum>x\<leftarrow>xs. real_of_int x) / n
           in Some (sqrt ((\<Sum>x\<leftarrow>xs. (real_of_int x - m)\<^sup>2) / (n - 1))))"

definition series_min :: "int list \<Rightarrow> int option" where
  "series_min xs = (if xs = [] then None else Some (Min (set xs)))"

definition series_max :: "int list \<Rightarrow> int option" where
  "series_max xs = (if xs = [] then None else Some (Max (set xs)))"

section \<open>The feature row of one product\<close>

definition ratio :: "nat \<Rightarrow> nat \<Rightarrow> real" where
  "ratio a n = real a / real n"

text \<open>
  \<open>_calculate_review_velocity\<close>: the day span of the product's reviews; a span of
  zero gives the review count itself instead of a division by zero.
\<close>

definition calculate_review_velocity :: "review list \<Rightarrow> real" where
  "calculate_review_velocity rs =
     (let ds = map rv_date rs; date_range = Max (set ds) - Min (set ds)
      in if date_range = 0 then real (length rs) else real (length rs) / real_of_int date_range)"

definition product_stats_of :: "string \<Rightarrow> review list \<Rightarrow> product_stats" where
  "product_stats_of p rs =
     (let n = length rs; ps = ratings rs in
      \<lparr> ps_urun = p,
        ps_marka = rv_marka (hd rs),
        ps_genel_puan = rv_genel_puan (hd rs),
        ps_toplam_yorum_sayisi = n,
        ps_puan_std = series_std ps,
        ps_min_puan = series_min ps,
        ps_max_puan = series_max ps,
        ps_puan_5_oran = ratio (count_where (\<lambda>x. x = 5) rs) n,
        ps_puan_4_oran = ratio (count_where (\<lambda>x. x = 4) rs) n,
        ps_puan_3_oran = ratio (count_where (\<lambda>x. x = 3) rs) n,
        ps_puan_2_oran = ratio (count_where (\<lambda>x. x = 2) rs) n,
        ps_puan_1_oran = ratio (count_where (\<lambda>x. x = 1) rs) n,
        ps_negatif_oran = ratio (count_where (\<lambda>x. x \<le> 2) rs) n,
        ps_pozitif_oran = ratio (count_where (\<lambda>x. 4 \<le> x) rs) n,
        ps_yorum_hizi = calculate_review_velocity rs \<rparr>)"

text \<open>
  \<open>create_product_features\<close>: the loop over \<open>df['Urun'].unique()\<close>. For a NaN
  name the selection is empty and \<open>product_df['Marka'].iloc[0]\<close> raises
  \<open>IndexError\<close>, which ends the script.
\<close>

fun features_loop :: "review list \<Rightarrow> string option list \<Rightarrow> py_error + product_stats list" where
  "features_loop df [] = Inr []"
| "features_loop df (p # ps) =
     (let rs = product_rows df p in
      if rs = [] then Inl IndexError
      else ebind (features_loop df ps) (\<lambda>rows. Inr (product_stats_of (the p) rs # rows)))"

definition create_product_features :: "review list \<Rightarrow> py_error + product_stats list" where
  "create_product_features df = features_loop df (unique_first (map rv_urun df))"

section \<open>Concrete inputs\<close>

definition demo_review :: "string \<Rightarrow> int \<Rightarrow> int option \<Rightarrow> string \<Rightarrow> review" where
  "demo_review p day star text =
     \<lparr> rv_marka = ''demo'', rv_urun = Some p, rv_genel_puan = Some 4, rv_puan = star,
       rv_date = day, rv_yorum = Some text, rv_duzeltilmis_yorum = Some text \<rparr>"

definition demo_df :: "review list" where
  "demo_df = [demo_review ''a'' 1 (Some 5) ''iyi'', demo_review ''b'' 2 (Some 1) ''kotu'',
              demo_review ''a'' 3 (Some 4) ''fena degil'']"

definition unrated_df :: "review list" where
  "unrated_df = [demo_review ''p'' 1 (Some 5) ''iyi'', demo_review ''p'' 2 None ''yildizsiz'']"

section \<open>Properties of the aggregation\<close>

lemma set_unique_first [simp]: "set (unique_first xs) = set xs"
  by (induction xs rule: unique_first.induct) auto

lemma features_loop_eq:
  "features_loop df ps =
     (if \<exists>p\<in>set ps. product_rows df p = [] then Inl IndexError
      else Inr (map (\<lambda>p. product_stats_of (the p) (product_rows df p)) ps))"
  by (induction ps) (auto simp: Let_def)

lemma product_rows_empty_iff:
  assumes "p \<in> set (map rv_urun df)"
  shows "product_rows df p = [] \<longleftrightarrow> p = None"
proof (cases p)
  case (Some a)
  with assms obtain r where "r \<in> set df" "rv_urun r = Some a" by auto
  then have "nan_eq (rv_urun r) p"
    using Some by simp
  with \<open>r \<in> set df\<close> Some show ?thesis
    by (auto simp: product_rows_def filter_empty_conv)
qed (simp add: product_rows_def)

lemma create_product_features_eq:
  "create_product_features df =
     (if None \<in> rv_urun ` set df then Inl IndexError
      else Inr (map (\<lambda>p. product_stats_of (the p) (product_rows df p)) (unique_first (map rv_urun df))))"
proof -
  have "(\<exists>p\<in>set (unique_first (map rv_urun df)). product_rows df p = []) \<longleftrightarrow> None \<in> rv_urun ` set df"
    using product_rows_empty_iff [of _ df] by force
  then show ?thesis
    by (simp add: create_product_features_def features_loop_eq)
qed

lemma sum_unique_first:
  "(\<Sum>y\<leftarrow>unique_first xs. length (filter (\<lambda>x. x = y) xs)) = length xs"
proof (induction xs rule: unique_first.induct)
  case (2 x xs)
  have "(\<Sum>y\<leftarrow>unique_first (filter (\<lambda>y. y \<noteq> x) xs). length (filter (\<lambda>z. z = y) (x # xs)))
        = (\<Sum>y\<leftarrow>unique_first (filter (\<lambda>y. y \<noteq> x) xs). length (filter (\<lambda>z. z = y) (filter (\<lambda>y. y \<noteq> x) xs)))"
    by (rule arg_cong [where f = sum_list], rule map_cong)
       (auto simp: filter_filter intro!: arg_cong [where f = length] filter_cong)
  also have "\<dots> = length (filter (\<lambda>y. y \<noteq> x) xs)"
    using 2 .
  finally show ?case
    using sum_length_filter_compl [of "\<lambda>y. y = x" xs] by simp
qed simp

lemma count_where_disj:
  "(\<And>x. \<not> (P x \<and> Q x)) \<Longrightarrow> count_where P rs + count_where Q rs = count_where (\<lambda>x. P x \<or> Q x) rs"
  by (induction rs) (auto simp: count_where_def split: option.splits)

lemma ratio_add: "ratio a n + ratio b n = ratio (a + b) n"
  by (simp add: ratio_def add_divide_distrib)

lemma count_where_all:
  "count_where P rs = length rs \<longleftrightarrow> (\<forall>r\<in>set rs. \<exists>x. rv_puan r = Some x \<and> P x)"
proof -
  have "count_where P rs = length rs \<longleftrightarrow> (\<forall>r\<in>set rs. case rv_puan r of Some x \<Rightarrow> P x | None \<Rightarrow> False)"
    unfolding count_where_def by (metis length_filter_less less_irrefl filter_True)
  then show ?thesis
    by (auto split: option.splits)
qed

lemma distinct_unique_first: "distinct (unique_first xs)"
  by (induction xs rule: unique_first.induct) auto

lemma nan_eq_Some [simp]: "nan_eq v (Some x) \<longleftrightarrow> v = Some x"
  by (cases v) simp_all

lemma product_rows_Some: "product_rows df (Some x) = filter (\<lambda>r. rv_urun r = Some x) df"
  by (simp add: product_rows_def)

lemma star_counts:
  "count_where (\<lambda>x. x = 5) rs + count_where (\<lambda>x. x = 4) rs + count_where (\<lambda>x. x = 3) rs +
   count_where (\<lambda>x. x = 2) rs + count_where (\<lambda>x. x = 1) rs = count_where (\<lambda>x. 1 \<le> x \<and> x \<le> 5) rs"
  by (induction rs) (auto simp: count_where_def split: option.splits)

text \<open>
  C13. \<open>create_product_features\<close> fails exactly when some review has no product name
  (NaN), and then with \<open>IndexError\<close> from \<open>iloc[0]\<close> on the empty selection.
\<close>

theorem create_product_features_error:
  "create_product_features df = Inl e \<longleftrightarrow> e = IndexError \<and> None \<in> rv_urun ` set df"
  by (auto simp: create_product_features_eq)

text \<open>
  C14. Without NaN names, \<open>create_product_features\<close> returns one row per distinct product
  in first-appearance order, with distinct names, and each row's review count is the
  number of that product's reviews, at least one.
\<close>

theorem create_product_features_rows:
  assumes "None \<notin> rv_urun ` set df"
  shows "\<exists>res. create_product_features df = Inr res \<and>
           map (\<lambda>s. Some (ps_urun s)) res = unique_first (map rv_urun df) \<and>
           distinct (map ps_urun res) \<and>
           (\<forall>s\<in>set res. ps_toplam_yorum_sayisi s = length (filter (\<lambda>r. rv_urun r = Some (ps_urun s)) df)
                        \<and> 0 < ps_toplam_yorum_sayisi s)"
proof -
  let ?ps = "unique_first (map rv_urun df)"
  let ?res = "map (\<lambda>p. product_stats_of (the p) (product_rows df p)) ?ps"
  have some: "p = Some (the p)" if "p \<in> set ?ps" for p
  proof -
    have "p \<in> rv_urun ` set df"
      using that by simp
    with assms show ?thesis
      by (cases p) auto
  qed
  have names: "map (\<lambda>s. Some (ps_urun s)) ?res = ?ps"
    using some by (auto simp: product_stats_of_def Let_def intro: map_idI)
  have "distinct (map (\<lambda>s. Some (ps_urun s)) ?res)"
    unfolding names by (rule distinct_unique_first)
  then have dist: "distinct (map ps_urun ?res)"
    by (simp add: distinct_map inj_on_def)
  have counts: "ps_toplam_yorum_sayisi s = length (filter (\<lambda>r. rv_urun r = Some (ps_urun s)) df)
                \<and> 0 < ps_toplam_yorum_sayisi s" if "s \<in> set ?res" for s
  proof -
    from that obtain p where p: "p \<in> set ?ps" "s = product_stats_of (the p) (product_rows df p)" by auto
    obtain a where a: "p = Some a"
      using some [OF p(1)] by blast
    have "product_rows df p \<noteq> []"
      using product_rows_empty_iff [of p df] p(1) a by auto
    with p(2) a show ?thesis
      by (simp add: product_stats_of_def Let_def product_rows_Some)
  qed
  have "create_product_features df = Inr ?res"
    using assms by (simp add: create_product_features_eq)
  with names dist counts show ?thesis
    by blast
qed

lemma create_product_features_Inr:
  assumes "create_product_features df = Inr res" "s \<in> set res"
  obtains a where "Some a \<in> rv_urun ` set df" "s = product_stats_of a (filter (\<lambda>r. rv_urun r = Some a) df)"
    "filter (\<lambda>r. rv_urun r = Some a) df \<noteq> []"
proof -
  have none: "None \<notin> rv_urun ` set df"
    and res: "res = map (\<lambda>p. product_stats_of (the p) (product_rows df p)) (unique_first (map rv_urun df))"
    using assms(1) by (auto simp: create_product_features_eq split: if_splits)
  from assms(2) obtain p where p: "p \<in> rv_urun ` set df" "s = product_stats_of (the p) (product_rows df p)"
    unfolding res by auto
  have "p \<noteq> None"
    using none p(1) by metis
  then obtain a where a: "p = Some a"
    by blast
  have "product_rows df p \<noteq> []"
    using product_rows_empty_iff [of p df] p(1) a by auto
  with p a that show ?thesis
    by (simp add: product_rows_Some)
qed

text \<open>
  C15. The per-product review counts partition the review table: they sum to its length,
  so no review is counted for two products or left out.
\<close>

theorem create_product_features_partition:
  assumes "create_product_features df = Inr res"
  shows "(\<Sum>s\<leftarrow>res. ps_toplam_yorum_sayisi s) = length df"
proof -
  have none: "None \<notin> rv_urun ` set df" and res: "res = map (\<lambda>p. product_stats_of (the p) (product_rows df p)) (unique_first (map rv_urun df))"
    using assms by (auto simp: create_product_features_eq split: if_splits)
  have "(\<Sum>s\<leftarrow>res. ps_toplam_yorum_sayisi s)
        = (\<Sum>p\<leftarrow>unique_first (map rv_urun df). length (filter (\<lambda>z. z = p) (map rv_urun df)))"
    unfolding res map_map
  proof (rule arg_cong [where f = sum_list], rule map_cong)
    fix p assume "p \<in> set (unique_first (map rv_urun df))"
    with none obtain a where "p = Some a" by (cases p) auto
    then show "(ps_toplam_yorum_sayisi \<circ> (\<lambda>p. product_stats_of (the p) (product_rows df p))) p =
               length (filter (\<lambda>z. z = p) (map rv_urun df))"
      by (simp add: product_stats_of_def Let_def product_rows_Some filter_map comp_def)
  qed simp
  also have "\<dots> = length df"
    using sum_unique_first [of "map rv_urun df"] by simp
  finally show ?thesis .
qed

lemma star_sum:
  "ps_puan_5_oran (product_stats_of a rs) + ps_puan_4_oran (product_stats_of a rs) +
   ps_puan_3_oran (product_stats_of a rs) + ps_puan_2_oran (product_stats_of a rs) +
   ps_puan_1_oran (product_stats_of a rs) = ratio (count_where (\<lambda>x. 1 \<le> x \<and> x \<le> 5) rs) (length rs)"
  by (simp add: product_stats_of_def Let_def ratio_add star_counts)

text \<open>
  C16. The five per-star proportions of a product sum to 1 exactly when every review of the
  product carries a star rating between 1 and 5; a review without a rating (which the
  scraper produces) makes the sum smaller.
\<close>

theorem star_proportions_sum:
  assumes "create_product_features df = Inr res" "s \<in> set res"
  shows "ps_puan_5_oran s + ps_puan_4_oran s + ps_puan_3_oran s + ps_puan_2_oran s + ps_puan_1_oran s = 1
         \<longleftrightarrow> (\<forall>r\<in>set df. rv_urun r = Some (ps_urun s) \<longrightarrow> (\<exists>x. rv_puan r = Some x \<and> 1 \<le> x \<and> x \<le> 5))"
proof -
  obtain a where s: "s = product_stats_of a (filter (\<lambda>r. rv_urun r = Some a) df)"
    and ne: "filter (\<lambda>r. rv_urun r = Some a) df \<noteq> []"
    using assms by (rule create_product_features_Inr)
  let ?rs = "filter (\<lambda>r. rv_urun r = Some a) df"
  have "ratio (count_where (\<lambda>x. 1 \<le> x \<and> x \<le> 5) ?rs) (length ?rs) = 1 \<longleftrightarrow>
        count_where (\<lambda>x. 1 \<le> x \<and> x \<le> 5) ?rs = length ?rs"
    using ne by (auto simp: ratio_def)
  also have "\<dots> \<longleftrightarrow> (\<forall>r\<in>set ?rs. \<exists>x. rv_puan r = Some x \<and> 1 \<le> x \<and> x \<le> 5)"
    by (rule count_where_all)
  finally show ?thesis
    unfolding s star_sum by (auto simp: product_stats_of_def Let_def)
qed

text \<open>
  C17. \<open>_calculate_review_velocity\<close> is the specified rate: the review count divided by
  the day span, where a zero span counts as one day; no division by zero occurs.
\<close>

theorem review_velocity_refines:
  assumes "rs \<noteq> []"
  shows "calculate_review_velocity rs =
           real (length rs) / real_of_int (max 1 (Max (set (map rv_date rs)) - Min (set (map rv_date rs))))"
proof -
  have "rv_date (hd rs) \<in> set (map rv_date rs)"
    using assms by simp
  then have "Min (set (map rv_date rs)) \<le> Max (set (map rv_date rs))"
    by (meson Max_ge Min_le finite_set order_trans)
  then show ?thesis
    by (simp add: calculate_review_velocity_def Let_def max_def)
qed

section \<open>The properties at concrete tables\<close>

lemma product_stats_of_fields [simp]:
  "ps_urun (product_stats_of a rs) = a"
  "ps_toplam_yorum_sayisi (product_stats_of a rs) = length rs"
  by (simp_all add: product_stats_of_def Let_def)

lemma demo_df_features:
  "create_product_features demo_df =
     Inr [product_stats_of ''a'' [demo_review ''a'' 1 (Some 5) ''iyi'', demo_review ''a'' 3 (Some 4) ''fena degil''],
          product_stats_of ''b'' [demo_review ''b'' 2 (Some 1) ''kotu'']]"
  by (simp add: create_product_features_eq demo_df_def demo_review_def product_rows_def)

theorem create_product_features_rows_witness:
  "map ps_urun (projr (create_product_features demo_df)) = [''a'', ''b'']"
proof -
  have "None \<notin> rv_urun ` set demo_df"
    by (simp add: demo_df_def demo_review_def)
  then obtain res where "create_product_features demo_df = Inr res"
    and "map (\<lambda>s. Some (ps_urun s)) res = unique_first (map rv_urun demo_df)"
    using create_product_features_rows by blast
  then show ?thesis
    by (simp add: demo_df_def demo_review_def map_eq_Cons_conv)
qed

theorem create_product_features_partition_witness:
  "(\<Sum>s\<leftarrow>projr (create_product_features demo_df). ps_toplam_yorum_sayisi s) = 3"
  unfolding demo_df_features
  using create_product_features_partition [OF demo_df_features]
  by (simp add: demo_df_def)

theorem star_proportions_sum_witness:
  "ps_puan_5_oran (hd (projr (create_product_features unrated_df))) +
   ps_puan_4_oran (hd (projr (create_product_features unrated_df))) +
   ps_puan_3_oran (hd (projr (create_product_features unrated_df))) +
   ps_puan_2_oran (hd (projr (create_product_features unrated_df))) +
   ps_puan_1_oran (hd (projr (create_product_features unrated_df))) \<noteq> 1"
proof -
  let ?s = "product_stats_of ''p'' unrated_df"
  have f: "create_product_features unrated_df = Inr [?s]"
    by (simp add: create_product_features_eq unrated_df_def demo_review_def product_rows_def)
  have "\<not> (\<forall>r\<in>set unrated_df. rv_urun r = Some (ps_urun ?s) \<longrightarrow>
              (\<exists>x. rv_puan r = Some x \<and> 1 \<le> x \<and> x \<le> 5))"
    by (simp add: unrated_df_def demo_review_def)
  then show ?thesis
    using star_proportions_sum [OF f] by (simp add: f)
qed

theorem review_velocity_refines_witness:
  "calculate_review_velocity [demo_review ''p'' 7 (Some 5) ''iyi'', demo_review ''p'' 7 (Some 4) ''guzel''] = 2"
  using review_velocity_refines [of "[demo_review ''p'' 7 (Some 5) ''iyi'', demo_review ''p'' 7 (Some 4) ''guzel'']"]
  by (simp add: demo_review_def)

end
