(* ===== verification/RiskClassifier.thy ===== *)
theory RiskClassifier
  imports BaseMetrics
begin

text \<open>
  The risk rule engine of \<open>src/scripts/llm_extraction.py\<close>, at both of its call
  sites: \<open>_calculate_risk_class\<close> (incremental, on the reply dict of one product,
  right after extraction) and \<open>classify_product\<close> inside \<open>create_risk_class\<close> (batch,
  on a row of the merged table). Both return the class code (0 Healthy, 1 Quality
  Churn, 2 Engagement Churn) and the score, or the exception Python raises.
  \<open>classify\<close> is the rule as the specification states it, on a typed sentiment
  summary; \<open>abs_sentiment\<close> reads a reply dict as such a summary, with the
  specification's defaults for absent fields.
\<close>

section \<open>Column names\<close>

text \<open>\<open>'\<Uu>r\<uu>n'\<close> (product) in UTF-8: U+00DC and U+00FC are two bytes each.\<close>

definition col_urun :: string where
  "col_urun = [CHR 0xC3, CHR 0x9C, CHR ''r'', CHR 0xC3, CHR 0xBC, CHR ''n'']"

declare col_urun_def [py_simps]

abbreviation "k_fitment_problem \<equiv> ''fitment_problem''"
abbreviation "k_fitment_severity \<equiv> ''fitment_severity''"
abbreviation "k_fabric_quality_issue \<equiv> ''fabric_quality_issue''"
abbreviation "k_quality_sentiment \<equiv> ''quality_sentiment''"
abbreviation "k_delivery_issue \<equiv> ''delivery_issue''"
abbreviation "k_toplam_yorum \<equiv> ''Toplam_Yorum_Sayisi''"

section \<open>Incremental call site: \<open>_calculate_risk_class\<close>\<close>

text \<open>
  The product's total review count comes from the phase-1 table (first row with the
  product's name); a product absent from it gets \<open>(0, 0)\<close>. Absent reply fields
  take the \<open>.get\<close> defaults: None for the booleans, 0 for the severity, 5 for the
  quality sentiment. The severity is read only when \<open>fitment_problem == True\<close>
  (Python's \<open>and\<close> short-circuits).
\<close>

definition calculate_risk_class :: "product_stats list \<Rightarrow> pydict \<Rightarrow> py_error + int \<times> int" where
  "calculate_risk_class df_products row_dict =
     (let product_name = dict_get row_dict col_urun PyNone;
          product_info = filter (\<lambda>p. PyStr (ps_urun p) = product_name) df_products
      in if product_info = [] then Inr (0, 0)
      else let toplam_yorum = ps_toplam_yorum_sayisi (hd product_info) in
      if toplam_yorum < 5 then Inr (2, 0)
      else
        ebind (if py_is_true (dict_get row_dict k_fitment_problem PyNone)
               then py_ge (dict_get row_dict k_fitment_severity (PyInt 0)) 7
               else Inr False) (\<lambda>severe.
        let quality_risk =
              (if severe then 3
               else if py_is_true (dict_get row_dict k_fitment_problem PyNone) then 1 else 0);
            quality_risk = quality_risk +
              (if py_is_true (dict_get row_dict k_fabric_quality_issue PyNone) then 2 else 0);
            quality_sentiment = dict_get row_dict k_quality_sentiment (PyInt 5)
        in ebind (py_le quality_sentiment 2) (\<lambda>low.
        let quality_risk = quality_risk +
              (if low then 3 else if py_eq_num quality_sentiment 3 then 1 else 0);
            quality_risk = quality_risk +
              (if py_is_true (dict_get row_dict k_delivery_issue PyNone) then 1 else 0)
        in Inr (if 4 \<le> quality_risk then (1, quality_risk) else (0, quality_risk)))))"

section \<open>Batch call site: \<open>classify_product\<close>\<close>

text \<open>
  A row of the merged table is read with \<open>row[c]\<close>: a column missing from the
  table raises \<open>KeyError\<close>, a product without a reply holds NaN in every reply
  column. The count is the row's own \<open>Toplam_Yorum_Sayisi\<close> cell.
\<close>

definition classify_product :: "pydict \<Rightarrow> py_error + int \<times> int" where
  "classify_product row =
     ebind (row_get row k_toplam_yorum) (\<lambda>n. ebind (py_lt n 5) (\<lambda>few.
     if few then Inr (2, 0)
     else
       ebind (row_get row k_fitment_problem) (\<lambda>fp.
       ebind (if py_is_true fp
              then ebind (row_get row k_fitment_severity) (\<lambda>sev. py_ge sev 7)
              else Inr False) (\<lambda>severe.
       let quality_risk = (if severe then 3 else if py_is_true fp then 1 else 0) in
       ebind (row_get row k_fabric_quality_issue) (\<lambda>fq.
       let quality_risk = quality_risk + (if py_is_true fq then 2 else 0) in
       ebind (row_get row k_quality_sentiment) (\<lambda>qs.
       ebind (py_le qs 2) (\<lambda>low.
       let quality_risk = quality_risk +
             (if low then 3 else if py_eq_num qs 3 then 1 else 0) in
       ebind (row_get row k_delivery_issue) (\<lambda>di.
       let quality_risk = quality_risk + (if py_is_true di then 1 else 0) in
       Inr (if 4 \<le> quality_risk then (1, quality_risk) else (0, quality_risk))))))))))"

section \<open>The rule as specified\<close>

datatype risk_class = Healthy | QualityChurn | EngagementChurn

record sentiment =
  fitment_problem :: bool
  fitment_severity :: int
  quality_sentiment :: int
  delivery_issue :: bool
  color_mismatch :: bool
  fabric_quality_issue :: bool
  price_value_perception :: int
  main_complaint :: string

definition quality_risk :: "sentiment \<Rightarrow> nat" where
  "quality_risk s =
     (if fitment_problem s \<and> 7 \<le> fitment_severity s then 3
      else if fitment_problem s then 1 else 0)
     + (if fabric_quality_issue s then 2 else 0)
     + (if quality_sentiment s \<le> 2 then 3 else if quality_sentiment s = 3 then 1 else 0)
     + (if delivery_issue s then 1 else 0)"

definition classify :: "nat \<Rightarrow> sentiment \<Rightarrow> risk_class \<times> nat" where
  "classify review_count s =
     (if review_count < 5 then (EngagementChurn, 0)
      else let q = quality_risk s in
           if 4 \<le> q then (QualityChurn, q) else (Healthy, q))"

primrec risk_code :: "risk_class \<Rightarrow> int" where
  "risk_code Healthy = 0"
| "risk_code QualityChurn = 1"
| "risk_code EngagementChurn = 2"

definition encode_result :: "risk_class \<times> nat \<Rightarrow> int \<times> int" where
  "encode_result r = (risk_code (fst r), int (snd r))"

section \<open>Reading a reply dict as a sentiment summary\<close>

text \<open>
  A reply is well typed when each scored field is absent or has the JSON type the
  prompt asks for; absent fields take the specification's defaults. The three
  informational fields are read leniently: the rule never looks at them.
\<close>

definition bool_field :: "pydict \<Rightarrow> string \<Rightarrow> bool option" where
  "bool_field d k = (case map_of d k of None \<Rightarrow> Some False | Some (PyBool b) \<Rightarrow> Some b | Some _ \<Rightarrow> None)"

definition int_field :: "pydict \<Rightarrow> string \<Rightarrow> int \<Rightarrow> int option" where
  "int_field d k dflt = (case map_of d k of None \<Rightarrow> Some dflt | Some (PyInt i) \<Rightarrow> Some i | Some _ \<Rightarrow> None)"

definition abs_sentiment :: "pydict \<Rightarrow> sentiment option" where
  "abs_sentiment d =
     (case (bool_field d k_fitment_problem, int_field d k_fitment_severity 0,
            int_field d k_quality_sentiment 5, bool_field d k_delivery_issue,
            bool_field d k_fabric_quality_issue) of
        (Some fp, Some sev, Some qs, Some di, Some fq) \<Rightarrow>
          Some \<lparr> fitment_problem = fp, fitment_severity = sev, quality_sentiment = qs,
                 delivery_issue = di,
                 color_mismatch = (map_of d ''color_mismatch'' = Some (PyBool True)),
                 fabric_quality_issue = fq,
                 price_value_perception =
                   (case map_of d ''price_value_perception'' of Some (PyInt i) \<Rightarrow> i | _ \<Rightarrow> 0),
                 main_complaint =
                   (case map_of d ''main_complaint'' of Some (PyStr t) \<Rightarrow> t | _ \<Rightarrow> []) \<rparr>
      | _ \<Rightarrow> None)"

section \<open>The accumulated score, named\<close>

text \<open>
  Both call sites add the same four terms; naming the sum and the final threshold
  lets the proofs treat the accumulation as one value.
\<close>

definition risk_sum :: "bool \<Rightarrow> bool \<Rightarrow> bool \<Rightarrow> bool \<Rightarrow> bool \<Rightarrow> bool \<Rightarrow> int" where
  "risk_sum severe fp fq low mid di =
     (if severe then 3 else if fp then 1 else 0) + (if fq then 2 else 0)
     + (if low then 3 else if mid then 1 else 0) + (if di then 1 else 0)"

definition risk_threshold :: "int \<Rightarrow> int \<times> int" where
  "risk_threshold q = (if 4 \<le> q then (1, q) else (0, q))"

section \<open>Concrete inputs\<close>

definition demo_product :: "string \<Rightarrow> nat \<Rightarrow> product_stats" where
  "demo_product p n =
     \<lparr> ps_urun = p, ps_marka = ''demo'', ps_genel_puan = None, ps_toplam_yorum_sayisi = n,
       ps_puan_std = None, ps_min_puan = None, ps_max_puan = None,
       ps_puan_5_oran = 0, ps_puan_4_oran = 0, ps_puan_3_oran = 0, ps_puan_2_oran = 0,
       ps_puan_1_oran = 0, ps_negatif_oran = 0, ps_pozitif_oran = 0, ps_yorum_hizi = 0 \<rparr>"

text \<open>A reply as the prompt asks for it, with every scored flag raised.\<close>

definition demo_reply :: "string \<Rightarrow> pydict" where
  "demo_reply p =
     [(k_fitment_problem, PyBool True), (k_fitment_severity, PyInt 7),
      (k_quality_sentiment, PyInt 1), (k_delivery_issue, PyBool True),
      (''color_mismatch'', PyBool False), (''main_complaint'', PyStr ''fit''),
      (k_fabric_quality_issue, PyBool True), (''price_value_perception'', PyInt 2),
      (col_urun, PyStr p)]"

text \<open>A reply whose quality sentiment is JSON \<open>null\<close>.\<close>

definition null_reply :: "string \<Rightarrow> pydict" where
  "null_reply p = [(k_quality_sentiment, PyNone), (col_urun, PyStr p)]"

section \<open>Properties of the incremental call site\<close>

lemma calculate_risk_class_eq:
  "calculate_risk_class df_products row_dict =
     (let info = filter (\<lambda>p. PyStr (ps_urun p) = dict_get row_dict col_urun PyNone) df_products
      in if info = [] then Inr (0, 0)
      else if ps_toplam_yorum_sayisi (hd info) < 5 then Inr (2, 0)
      else
        ebind (if py_is_true (dict_get row_dict k_fitment_problem PyNone)
               then py_ge (dict_get row_dict k_fitment_severity (PyInt 0)) 7
               else Inr False) (\<lambda>severe.
        ebind (py_le (dict_get row_dict k_quality_sentiment (PyInt 5)) 2) (\<lambda>low.
        Inr (risk_threshold (risk_sum severe
               (py_is_true (dict_get row_dict k_fitment_problem PyNone))
               (py_is_true (dict_get row_dict k_fabric_quality_issue PyNone))
               low (py_eq_num (dict_get row_dict k_quality_sentiment (PyInt 5)) 3)
               (py_is_true (dict_get row_dict k_delivery_issue PyNone)))))))"
  unfolding calculate_risk_class_def risk_threshold_def risk_sum_def Let_def ..

lemma col_urun_ne [simp]:
  "''Yorum_Sayisi'' \<noteq> col_urun" "''Risk_Class'' \<noteq> col_urun" "''Risk_Score'' \<noteq> col_urun"
  "col_urun \<noteq> ''Yorum_Sayisi''" "col_urun \<noteq> ''Risk_Class''" "col_urun \<noteq> ''Risk_Score''"
  by (simp_all add: col_urun_def)

lemma product_found_iff:
  "filter (\<lambda>q. PyStr (ps_urun q) = v) df \<noteq> [] \<longleftrightarrow>
   (\<exists>p ps. v = PyStr p \<and> find (\<lambda>q. ps_urun q = p) df = Some ps)"
  by (cases v) (auto simp: filter_empty_conv ex_find_Some)

lemma product_found_hd:
  "find (\<lambda>q. ps_urun q = p) df = Some ps \<Longrightarrow>
   filter (\<lambda>q. PyStr (ps_urun q) = PyStr p) df \<noteq> [] \<and>
   hd (filter (\<lambda>q. PyStr (ps_urun q) = PyStr p) df) = ps"
  using find_Some_filter by simp

lemma risk_threshold_sum_bounds:
  assumes "risk_threshold (risk_sum a b e x y z) = (c, s)"
  shows "0 \<le> s \<and> s \<le> 9 \<and> (c = 1 \<longleftrightarrow> 4 \<le> s) \<and> c \<in> {0, 1, 2}"
proof -
  have "0 \<le> risk_sum a b e x y z \<and> risk_sum a b e x y z \<le> 9"
    by (simp add: risk_sum_def)
  with assms show ?thesis by (auto simp: risk_threshold_def split: if_splits)
qed

lemma bool_field_true: "bool_field d k = Some b \<Longrightarrow> py_is_true (dict_get d k PyNone) = b"
  by (auto simp: bool_field_def dict_get_def split: option.splits pyval.splits)

lemma int_field_get: "int_field d k x = Some i \<Longrightarrow> dict_get d k (PyInt x) = PyInt i"
  by (auto simp: int_field_def dict_get_def split: option.splits pyval.splits)

lemma abs_sentiment_SomeD:
  assumes "abs_sentiment d = Some s"
  shows "py_is_true (dict_get d k_fitment_problem PyNone) = fitment_problem s"
    and "dict_get d k_fitment_severity (PyInt 0) = PyInt (fitment_severity s)"
    and "dict_get d k_quality_sentiment (PyInt 5) = PyInt (quality_sentiment s)"
    and "py_is_true (dict_get d k_delivery_issue PyNone) = delivery_issue s"
    and "py_is_true (dict_get d k_fabric_quality_issue PyNone) = fabric_quality_issue s"
  using assms
  by (auto simp: abs_sentiment_def bool_field_true int_field_get split: option.splits)

lemma encode_classify:
  "encode_result (classify n s) =
     (if n < 5 then (2, 0)
      else risk_threshold (risk_sum (fitment_problem s \<and> 7 \<le> fitment_severity s)
             (fitment_problem s) (fabric_quality_issue s) (quality_sentiment s \<le> 2)
             (quality_sentiment s = 3) (delivery_issue s)))"
  by (simp add: encode_result_def classify_def quality_risk_def risk_threshold_def risk_sum_def Let_def)

text \<open>
  C1. Refinement: on a well-typed reply for a product of the phase-1 table, the
  incremental call site computes exactly the specified classification, encoded as the
  code's integer class and score.
\<close>

theorem calculate_risk_class_refines:
  assumes "abs_sentiment d = Some s"
    and "dict_get d col_urun PyNone = PyStr p"
    and "find (\<lambda>q. ps_urun q = p) df_products = Some ps"
  shows "calculate_risk_class df_products d =
         Inr (encode_result (classify (ps_toplam_yorum_sayisi ps) s))"
  using product_found_hd [OF assms(3)] abs_sentiment_SomeD [OF assms(1)] assms(2)
  by (simp add: calculate_risk_class_eq encode_classify py_simps)

theorem calculate_risk_class_refines_witness:
  "calculate_risk_class [demo_product ''p'' 10] (demo_reply ''p'') = Inr (1, 9)"
proof -
  have s: "abs_sentiment (demo_reply ''p'') =
           Some \<lparr> fitment_problem = True, fitment_severity = 7, quality_sentiment = 1,
                  delivery_issue = True, color_mismatch = False, fabric_quality_issue = True,
                  price_value_perception = 2, main_complaint = ''fit'' \<rparr>"
    by (simp add: abs_sentiment_def bool_field_def int_field_def demo_reply_def col_urun_def)
  have p: "dict_get (demo_reply ''p'') col_urun PyNone = PyStr ''p''"
    by (simp add: demo_reply_def dict_get_def col_urun_def)
  have f: "find (\<lambda>q. ps_urun q = ''p'') [demo_product ''p'' 10] = Some (demo_product ''p'' 10)"
    by (simp add: demo_product_def)
  show ?thesis
    using calculate_risk_class_refines [OF s p f]
    by (simp add: encode_result_def classify_def quality_risk_def demo_product_def)
qed

text \<open>
  C18. Bounds: a successful classification has a score between 0 and 9, class 1
  (Quality Churn) exactly when the score reaches the threshold 4, and a class among
  0, 1, 2.
\<close>

theorem calculate_risk_class_bounds:
  assumes "calculate_risk_class df d = Inr (c, s)"
  shows "0 \<le> s \<and> s \<le> 9 \<and> (c = 1 \<longleftrightarrow> 4 \<le> s) \<and> c \<in> {0, 1, 2}"
proof -
  let ?info = "filter (\<lambda>p. PyStr (ps_urun p) = dict_get d col_urun PyNone) df"
  show ?thesis
  proof (cases "?info = [] \<or> ps_toplam_yorum_sayisi (hd ?info) < 5")
    case True
    with assms show ?thesis
      by (auto simp: calculate_risk_class_eq Let_def split: if_split_asm)
  next
    case False
    with assms obtain a b e x y z where "risk_threshold (risk_sum a b e x y z) = (c, s)"
      unfolding calculate_risk_class_eq Let_def by (auto dest!: ebind2_Inr)
    then show ?thesis by (rule risk_threshold_sum_bounds)
  qed
qed

theorem calculate_risk_class_bounds_witness:
  "calculate_risk_class [demo_product ''p'' 10] (demo_reply ''p'') = Inr (1, 9) \<and>
   0 \<le> (9::int) \<and> 9 \<le> (9::int) \<and> ((1::int) = 1 \<longleftrightarrow> 4 \<le> (9::int))"
proof -
  have h: "calculate_risk_class [demo_product ''p'' 10] (demo_reply ''p'') = Inr (1, 9)"
    by (simp add: calculate_risk_class_def demo_product_def demo_reply_def py_simps Let_def)
  show ?thesis using calculate_risk_class_bounds [OF h] h by simp
qed

text \<open>
  C19. Engagement override: a product with fewer than five reviews in the phase-1
  table is classified Engagement Churn with score 0 whatever its reply holds, even a
  reply whose fields would make the score raise.
\<close>

theorem calculate_risk_class_engagement:
  assumes "dict_get d col_urun PyNone = PyStr p"
    and "find (\<lambda>q. ps_urun q = p) df = Some ps"
    and "ps_toplam_yorum_sayisi ps < 5"
  shows "calculate_risk_class df d = Inr (2, 0)"
  using product_found_hd [OF assms(2)] assms(1,3)
  by (simp add: calculate_risk_class_def)

theorem calculate_risk_class_engagement_witness:
  "calculate_risk_class [demo_product ''p'' 4] (null_reply ''p'') = Inr (2, 0)"
proof -
  have p: "dict_get (null_reply ''p'') col_urun PyNone = PyStr ''p''"
    by (simp add: null_reply_def dict_get_def col_urun_def)
  have f: "find (\<lambda>q. ps_urun q = ''p'') [demo_product ''p'' 4] = Some (demo_product ''p'' 4)"
    by (simp add: demo_product_def)
  show ?thesis
    using calculate_risk_class_engagement [OF p f] by (simp add: demo_product_def)
qed

text \<open>
  C3. Errors: the incremental call site raises exactly when the product is in the
  phase-1 table with at least five reviews and a comparison meets a value that has no
  order against a number: the severity when the fitment flag equals True, or the quality
  sentiment (JSON null, a string, a list or an object). The exception is always
  \<open>TypeError\<close>.
\<close>

theorem calculate_risk_class_error:
  "calculate_risk_class df d = Inl e \<longleftrightarrow>
     e = TypeError \<and>
     (\<exists>p ps. dict_get d col_urun PyNone = PyStr p \<and> find (\<lambda>q. ps_urun q = p) df = Some ps \<and>
             5 \<le> ps_toplam_yorum_sayisi ps) \<and>
     (py_is_true (dict_get d k_fitment_problem PyNone) \<and>
        \<not> py_orderable (dict_get d k_fitment_severity (PyInt 0)) \<or>
      \<not> py_orderable (dict_get d k_quality_sentiment (PyInt 5)))"
proof (cases "\<exists>p ps. dict_get d col_urun PyNone = PyStr p \<and> find (\<lambda>q. ps_urun q = p) df = Some ps")
  case True
  then obtain p ps where p: "dict_get d col_urun PyNone = PyStr p"
    and ps: "find (\<lambda>q. ps_urun q = p) df = Some ps" by blast
  show ?thesis
    using product_found_hd [OF ps] p ps
    by (auto simp: calculate_risk_class_eq ebind_eq_Inl py_order_defs py_cmp_Inl_iff
        py_cmp_not_Inr split: if_splits)
next
  case False
  then have "filter (\<lambda>q. PyStr (ps_urun q) = dict_get d col_urun PyNone) df = []"
    using product_found_iff by blast
  with False show ?thesis
    by (auto simp: calculate_risk_class_def)
qed

theorem calculate_risk_class_error_witness:
  "calculate_risk_class [demo_product ''p'' 10] (null_reply ''p'') = Inl TypeError"
proof -
  have "dict_get (null_reply ''p'') col_urun PyNone = PyStr ''p'' \<and>
        find (\<lambda>q. ps_urun q = ''p'') [demo_product ''p'' 10] = Some (demo_product ''p'' 10) \<and>
        5 \<le> ps_toplam_yorum_sayisi (demo_product ''p'' 10)"
    by (simp add: null_reply_def dict_get_def col_urun_def demo_product_def)
  moreover have "\<not> py_orderable (dict_get (null_reply ''p'') k_quality_sentiment (PyInt 5))"
    by (simp add: null_reply_def dict_get_def col_urun_def py_orderable_def)
  ultimately show ?thesis
    using calculate_risk_class_error [of "[demo_product ''p'' 10]" "null_reply ''p''" TypeError]
    by blast
qed

end
