(* ===== verification/PyString.thy ===== *)
theory PyString
  imports Prelude "HOL-Library.Sublist"
begin

text \<open>
  Python's \<open>str\<close> methods that the scripts apply to scraped and parsed text. A Python
  string is modelled as the list of its UTF-8 bytes (\<open>string\<close>). For the operations
  below that only compare whole needles (\<open>replace\<close>, \<open>in\<close>, \<open>split\<close>, \<open>endswith\<close>),
  byte-level and code-point-level results coincide on well-formed UTF-8, since UTF-8 is
  self-synchronising: a match of an encoded needle can only start at a character
  boundary. \<open>strip\<close> and \<open>lower\<close> are modelled on ASCII characters; the Unicode
  whitespace and case mappings of non-ASCII characters are not.
\<close>

section \<open>strip and rstrip\<close>

text \<open>\<open>str.strip()\<close> on the ASCII whitespace Python recognises.\<close>

definition py_space :: "char \<Rightarrow> bool" where
  "py_space c \<longleftrightarrow> c \<in> {CHR 0x20, CHR 0x09, CHR 0x0A, CHR 0x0B, CHR 0x0C, CHR 0x0D,
                     CHR 0x1C, CHR 0x1D, CHR 0x1E, CHR 0x1F}"

definition py_strip :: "string \<Rightarrow> string" where
  "py_strip s = rev (dropWhile py_space (rev (dropWhile py_space s)))"

text \<open>\<open>s.rstrip(c)\<close> for a single character \<open>c\<close>.\<close>

definition py_rstrip_char :: "char \<Rightarrow> string \<Rightarrow> string" where
  "py_rstrip_char c s = rev (dropWhile (\<lambda>x. x = c) (rev s))"

section \<open>replace\<close>

text \<open>
  \<open>s.replace(old, new)\<close>: the occurrences of \<open>old\<close> are found from the left and replaced
  without overlap. For an empty \<open>old\<close>, Python inserts \<open>new\<close> before every character
  and at the end.
\<close>

fun replace_from :: "string \<Rightarrow> string \<Rightarrow> string \<Rightarrow> string" where
  "replace_from old new [] = []"
| "replace_from old new (c # s) =
     (if old \<noteq> [] \<and> prefix old (c # s)
      then new @ replace_from old new (drop (length old - 1) s)
      else c # replace_from old new s)"

definition py_replace :: "string \<Rightarrow> string \<Rightarrow> string \<Rightarrow> string" where
  "py_replace old new s =
     (if old = [] then new @ concat (map (\<lambda>c. [c] @ new) s) else replace_from old new s)"

section \<open>split, in, endswith, lower\<close>

text \<open>\<open>s.split(sep, 1)\<close> for a one-character separator: one or two parts.\<close>

definition py_split1 :: "char \<Rightarrow> string \<Rightarrow> string list" where
  "py_split1 c s =
     (if c \<in> set s then [takeWhile (\<lambda>x. x \<noteq> c) s, tl (dropWhile (\<lambda>x. x \<noteq> c) s)] else [s])"

text \<open>\<open>s.split(sep)\<close> for a one-character separator: always at least one part.\<close>

fun py_split :: "char \<Rightarrow> string \<Rightarrow> string list" where
  "py_split c [] = [[]]"
| "py_split c (x # xs) =
     (if x = c then [] # py_split c xs
      else (case py_split c xs of [] \<Rightarrow> [[x]] | y # ys \<Rightarrow> (x # y) # ys))"

text \<open>\<open>x in s\<close> on strings and \<open>s.endswith(x)\<close>.\<close>

definition py_in :: "string \<Rightarrow> string \<Rightarrow> bool" where
  "py_in x s \<longleftrightarrow> sublist x s"

definition py_endswith :: "string \<Rightarrow> string \<Rightarrow> bool" where
  "py_endswith s x \<longleftrightarrow> suffix x s"

text \<open>\<open>str.lower()\<close> on ASCII letters.\<close>

definition ascii_lower :: "char \<Rightarrow> char" where
  "ascii_lower c = (if 65 \<le> (of_char c :: nat) \<and> (of_char c :: nat) \<le> 90 then char_of (of_char c + (32::nat)) else c)"

definition py_lower :: "string \<Rightarrow> string" where
  "py_lower s = map ascii_lower s"

section \<open>Lemmas\<close>

lemma dropWhile_keep: "xs \<noteq> [] \<Longrightarrow> \<not> P (hd xs) \<Longrightarrow> dropWhile P xs = xs"
  by (cases xs) auto

lemma py_strip_pad:
  assumes "\<forall>c\<in>set ws1. py_space c" and "\<forall>c\<in>set ws2. py_space c"
    and "b \<noteq> []" and "\<not> py_space (hd b)" and "\<not> py_space (last b)"
  shows "py_strip (ws1 @ b @ ws2) = b"
proof -
  have "dropWhile py_space (ws1 @ b @ ws2) = b @ ws2"
    using assms by (simp add: dropWhile_append2 dropWhile_keep)
  moreover have "dropWhile py_space (rev ws2 @ rev b) = dropWhile py_space (rev b)"
    by (rule dropWhile_append2) (use assms in auto)
  moreover have "dropWhile py_space (rev b) = rev b"
    by (rule dropWhile_keep) (use assms in \<open>auto simp: hd_rev\<close>)
  ultimately show ?thesis by (simp add: py_strip_def)
qed

text \<open>Replacing where the needle does not occur changes nothing.\<close>

lemma replace_from_absent: "\<not> sublist old s \<Longrightarrow> replace_from old new s = s"
proof (induction s)
  case (Cons c s)
  then have "\<not> prefix old (c # s)" "\<not> sublist old s"
    by (simp_all add: sublist_Cons_right)
  with Cons.IH show ?case by simp
qed simp

lemma replace_from_skip:
  "old \<noteq> [] \<Longrightarrow> hd old \<notin> set a \<Longrightarrow> replace_from old new (a @ s) = a @ replace_from old new s"
proof (induction a)
  case (Cons c a)
  then have "\<not> prefix old (c # a @ s)"
    by (cases old) auto
  with Cons show ?case by simp
qed simp

lemma replace_from_hit:
  "old \<noteq> [] \<Longrightarrow> replace_from old new (old @ s) = new @ replace_from old new s"
  by (cases old) simp_all

text \<open>
  An occurrence of a needle made of letters in \<open>x @ b\<close>, where \<open>b\<close> has no letter,
  lies inside \<open>x\<close>; likewise on the left.
\<close>

lemma sublist_append_nonletters:
  assumes "sublist old (x @ b)" "old \<noteq> []" "set old \<subseteq> L" "set b \<inter> L = {}"
  shows "sublist old x"
proof -
  have "\<not> sublist old b"
    using assms(2-4) by (auto dest!: set_mono_sublist simp: neq_Nil_conv)
  moreover have False if "old = xs1 @ xs2" "suffix xs1 x" "prefix xs2 b" "xs2 \<noteq> []" for xs1 xs2
    using that assms(3,4) by (cases xs2) (auto simp: prefix_def)
  ultimately show ?thesis
    using assms(1) unfolding sublist_append by (metis append_Nil2 suffix_imp_sublist)
qed

lemma sublist_prepend_nonletters:
  assumes "sublist old (a @ x)" "old \<noteq> []" "set old \<subseteq> L" "set a \<inter> L = {}"
  shows "sublist old x"
proof -
  have "sublist (rev old) (rev x @ rev a)"
    using assms(1) by (metis rev_append sublist_rev)
  then have "sublist (rev old) (rev x)"
    by (rule sublist_append_nonletters) (use assms(2-4) in auto)
  then show ?thesis
    by (simp add: sublist_rev)
qed

text \<open>\<open>split(c, 1)\<close> on a string with and without the separator.\<close>

lemma py_split1_hit: "c \<notin> set a \<Longrightarrow> py_split1 c (a @ c # q) = [a, q]"
  by (simp add: py_split1_def takeWhile_append dropWhile_append)

lemma py_split1_miss: "c \<notin> set a \<Longrightarrow> py_split1 c a = [a]"
  by (simp add: py_split1_def)

lemma py_split1_cases:
  obtains a where "c \<notin> set a" "l = a" "py_split1 c l = [a]"
  | a q where "c \<notin> set a" "l = a @ c # q" "py_split1 c l = [a, q]"
proof (cases "c \<in> set l")
  case True
  then obtain a q where "l = a @ c # q" "c \<notin> set a"
    by (blast dest: split_list_first)
  with that(2) show ?thesis
    using py_split1_hit by blast
qed (simp add: py_split1_def)

lemma rstrip_no_char: "c \<notin> set s \<Longrightarrow> c \<notin> set (py_rstrip_char d s)"
  by (auto simp: py_rstrip_char_def dest: set_dropWhileD)

text \<open>Splitting undoes joining with the separator, when no part contains it.\<close>

lemma py_split_no_sep: "c \<notin> set x \<Longrightarrow> py_split c x = [x]"
  by (induction x) auto

lemma py_split_sep: "c \<notin> set x \<Longrightarrow> py_split c (x @ c # rest) = x # py_split c rest"
proof (induction x)
  case (Cons a x)
  moreover have "py_split c rest \<noteq> []" by (cases rest) (auto split: list.split)
  ultimately show ?case by (auto split: list.split)
qed simp

lemma py_split_join:
  "xs \<noteq> [] \<Longrightarrow> \<forall>x\<in>set xs. c \<notin> set x \<Longrightarrow> py_split c (py_join [c] xs) = xs"
proof (induction "[c]" xs rule: py_join.induct)
  case (3 x y xs)
  then show ?case by (simp add: py_split_sep)
qed (simp_all add: py_split_no_sep)

end
