(* ===== verification/SentimentExtractor.thy ===== *)
theory SentimentExtractor
  imports BaseMetrics PyString "HOL-Library.Multiset"
begin

text \<open>
  The boundary to the language model in \<open>src/scripts/llm_extraction.py\<close>:
  \<open>extract_product_comments\<close> (the 100 most recent reviews of a product),
  \<open>create_llm_prompt\<close> (the comment block of the prompt) and \<open>call_llm_api\<close>
  (the cleaning of the reply text before \<open>json.loads\<close>). The model itself and the
  JSON parser are parameters: \<open>llm_oracle\<close> gives the reply text or \<open>None\<close> when the
  client call raises, \<open>json_parser\<close> the parsed value or \<open>None\<close> on
  \<open>JSONDecodeError\<close>. \<open>call_llm_api\<close> catches every exception, so its result is
  \<open>None\<close> in both cases.
\<close>

datatype llm_prompt = Prompt string

type_synonym llm_oracle = "llm_prompt \<Rightarrow> string option"
type_synonym json_parser = "string \<Rightarrow> pyval option"

section \<open>Choosing the comments\<close>

text \<open>
  \<open>df[df['Urun'] == p].sort_values('parsed_date', ascending=False).head(100)\<close>:
  the product's reviews, most recent first, at most \<open>max_comments\<close> of them. pandas
  leaves the order of reviews of the same day to its sort; the model keeps them in table
  order (a stable sort on the negated day).
\<close>

definition recent_reviews :: "review list \<Rightarrow> string \<Rightarrow> nat \<Rightarrow> review list" where
  "recent_reviews df_reviews product_name max_comments =
     take max_comments (sort_key (\<lambda>r. - rv_date r)
       (filter (\<lambda>r. rv_urun r = Some product_name) df_reviews))"

definition extract_product_comments :: "review list \<Rightarrow> string \<Rightarrow> nat \<Rightarrow> string option list" where
  "extract_product_comments df_reviews product_name max_comments =
     map rv_duzeltilmis_yorum (recent_reviews df_reviews product_name max_comments)"

text \<open>
  The prompt (lines 155--226): the comment block, one line \<open>- comment\<close> per comment
  that is present (\<open>pd.notna\<close>) and not the scraper's error marker \<open>HATA\<close>, joined by
  newlines, between the fixed instruction text before it (\<open>prompt_head\<close>) and after it
  (\<open>prompt_tail\<close>). The f-string's \<open>{{\<close> and \<open>}}\<close> are single braces in the text;
  the text is written as its UTF-8 bytes.
\<close>

abbreviation newline :: string where "newline \<equiv> [CHR 0x0A]"

definition comment_lines :: "string option list \<Rightarrow> string list" where
  "comment_lines comments =
     List.map_filter (\<lambda>c. case c of Some t \<Rightarrow> if t \<noteq> ''HATA'' then Some (''- '' @ t) else None
                                | None \<Rightarrow> None) comments"

definition prompt_head :: string where
  \<open>prompt_head =
      ''Bir e-ticaret '' @ [CHR 0xC3, CHR 0xBC] @ ''r'' @ [CHR 0xC3, CHR 0xBC] @ ''n'' @ [CHR 0xC3, CHR 0xBC] @ ''ne ait kullan'' @ [CHR 0xC4, CHR 0xB1] @ ''c'' @ [CHR 0xC4, CHR 0xB1] @ '' yorumlar'' @ [CHR 0xC4, CHR 0xB1] @ ''n'' @ [CHR 0xC4, CHR 0xB1] @ '' analiz ediyorsun. G'' @ [CHR 0xC3, CHR 0xB6] @ ''revin, GENEL e'' @ [CHR 0xC4, CHR 0x9F] @ ''ilimi belirlemek (birka'' @ [CHR 0xC3, CHR 0xA7] @ '' ayk'' @ [CHR 0xC4, CHR 0xB1] @ ''r'' @ [CHR 0xC4, CHR 0xB1] @ '' yorumu de'' @ [CHR 0xC4, CHR 0x9F] @ ''il).'' @ newline @
      newline @
      ''YORUMLAR:'' @ newline\<close>

definition prompt_tail :: string where
  \<open>prompt_tail =
      newline @
      newline @
      ''A'' @ [CHR 0xC5, CHR 0x9F] @ ''a'' @ [CHR 0xC4, CHR 0x9F, CHR 0xC4, CHR 0xB1] @ ''daki bilgileri JSON format'' @ [CHR 0xC4, CHR 0xB1] @ ''nda '' @ [CHR 0xC3, CHR 0xA7, CHR 0xC4, CHR 0xB1] @ ''kar. SADECE JSON '' @ [CHR 0xC3, CHR 0xA7, CHR 0xC4, CHR 0xB1] @ ''kt'' @ [CHR 0xC4, CHR 0xB1] @ ''s'' @ [CHR 0xC4, CHR 0xB1] @ '' ver, ba'' @ [CHR 0xC5, CHR 0x9F] @ ''ka a'' @ [CHR 0xC3, CHR 0xA7, CHR 0xC4, CHR 0xB1] @ ''klama ekleme:'' @ newline @
      newline @
      ''{'' @ newline @
      ''  "fitment_problem": true/false,'' @ newline @
      ''  "fitment_severity": 0-10,'' @ newline @
      ''  "quality_sentiment": 1-5,'' @ newline @
      ''  "delivery_issue": true/false,'' @ newline @
      ''  "color_mismatch": true/false,'' @ newline @
      ''  "main_complaint": "string",'' @ newline @
      ''  "fabric_quality_issue": true/false,'' @ newline @
      ''  "price_value_perception": 1-5'' @ newline @
      ''}'' @ newline @
      newline @
      ''KR'' @ [CHR 0xC4, CHR 0xB0] @ ''T'' @ [CHR 0xC4, CHR 0xB0] @ ''K KURALLAR - '' @ [CHR 0xC3, CHR 0x87] @ ''OK '' @ [CHR 0xC3, CHR 0x96] @ ''NEML'' @ [CHR 0xC4, CHR 0xB0] @ '':'' @ newline @
      newline @
      ''1. fitment_problem: SADECE yorumlar'' @ [CHR 0xC4, CHR 0xB1] @ ''n %20'' @ [CHR 0x27] @ ''sinden FAZLASI (5'' @ [CHR 0x27] @ ''te 1'' @ [CHR 0x27] @ ''i) beden/kal'' @ [CHR 0xC4, CHR 0xB1] @ ''p problemi belirtiyorsa TRUE. '' @ newline @
      ''   '' @ [CHR 0xC3, CHR 0x96] @ ''rnek: 100 yorumda 20'' @ [CHR 0x27] @ ''den fazlas'' @ [CHR 0xC4, CHR 0xB1] @ '' "b'' @ [CHR 0xC3, CHR 0xBC] @ ''y'' @ [CHR 0xC3, CHR 0xBC] @ ''k/k'' @ [CHR 0xC3, CHR 0xBC, CHR 0xC3, CHR 0xA7, CHR 0xC3, CHR 0xBC] @ ''k/bol/dar" diyorsa TRUE, de'' @ [CHR 0xC4, CHR 0x9F] @ ''ilse FALSE.'' @ newline @
      newline @
      ''2. fabric_quality_issue: SADECE yorumlar'' @ [CHR 0xC4, CHR 0xB1] @ ''n %20'' @ [CHR 0x27] @ ''sinden FAZLASI kuma'' @ [CHR 0xC5, CHR 0x9F] @ '' kalitesinden '' @ [CHR 0xC5, CHR 0x9F] @ ''ikayet ediyorsa TRUE.'' @ newline @
      ''   '' @ [CHR 0xC3, CHR 0x96] @ ''rnek: 100 yorumda 20'' @ [CHR 0x27] @ ''den fazlas'' @ [CHR 0xC4, CHR 0xB1] @ '' "kuma'' @ [CHR 0xC5, CHR 0x9F] @ '' k'' @ [CHR 0xC3, CHR 0xB6] @ ''t'' @ [CHR 0xC3, CHR 0xBC] @ ''/ince/kalitesiz" diyorsa TRUE, de'' @ [CHR 0xC4, CHR 0x9F] @ ''ilse FALSE.'' @ newline @
      newline @
      ''3. delivery_issue: SADECE yorumlar'' @ [CHR 0xC4, CHR 0xB1] @ ''n %20'' @ [CHR 0x27] @ ''sinden FAZLASI teslimat sorunu belirtiyorsa TRUE.'' @ newline @
      newline @
      ''4. color_mismatch: SADECE yorumlar'' @ [CHR 0xC4, CHR 0xB1] @ ''n %20'' @ [CHR 0x27] @ ''sinden FAZLASI renk uyumsuzlu'' @ [CHR 0xC4, CHR 0x9F] @ ''u belirtiyorsa TRUE.'' @ newline @
      newline @
      ''5. quality_sentiment: '' @ [CHR 0xC3, CHR 0x87] @ ''O'' @ [CHR 0xC4, CHR 0x9E] @ ''UNLU'' @ [CHR 0xC4, CHR 0x9E] @ ''UN genel kalite alg'' @ [CHR 0xC4, CHR 0xB1] @ ''s'' @ [CHR 0xC4, CHR 0xB1] @ ''n'' @ [CHR 0xC4, CHR 0xB1] @ '' yans'' @ [CHR 0xC4, CHR 0xB1] @ ''t.'' @ newline @
      ''   - '' @ [CHR 0xC3, CHR 0x87] @ ''o'' @ [CHR 0xC4, CHR 0x9F] @ ''unluk "m'' @ [CHR 0xC3, CHR 0xBC] @ ''kemmel/harika/kaliteli" diyorsa '' @ [CHR 0xE2, CHR 0x86, CHR 0x92] @ '' 5'' @ newline @
      ''   - '' @ [CHR 0xC3, CHR 0x87] @ ''o'' @ [CHR 0xC4, CHR 0x9F] @ ''unluk "iyi/g'' @ [CHR 0xC3, CHR 0xBC] @ ''zel" diyorsa '' @ [CHR 0xE2, CHR 0x86, CHR 0x92] @ '' 4'' @ newline @
      ''   - '' @ [CHR 0xC3, CHR 0x87] @ ''o'' @ [CHR 0xC4, CHR 0x9F] @ ''unluk "orta" diyorsa '' @ [CHR 0xE2, CHR 0x86, CHR 0x92] @ '' 3'' @ newline @
      ''   - '' @ [CHR 0xC3, CHR 0x87] @ ''o'' @ [CHR 0xC4, CHR 0x9F] @ ''unluk "k'' @ [CHR 0xC3, CHR 0xB6] @ ''t'' @ [CHR 0xC3, CHR 0xBC] @ ''" diyorsa '' @ [CHR 0xE2, CHR 0x86, CHR 0x92] @ '' 2'' @ newline @
      ''   - '' @ [CHR 0xC3, CHR 0x87] @ ''o'' @ [CHR 0xC4, CHR 0x9F] @ ''unluk "berbat" diyorsa '' @ [CHR 0xE2, CHR 0x86, CHR 0x92] @ '' 1'' @ newline @
      newline @
      ''6. main_complaint: En s'' @ [CHR 0xC4, CHR 0xB1] @ ''k tekrarlanan ciddi '' @ [CHR 0xC5, CHR 0x9F] @ ''ikayeti yaz. E'' @ [CHR 0xC4, CHR 0x9F] @ ''er ciddi '' @ [CHR 0xC5, CHR 0x9F] @ ''ikayet yoksa "Genel memnuniyet y'' @ [CHR 0xC3, CHR 0xBC] @ ''ksek" yaz.'' @ newline @
      newline @
      ''7. fitment_severity & price_value_perception: 0-10 aras'' @ [CHR 0xC4, CHR 0xB1] @ '', GENEL e'' @ [CHR 0xC4, CHR 0x9F] @ ''ilimi yans'' @ [CHR 0xC4, CHR 0xB1] @ ''t.'' @ newline @
      newline @
      [CHR 0xC3, CHR 0x96] @ ''RNEKLER:'' @ newline @
      newline @
      ''Senaryo 1:'' @ newline @
      ''- 100 yorum'' @ newline @
      ''- 95 ki'' @ [CHR 0xC5, CHR 0x9F] @ ''i: "M'' @ [CHR 0xC3, CHR 0xBC] @ ''kemmel, harika, bay'' @ [CHR 0xC4, CHR 0xB1] @ ''ld'' @ [CHR 0xC4, CHR 0xB1] @ ''m"'' @ newline @
      ''- 3 ki'' @ [CHR 0xC5, CHR 0x9F] @ ''i: "Beden b'' @ [CHR 0xC3, CHR 0xBC] @ ''y'' @ [CHR 0xC3, CHR 0xBC] @ ''k geldi"'' @ newline @
      ''- 2 ki'' @ [CHR 0xC5, CHR 0x9F] @ ''i: "Kuma'' @ [CHR 0xC5, CHR 0x9F] @ '' ince"'' @ newline @
      [CHR 0xE2, CHR 0x86, CHR 0x92] @ '' fitment_problem: FALSE (%3 < %20)'' @ newline @
      [CHR 0xE2, CHR 0x86, CHR 0x92] @ '' fabric_quality_issue: FALSE (%2 < %20)'' @ newline @
      [CHR 0xE2, CHR 0x86, CHR 0x92] @ '' quality_sentiment: 5'' @ newline @
      [CHR 0xE2, CHR 0x86, CHR 0x92] @ '' main_complaint: "Genel memnuniyet y'' @ [CHR 0xC3, CHR 0xBC] @ ''ksek"'' @ newline @
      newline @
      ''Senaryo 2:'' @ newline @
      ''- 100 yorum'' @ newline @
      ''- 30 ki'' @ [CHR 0xC5, CHR 0x9F] @ ''i: "Beden '' @ [CHR 0xC3, CHR 0xA7] @ ''ok b'' @ [CHR 0xC3, CHR 0xBC] @ ''y'' @ [CHR 0xC3, CHR 0xBC] @ ''k, kal'' @ [CHR 0xC4, CHR 0xB1] @ ''p k'' @ [CHR 0xC3, CHR 0xB6] @ ''t'' @ [CHR 0xC3, CHR 0xBC] @ ''"'' @ newline @
      ''- 70 ki'' @ [CHR 0xC5, CHR 0x9F] @ ''i: "G'' @ [CHR 0xC3, CHR 0xBC] @ ''zel '' @ [CHR 0xC3, CHR 0xBC] @ ''r'' @ [CHR 0xC3, CHR 0xBC] @ ''n"'' @ newline @
      [CHR 0xE2, CHR 0x86, CHR 0x92] @ '' fitment_problem: TRUE (%30 > %20)'' @ newline @
      [CHR 0xE2, CHR 0x86, CHR 0x92] @ '' fitment_severity: 7 (ciddi problem)'' @ newline @
      [CHR 0xE2, CHR 0x86, CHR 0x92] @ '' quality_sentiment: 4 ('' @ [CHR 0xC3, CHR 0xA7] @ ''o'' @ [CHR 0xC4, CHR 0x9F] @ ''unluk memnun)'' @ newline @
      [CHR 0xE2, CHR 0x86, CHR 0x92] @ '' main_complaint: "Beden b'' @ [CHR 0xC3, CHR 0xBC] @ ''y'' @ [CHR 0xC3, CHR 0xBC] @ ''k geliyor"'' @ newline @
      newline @
      ''SADECE YAYGIN SORUNLARI RAPORLA! Birka'' @ [CHR 0xC3, CHR 0xA7] @ '' ki'' @ [CHR 0xC5, CHR 0x9F] @ ''inin s'' @ [CHR 0xC3, CHR 0xB6] @ ''ylemesi SORUN DE'' @ [CHR 0xC4, CHR 0x9E, CHR 0xC4, CHR 0xB0] @ ''LD'' @ [CHR 0xC4, CHR 0xB0] @ ''R.''\<close>

definition create_llm_prompt :: "string option list \<Rightarrow> llm_prompt" where
  "create_llm_prompt comments = Prompt (prompt_head @ py_join newline (comment_lines comments) @ prompt_tail)"

section \<open>Cleaning the reply\<close>

abbreviation fence :: string where "fence \<equiv> ''```''"

text \<open>
  The markdown fence removal of \<open>call_llm_api\<close>, in the code's order: a leading
  \<open>```json\<close>, then a leading \<open>```\<close>, then a trailing \<open>```\<close>, then strip.
\<close>

definition clean_response :: "string \<Rightarrow> string" where
  "clean_response response =
     (let t = py_strip response;
          t = (if prefix ''```json'' t then drop 7 t else t);
          t = (if prefix fence t then drop 3 t else t);
          t = (if suffix fence t then take (length t - 3) t else t)
      in py_strip t)"

definition call_llm_api :: "llm_oracle \<Rightarrow> json_parser \<Rightarrow> llm_prompt \<Rightarrow> pyval option" where
  "call_llm_api llm json_loads prompt =
     (case llm prompt of None \<Rightarrow> None | Some text \<Rightarrow> json_loads (clean_response text))"

text \<open>Python truthiness of a parsed reply, as \<open>if llm_result:\<close> tests it.\<close>

fun py_truthy :: "pyval \<Rightarrow> bool" where
  "py_truthy PyNone = False"
| "py_truthy (PyBool b) = b"
| "py_truthy (PyInt i) = (i \<noteq> 0)"
| "py_truthy (PyFloat r) = (r \<noteq> 0)"
| "py_truthy PyNaN = True"
| "py_truthy (PyStr s) = (s \<noteq> [])"
| "py_truthy (PyList xs) = (xs \<noteq> [])"
| "py_truthy (PyDict d) = (d \<noteq> [])"

section \<open>Concrete inputs\<close>

text \<open>A text that \<open>json.loads\<close> would see unchanged: no surrounding space or fence.\<close>

definition json_body :: "string \<Rightarrow> bool" where
  "json_body b \<longleftrightarrow> b \<noteq> [] \<and> \<not> py_space (hd b) \<and> \<not> py_space (last b) \<and>
                   hd b \<noteq> CHR ''`'' \<and> last b \<noteq> CHR ''`''"

text \<open>The comment block of a prompt: what lies between the fixed head and tail.\<close>

definition prompt_comment_block :: "llm_prompt \<Rightarrow> string" where
  "prompt_comment_block p =
     (case p of Prompt t \<Rightarrow> take (length t - length prompt_head - length prompt_tail) (drop (length prompt_head) t))"

definition demo_comments :: "string option list" where
  "demo_comments = [Some ''iyi'', None, Some ''HATA'', Some ''kumas ince'']"

section \<open>Properties of the comment selection\<close>

lemma sorted_desc_sort_key:
  "sorted_wrt (\<lambda>a b. rv_date b \<le> rv_date a) (sort_key (\<lambda>r. - rv_date r) xs)"
proof -
  have "sorted (map (\<lambda>r. - rv_date r) (sort_key (\<lambda>r. - rv_date r) xs))"
    by (rule sorted_sort_key)
  then show ?thesis by (simp add: sorted_map sorted_wrt_iff_nth_less)
qed

lemma mset_take_drop: "mset xs = mset (take n xs) + mset (drop n xs)"
  by (simp flip: mset_append)

text \<open>
  C20. The selection has \<open>min max_comments count\<close> reviews, all of the product, newest
  first.
\<close>

theorem recent_reviews_spec:
  "length (recent_reviews rs p n) = min n (length (filter (\<lambda>r. rv_urun r = Some p) rs)) \<and>
   mset (recent_reviews rs p n) \<subseteq># mset (filter (\<lambda>r. rv_urun r = Some p) rs) \<and>
   sorted_wrt (\<lambda>a b. rv_date b \<le> rv_date a) (recent_reviews rs p n)"
proof -
  let ?s = "sort_key (\<lambda>r. - rv_date r) (filter (\<lambda>r. rv_urun r = Some p) rs)"
  have "mset (take n ?s) \<subseteq># mset ?s"
    using mset_take_drop [of ?s n] by simp
  moreover have "sorted_wrt (\<lambda>a b. rv_date b \<le> rv_date a) (take n ?s)"
    using sorted_desc_sort_key sorted_wrt_take by blast
  ultimately show ?thesis
    by (simp add: recent_reviews_def length_sort)
qed



section \<open>Properties of the reply cleaning\<close>

lemma not_prefix_by_hd: "t \<noteq> [] \<Longrightarrow> hd t \<noteq> x \<Longrightarrow> \<not> prefix (x # xs) t"
  by (cases t) auto

lemma not_suffix_by_last: "t \<noteq> [] \<Longrightarrow> last t \<noteq> x \<Longrightarrow> \<not> suffix (xs @ [x]) t"
  by (auto simp: suffix_def)

lemma clean_response_plain: "json_body b \<Longrightarrow> clean_response b = b"
proof -
  assume b: "json_body b"
  then have s: "py_strip b = b"
    using py_strip_pad [of "[]" "[]" b] by (simp add: json_body_def)
  have "\<not> prefix ''```json'' b" "\<not> prefix fence b" "\<not> suffix fence b"
    using b not_prefix_by_hd [of b] not_suffix_by_last [of b "CHR ''`''" "''``''"]
    by (auto simp: json_body_def)
  with s show ?thesis by (simp add: clean_response_def)
qed

text \<open>
  C22. Round trip of the reply cleaning: a JSON text wrapped in a \<open>```json\<close> fence
  with any surrounding whitespace is handed to \<open>json.loads\<close> exactly, and an
  unwrapped one is left as it is.
\<close>

theorem clean_response_roundtrip:
  assumes "json_body b" and "\<forall>c\<in>set ws1. py_space c" and "\<forall>c\<in>set ws2. py_space c"
  shows "clean_response (''```json'' @ ws1 @ b @ ws2 @ fence) = b \<and> clean_response b = b"
proof -
  let ?r = "''```json'' @ ws1 @ b @ ws2 @ fence"
  let ?t = "ws1 @ b @ ws2 @ fence"
  have b: "b \<noteq> []" "\<not> py_space (hd b)" "\<not> py_space (last b)" "hd b \<noteq> CHR ''`''"
    using assms(1) by (auto simp: json_body_def)
  have s: "py_strip ?r = ?r"
    using py_strip_pad [of "[]" "[]" ?r] by (simp add: py_space_def)
  have hd_t: "hd ?t \<noteq> CHR ''`''"
    using assms(2) b by (cases ws1) (auto simp: py_space_def)
  have np: "\<not> prefix fence ?t"
    using not_prefix_by_hd [of ?t] hd_t b by simp
  have "py_strip (ws1 @ b @ ws2) = b"
    using py_strip_pad assms(2,3) b by blast
  then have "clean_response ?r = b"
    using s np by (simp add: clean_response_def Let_def suffix_def)
  with clean_response_plain [OF assms(1)] show ?thesis by simp
qed

theorem clean_response_roundtrip_witness:
  "clean_response (''```json'' @ [CHR 0x0A] @ ''{}'' @ [CHR 0x0A] @ fence) = ''{}'' \<and>
   clean_response ''{}'' = ''{}''"
proof -
  have j: "json_body ''{}''" by (simp add: json_body_def py_space_def)
  have w: "\<forall>c\<in>set [CHR 0x0A]. py_space c" by (simp add: py_space_def)
  show ?thesis by (rule clean_response_roundtrip [OF j w w])
qed

section \<open>Properties of the prompt\<close>

lemma comment_lines_kept:
  "comment_lines comments =
   map (\<lambda>t. ''- '' @ t) (map the (filter (\<lambda>c. c \<noteq> None \<and> c \<noteq> Some ''HATA'') comments))"
  by (induction comments) (auto simp: comment_lines_def List.map_filter_simps split: option.split)

lemma prompt_block_create:
  "prompt_comment_block (create_llm_prompt comments) = py_join newline (comment_lines comments)"
  by (simp add: prompt_comment_block_def create_llm_prompt_def)

text \<open>
  C40. Round trip of the prompt: when no comment contains a line break and at least one
  is kept, splitting the prompt's comment block at its line breaks and removing the
  \<open>- \<close> prefixes gives back exactly the comments that are present and not \<open>HATA\<close>, in
  their order. The model sees each kept comment whole, on a line of its own.
\<close>

theorem create_llm_prompt_roundtrip:
  assumes "\<forall>t. Some t \<in> set comments \<longrightarrow> CHR 0x0A \<notin> set t"
    and "comment_lines comments \<noteq> []"
  shows "map (drop 2) (py_split (CHR 0x0A) (prompt_comment_block (create_llm_prompt comments))) =
         map the (filter (\<lambda>c. c \<noteq> None \<and> c \<noteq> Some ''HATA'') comments)"
proof -
  have "\<forall>x\<in>set (comment_lines comments). CHR 0x0A \<notin> set x"
    using assms(1) by (auto simp: comment_lines_kept)
  then have "py_split (CHR 0x0A) (py_join newline (comment_lines comments)) = comment_lines comments"
    using py_split_join assms(2) by blast
  then show ?thesis
    by (simp add: prompt_block_create comment_lines_kept comp_def)
qed

theorem create_llm_prompt_roundtrip_witness:
  "map (drop 2) (py_split (CHR 0x0A) (prompt_comment_block (create_llm_prompt demo_comments))) =
   [''iyi'', ''kumas ince'']"
proof -
  have "\<forall>t. Some t \<in> set demo_comments \<longrightarrow> CHR 0x0A \<notin> set t"
    by (simp add: demo_comments_def)
  moreover have "comment_lines demo_comments \<noteq> []"
    by (simp add: demo_comments_def comment_lines_def List.map_filter_simps)
  ultimately show ?thesis
    using create_llm_prompt_roundtrip by (simp add: demo_comments_def)
qed

end
