(* ===== verification/BatchRunner.thy ===== *)
theory BatchRunner
  imports RiskClassifier SentimentExtractor
begin

text \<open>
  The resumable extraction loop of \<open>src/scripts/llm_extraction.py\<close>, class
  \<open>LLMFeatureExtractor\<close>. The state is the object's fields that the loop reads or
  writes, together with the output CSV at \<open>output_path\<close>, which persists across runs
  (\<open>None\<close>: no file yet; \<open>Some rows\<close>: its rows, each the reply dict written by
  \<open>_save_single_result\<close>). The CSV's own conversions are not modelled: a row is read back
  as it was written. \<open>events\<close> records the loop's external actions in order (each model
  call, each write of the file, each product skipped for lack of reviews), so that
  ordering properties can be stated. A run ends normally (\<open>None\<close>) or with the
  exception that escapes \<open>process_all_products\<close>; the file keeps what was written
  before it.
\<close>

datatype event = ApiCall string | SaveRow string | NoComments string

record extractor =
  df_reviews :: "review list"
  df_products :: "product_stats list"
  output_file :: "pydict list option"
  processed_products :: "string set"
  events :: "event list"

section \<open>Start-up: the checkpoint set\<close>

text \<open>The product column of the output rows, in file order.\<close>

definition row_names :: "pydict list \<Rightarrow> string list" where
  "row_names rows =
     List.map_filter (\<lambda>r. case map_of r col_urun of Some (PyStr p) \<Rightarrow> Some p | _ \<Rightarrow> None) rows"

definition load_processed_products :: "pydict list option \<Rightarrow> string set" where
  "load_processed_products out = (case out of None \<Rightarrow> {} | Some rows \<Rightarrow> set (row_names rows))"

definition extractor_init :: "review list \<Rightarrow> product_stats list \<Rightarrow> pydict list option \<Rightarrow> extractor" where
  "extractor_init reviews products out =
     \<lparr> df_reviews = reviews, df_products = products, output_file = out,
       processed_products = load_processed_products out, events = [] \<rparr>"

section \<open>Writing one result\<close>

text \<open>
  \<open>_save_single_result\<close>: classify, add the two columns, append the row to the file
  (creating it when absent). An exception of the classifier escapes before anything is
  written.
\<close>

definition save_single_result ::
  "product_stats list \<Rightarrow> pydict \<Rightarrow> pydict list option \<Rightarrow> py_error + pydict list" where
  "save_single_result products result_dict out =
     ebind (calculate_risk_class products result_dict) (\<lambda>(risk_class, risk_score).
       let row = dict_set (dict_set result_dict ''Risk_Class'' (PyInt risk_class))
                   ''Risk_Score'' (PyInt risk_score)
       in Inr (case out of None \<Rightarrow> [row] | Some rows \<Rightarrow> rows @ [row]))"

section \<open>The loop\<close>

text \<open>
  One iteration of the loop of \<open>process_all_products\<close>. A product without reviews is
  skipped before any call. A failed call, or a falsy reply, leaves the product
  unprocessed. A truthy reply that is not a dict makes \<open>llm_result['Urun'] = ...\<close>
  raise \<open>TypeError\<close>. A dict reply gets the product name and the number of comments,
  is written, and only then is the product marked processed.
\<close>

definition process_product ::
  "llm_oracle \<Rightarrow> json_parser \<Rightarrow> extractor \<Rightarrow> string \<Rightarrow> extractor \<times> py_error option" where
  "process_product llm json_loads st product_name =
     (let comments = extract_product_comments (df_reviews st) product_name 100 in
      if comments = [] then (st\<lparr>events := events st @ [NoComments product_name]\<rparr>, None)
      else
        let prompt = create_llm_prompt comments;
            st = st\<lparr>events := events st @ [ApiCall product_name]\<rparr>
        in case call_llm_api llm json_loads prompt of
             None \<Rightarrow> (st, None)
           | Some llm_result \<Rightarrow>
               if \<not> py_truthy llm_result then (st, None)
               else case llm_result of
                 PyDict d \<Rightarrow>
                   (let d = dict_set (dict_set d col_urun (PyStr product_name))
                              ''Yorum_Sayisi'' (PyInt (int (length comments)))
                    in case save_single_result (df_products st) d (output_file st) of
                         Inl e \<Rightarrow> (st, Some e)
                       | Inr rows \<Rightarrow>
                           (st\<lparr>output_file := Some rows,
                               processed_products := insert product_name (processed_products st),
                               events := events st @ [SaveRow product_name]\<rparr>, None))
               | _ \<Rightarrow> (st, Some TypeError))"

fun process_loop ::
  "llm_oracle \<Rightarrow> json_parser \<Rightarrow> extractor \<Rightarrow> string list \<Rightarrow> extractor \<times> py_error option" where
  "process_loop llm json_loads st [] = (st, None)"
| "process_loop llm json_loads st (p # ps) =
     (case process_product llm json_loads st p of
        (st', Some e) \<Rightarrow> (st', Some e)
      | (st', None) \<Rightarrow> process_loop llm json_loads st' ps)"

text \<open>
  \<open>products_to_process[:max_products]\<close> under \<open>if max_products:\<close>: \<open>None\<close> and
  \<open>0\<close> are falsy and keep the whole list; a negative bound drops from the end.
\<close>

definition py_slice_to :: "int \<Rightarrow> 'a list \<Rightarrow> 'a list" where
  "py_slice_to n xs = (if 0 \<le> n then take (nat n) xs else take (nat (int (length xs) + n)) xs)"

definition products_to_process :: "int option \<Rightarrow> extractor \<Rightarrow> string list" where
  "products_to_process max_products st =
     (let todo = filter (\<lambda>p. p \<notin> processed_products st) (map ps_urun (df_products st))
      in case max_products of
           Some n \<Rightarrow> if n \<noteq> 0 then py_slice_to n todo else todo
         | None \<Rightarrow> todo)"

definition process_all_products ::
  "llm_oracle \<Rightarrow> json_parser \<Rightarrow> int option \<Rightarrow> extractor \<Rightarrow> extractor \<times> py_error option" where
  "process_all_products llm json_loads max_products st =
     (let todo = products_to_process max_products st
      in if todo = [] then (st, None) else process_loop llm json_loads st todo)"

section \<open>Runs of the script\<close>

text \<open>
  One invocation of the script's main block up to the extraction: construct the object
  from the current output file and process. Successive invocations share only the file.
\<close>

definition run_extraction ::
  "llm_oracle \<Rightarrow> json_parser \<Rightarrow> int option \<Rightarrow> review list \<Rightarrow> product_stats list \<Rightarrow>
   pydict list option \<Rightarrow> pydict list option" where
  "run_extraction llm json_loads max_products reviews products out =
     output_file (fst (process_all_products llm json_loads max_products
                        (extractor_init reviews products out)))"

fun run_many ::
  "(llm_oracle \<times> int option) list \<Rightarrow> json_parser \<Rightarrow> review list \<Rightarrow> product_stats list \<Rightarrow>
   pydict list option \<Rightarrow> pydict list option" where
  "run_many [] json_loads reviews products out = out"
| "run_many ((llm, m) # runs) json_loads reviews products out =
     run_many runs json_loads reviews products (run_extraction llm json_loads m reviews products out)"

section \<open>Vocabulary of the proofs\<close>

text \<open>
  The rows a file holds, appending rows to it (it is created only when there is
  something to write), and the rows one product contributes. \<open>product_effect\<close> depends
  only on the inputs, not on the loop's state: the loop's result is the concatenation of
  these effects up to the first exception (\<open>loop_effect\<close>). A trace of events is
  \<open>write_before_advance\<close> when every write directly follows the call for the same
  product, before any later call.
\<close>

definition rows_of :: "pydict list option \<Rightarrow> pydict list" where
  "rows_of out = (case out of None \<Rightarrow> [] | Some rows \<Rightarrow> rows)"

definition append_rows :: "pydict list option \<Rightarrow> pydict list \<Rightarrow> pydict list option" where
  "append_rows out rs = (if rs = [] then out else Some (rows_of out @ rs))"

definition reply_row :: "pydict \<Rightarrow> string \<Rightarrow> nat \<Rightarrow> pydict" where
  "reply_row d p n = dict_set (dict_set d col_urun (PyStr p)) ''Yorum_Sayisi'' (PyInt (int n))"

definition product_effect ::
  "llm_oracle \<Rightarrow> json_parser \<Rightarrow> review list \<Rightarrow> product_stats list \<Rightarrow> string \<Rightarrow> py_error + pydict list" where
  "product_effect llm json_loads reviews products p =
     (let comments = extract_product_comments reviews p 100 in
      if comments = [] then Inr []
      else case call_llm_api llm json_loads (create_llm_prompt comments) of
             None \<Rightarrow> Inr []
           | Some r \<Rightarrow>
               if \<not> py_truthy r then Inr []
               else case r of
                 PyDict d \<Rightarrow> save_single_result products (reply_row d p (length comments)) None
               | _ \<Rightarrow> Inl TypeError)"

fun loop_effect ::
  "llm_oracle \<Rightarrow> json_parser \<Rightarrow> review list \<Rightarrow> product_stats list \<Rightarrow> string list \<Rightarrow>
   pydict list \<times> py_error option" where
  "loop_effect llm json_loads reviews products [] = ([], None)"
| "loop_effect llm json_loads reviews products (p # ps) =
     (case product_effect llm json_loads reviews products p of
        Inl e \<Rightarrow> ([], Some e)
      | Inr rs \<Rightarrow> (case loop_effect llm json_loads reviews products ps of
                    (rs', err) \<Rightarrow> (rs @ rs', err)))"

fun write_before_advance :: "event list \<Rightarrow> bool" where
  "write_before_advance [] = True"
| "write_before_advance (SaveRow p # es) = False"
| "write_before_advance (ApiCall p # SaveRow q # es) = (p = q \<and> write_before_advance es)"
| "write_before_advance (ApiCall p # es) = write_before_advance es"
| "write_before_advance (NoComments p # es) = write_before_advance es"

definition saved_names :: "event list \<Rightarrow> string list" where
  "saved_names es = List.map_filter (\<lambda>e. case e of SaveRow p \<Rightarrow> Some p | _ \<Rightarrow> None) es"

fun starts_with_save :: "event list \<Rightarrow> bool" where
  "starts_with_save (SaveRow p # es) = True"
| "starts_with_save _ = False"

section \<open>Concrete inputs\<close>

definition demo_reviews :: "review list" where
  "demo_reviews = [demo_review ''a'' 1 (Some 5) ''iyi'', demo_review ''b'' 2 (Some 1) ''kotu'']"

definition demo_products :: "product_stats list" where
  "demo_products = [demo_product ''a'' 10, demo_product ''b'' 3]"

text \<open>A stand-in for \<open>json.loads\<close> on the two reply texts used below.\<close>

definition demo_parser :: json_parser where
  "demo_parser s =
     (if s = ''{}'' then Some (PyDict [(k_quality_sentiment, PyInt 2)])
      else if s = ''null'' then Some (PyDict [(k_quality_sentiment, PyNone)])
      else None)"

definition reply_llm :: "string \<Rightarrow> llm_oracle" where
  "reply_llm text prompt = Some text"

definition down_llm :: llm_oracle where
  "down_llm prompt = None"

section \<open>Properties of the runner\<close>

lemma rows_of_simps [simp]: "rows_of None = []" "rows_of (Some rs) = rs"
  by (simp_all add: rows_of_def)

lemma save_single_result_out:
  "save_single_result products d out =
     (case save_single_result products d None of Inl e \<Rightarrow> Inl e | Inr rs \<Rightarrow> Inr (rows_of out @ rs))"
  by (cases "calculate_risk_class products d") (auto simp: save_single_result_def rows_of_def split: option.splits)

lemma save_single_result_row:
  "save_single_result products d None = Inr rs \<Longrightarrow> \<exists>row. rs = [row] \<and> map_of row col_urun = map_of d col_urun"
  by (auto simp: save_single_result_def ebind_eq_Inr dict_set_def)

lemma product_effect_names:
  "product_effect llm json_loads reviews products p = Inr rs \<Longrightarrow> rs = [] \<or> row_names rs = [p]"
  by (auto simp: product_effect_def Let_def reply_row_def row_names_def dict_set_def
      split: if_splits option.splits pyval.splits dest!: save_single_result_row)

lemma append_rows_Nil [simp]: "append_rows out [] = out"
  by (simp add: append_rows_def)

lemma process_product_frame [simp]:
  "df_reviews (fst (process_product llm json_loads st p)) = df_reviews st"
  "df_products (fst (process_product llm json_loads st p)) = df_products st"
  by (auto simp: process_product_def Let_def split: option.splits pyval.splits sum.splits)

lemma process_product_effect:
  "(case process_product llm json_loads st p of (st', err) \<Rightarrow>
      (output_file st', processed_products st', err)) =
   (case product_effect llm json_loads (df_reviews st) (df_products st) p of
      Inl e \<Rightarrow> (output_file st, processed_products st, Some e)
    | Inr rs \<Rightarrow> (append_rows (output_file st) rs,
                 if rs = [] then processed_products st else insert p (processed_products st), None))"
  by (auto simp: process_product_def product_effect_def Let_def reply_row_def append_rows_def
      save_single_result_out [of _ _ "output_file st"] rows_of_def
      split: option.splits pyval.splits sum.splits dest: save_single_result_row)

lemma process_product_frameD:
  "process_product llm json_loads st p = (st', err) \<Longrightarrow>
   df_reviews st' = df_reviews st \<and> df_products st' = df_products st"
  using process_product_frame [of llm json_loads st p] by simp

lemma row_names_Nil [simp]: "row_names [] = []"
  by (simp add: row_names_def map_filter_def)

lemma append_rows_append: "append_rows (append_rows out rs) rs' = append_rows out (rs @ rs')"
  by (simp add: append_rows_def rows_of_def)

lemma row_names_append: "row_names (xs @ ys) = row_names xs @ row_names ys"
  by (simp add: row_names_def map_filter_def)

lemma process_loop_frame [simp]:
  "df_reviews (fst (process_loop llm json_loads st ps)) = df_reviews st"
  "df_products (fst (process_loop llm json_loads st ps)) = df_products st"
  by (induction ps arbitrary: st) (auto split: prod.splits option.splits dest: process_product_frameD)

lemma process_loop_effect:
  "(case process_loop llm json_loads st ps of (st', err) \<Rightarrow>
      (output_file st', processed_products st', err)) =
   (case loop_effect llm json_loads (df_reviews st) (df_products st) ps of
      (rs, err) \<Rightarrow> (append_rows (output_file st) rs, processed_products st \<union> set (row_names rs), err))"
proof (induction ps arbitrary: st)
  case Nil
  then show ?case by simp
next
  case (Cons p ps)
  obtain st1 err1 where pp: "process_product llm json_loads st p = (st1, err1)"
    by (cases "process_product llm json_loads st p")
  have fr: "df_reviews st1 = df_reviews st" "df_products st1 = df_products st"
    using process_product_frame [of llm json_loads st p] pp by simp_all
  have eff: "(output_file st1, processed_products st1, err1) =
     (case product_effect llm json_loads (df_reviews st) (df_products st) p of
        Inl e \<Rightarrow> (output_file st, processed_products st, Some e)
      | Inr rs \<Rightarrow> (append_rows (output_file st) rs,
                   if rs = [] then processed_products st else insert p (processed_products st), None))"
    using process_product_effect [of llm json_loads st p] pp by simp
  show ?case
  proof (cases "product_effect llm json_loads (df_reviews st) (df_products st) p")
    case (Inl e)
    with eff pp show ?thesis by auto
  next
    case (Inr rs)
    with eff have o: "output_file st1 = append_rows (output_file st) rs" and e: "err1 = None"
      and pr: "processed_products st1 = processed_products st \<union> set (row_names rs)"
      using product_effect_names [OF Inr] by (auto simp: row_names_def)
    show ?thesis
      using Cons.IH [of st1] Inr pp e o pr fr
      by (auto simp: append_rows_append row_names_append split: prod.splits)
  qed
qed

lemma rows_of_append_rows [simp]: "rows_of (append_rows out rs) = rows_of out @ rs"
  by (simp add: append_rows_def rows_of_def)

lemma load_processed_rows: "load_processed_products out = set (row_names (rows_of out))"
  by (simp add: load_processed_products_def rows_of_def split: option.splits)

lemma worklist_init:
  "products_to_process None (extractor_init reviews products out) =
   filter (\<lambda>p. p \<notin> set (row_names (rows_of out))) (map ps_urun products)"
  by (simp add: products_to_process_def extractor_init_def load_processed_rows)

lemma process_all_products_output:
  "output_file (fst (process_all_products llm json_loads m st)) =
   append_rows (output_file st) (fst (loop_effect llm json_loads (df_reviews st) (df_products st)
                                        (products_to_process m st)))"
  using process_loop_effect [of llm json_loads st "products_to_process m st"]
  by (auto simp: process_all_products_def Let_def split: prod.splits)

lemma run_extraction_effect:
  "run_extraction llm json_loads m reviews products out =
   append_rows out (fst (loop_effect llm json_loads reviews products
                          (products_to_process m (extractor_init reviews products out))))"
  by (simp add: run_extraction_def process_all_products_output) (simp add: extractor_init_def)

lemma loop_effect_names:
  "distinct ps \<Longrightarrow>
   distinct (row_names (fst (loop_effect llm json_loads reviews products ps))) \<and>
   set (row_names (fst (loop_effect llm json_loads reviews products ps))) \<subseteq> set ps"
proof (induction ps)
  case Nil
  then show ?case by simp
next
  case (Cons p ps)
  show ?case
  proof (cases "product_effect llm json_loads reviews products p")
    case (Inl e)
    then show ?thesis by simp
  next
    case (Inr rs)
    then have "rs = [] \<or> row_names rs = [p]" by (rule product_effect_names)
    with Cons Inr show ?thesis
      by (auto simp: row_names_append split: prod.splits)
  qed
qed

lemma products_to_process_sub:
  "set (products_to_process m st) \<subseteq> set (filter (\<lambda>p. p \<notin> processed_products st) (map ps_urun (df_products st))) \<and>
   (distinct (map ps_urun (df_products st)) \<longrightarrow> distinct (products_to_process m st))"
  by (auto simp: products_to_process_def py_slice_to_def Let_def dest: in_set_takeD split: option.splits)

theorem run_extraction_distinct:
  assumes "distinct (map ps_urun products)"
    and "distinct (row_names (rows_of out))"
  shows "distinct (row_names (rows_of (run_extraction llm json_loads m reviews products out)))"
proof -
  let ?st = "extractor_init reviews products out"
  let ?W = "products_to_process m ?st"
  let ?R = "fst (loop_effect llm json_loads reviews products ?W)"
  have W: "set ?W \<subseteq> - set (row_names (rows_of out))" "distinct ?W"
    using products_to_process_sub [of m ?st] assms(1)
    by (auto simp: extractor_init_def load_processed_rows)
  then have "distinct (row_names ?R)" "set (row_names ?R) \<subseteq> set ?W"
    using loop_effect_names by blast+
  with W assms(2) show ?thesis
    by (auto simp: run_extraction_effect row_names_append)
qed

lemma loop_effect_resume:
  assumes "distinct ps"
  shows "fst (loop_effect llm json_loads reviews products (take k ps)) @
         fst (loop_effect llm json_loads reviews products
               (filter (\<lambda>p. p \<notin> set (row_names (fst (loop_effect llm json_loads reviews products (take k ps))))) ps))
         = fst (loop_effect llm json_loads reviews products ps)"
  using assms
proof (induction ps arbitrary: k)
  case Nil
  then show ?case by simp
next
  case (Cons p ps)
  show ?case
  proof (cases k)
    case 0
    then show ?thesis by simp
  next
    case (Suc k')
    let ?R' = "fst (loop_effect llm json_loads reviews products (take k' ps))"
    have sub: "set (row_names ?R') \<subseteq> set ps"
      using loop_effect_names [of "take k' ps"] Cons.prems
      by (meson distinct.simps(2) distinct_take order_trans set_take_subset)
    have pn: "p \<notin> set ps" using Cons.prems by simp
    show ?thesis
    proof (cases "product_effect llm json_loads reviews products p")
      case (Inl e)
      with Suc show ?thesis by simp
    next
      case (Inr rs)
      then have "rs = [] \<or> row_names rs = [p]" by (rule product_effect_names)
      then show ?thesis
      proof
        assume "rs = []"
        moreover have "p \<notin> set (row_names ?R')" using sub pn by blast
        ultimately show ?thesis
          using Cons.IH [of k'] Cons.prems Inr Suc by (auto split: prod.splits)
      next
        assume rn: "row_names rs = [p]"
        let ?L = "loop_effect llm json_loads reviews products"
        have e1: "fst (?L (take k (p # ps))) = rs @ ?R'"
          using Inr Suc by (simp split: prod.splits)
        have e2: "fst (?L (p # ps)) = rs @ fst (?L ps)"
          using Inr by (simp split: prod.splits)
        have f: "filter (\<lambda>q. q \<notin> set (row_names (rs @ ?R'))) (p # ps) =
              filter (\<lambda>q. q \<notin> set (row_names ?R')) ps"
          using rn pn by (auto simp: row_names_append intro!: filter_cong)
        have "?R' @ fst (?L (filter (\<lambda>q. q \<notin> set (row_names ?R')) ps)) = fst (?L ps)"
          using Cons.IH [of k'] Cons.prems by simp
        then show ?thesis
          by (simp only: e1 e2 f) simp
      qed
    qed
  qed
qed

text \<open>
  C6. Crash and resume: killing a run after any number of completed iterations of the
  loop and starting the script again ends with the same output file as one
  uninterrupted run, when the model answers each prompt the same way both times.
\<close>

theorem run_extraction_resume:
  assumes "distinct (map ps_urun products)"
  shows "run_extraction llm json_loads None reviews products
           (output_file (fst (process_loop llm json_loads (extractor_init reviews products out)
              (take k (products_to_process None (extractor_init reviews products out)))))) =
         run_extraction llm json_loads None reviews products out"
proof -
  let ?L = "loop_effect llm json_loads reviews products"
  let ?old = "set (row_names (rows_of out))"
  let ?W = "filter (\<lambda>p. p \<notin> ?old) (map ps_urun products)"
  let ?R1 = "fst (?L (take k ?W))"
  have dW: "distinct ?W" using assms by simp
  have crash: "output_file (fst (process_loop llm json_loads (extractor_init reviews products out) (take k ?W)))
               = append_rows out ?R1"
    using process_loop_effect [of llm json_loads "extractor_init reviews products out" "take k ?W"]
    by (simp add: extractor_init_def split: prod.splits)
  have "filter (\<lambda>p. p \<notin> set (row_names (rows_of out @ ?R1))) (map ps_urun products) =
        filter (\<lambda>p. p \<notin> set (row_names ?R1)) ?W"
    by (simp add: row_names_append filter_filter conj_commute)
  then have "run_extraction llm json_loads None reviews products (append_rows out ?R1) =
             append_rows out (?R1 @ fst (?L (filter (\<lambda>p. p \<notin> set (row_names ?R1)) ?W)))"
    by (simp add: run_extraction_effect worklist_init append_rows_append)
  also have "?R1 @ fst (?L (filter (\<lambda>p. p \<notin> set (row_names ?R1)) ?W)) = fst (?L ?W)"
    using loop_effect_resume [OF dW] .
  finally show ?thesis
    using crash by (simp add: run_extraction_effect worklist_init)
qed

theorem run_extraction_resume_witness:
  "run_extraction (reply_llm ''{}'') demo_parser None demo_reviews demo_products
     (output_file (fst (process_loop (reply_llm ''{}'') demo_parser
        (extractor_init demo_reviews demo_products None)
        (take 1 (products_to_process None (extractor_init demo_reviews demo_products None)))))) =
   run_extraction (reply_llm ''{}'') demo_parser None demo_reviews demo_products None"
proof -
  have "distinct (map ps_urun demo_products)" by (simp add: demo_products_def demo_product_def)
  then show ?thesis by (rule run_extraction_resume)
qed

text \<open>
  C4. Idempotence: when every product of the phase-1 table already has a row in the
  output file, a run calls nothing, writes nothing and leaves the object as it was built.
\<close>

theorem process_all_products_idempotent:
  assumes "set (map ps_urun products) \<subseteq> set (row_names (rows_of out))"
  shows "process_all_products llm json_loads m (extractor_init reviews products out) =
         (extractor_init reviews products out, None)"
proof -
  have "filter (\<lambda>p. p \<notin> processed_products (extractor_init reviews products out)) (map ps_urun products) = []"
    using assms by (simp add: extractor_init_def load_processed_rows)
  then have "products_to_process m (extractor_init reviews products out) = []"
    by (simp add: products_to_process_def extractor_init_def py_slice_to_def split: option.splits)
  then show ?thesis by (simp add: process_all_products_def)
qed

theorem process_all_products_idempotent_witness:
  "process_all_products down_llm demo_parser None
     (extractor_init demo_reviews demo_products (Some [[(col_urun, PyStr ''a'')], [(col_urun, PyStr ''b'')]])) =
   (extractor_init demo_reviews demo_products (Some [[(col_urun, PyStr ''a'')], [(col_urun, PyStr ''b'')]]), None)"
proof -
  have "set (map ps_urun demo_products) \<subseteq>
        set (row_names (rows_of (Some [[(col_urun, PyStr ''a'')], [(col_urun, PyStr ''b'')]])))"
    by (simp add: demo_products_def demo_product_def row_names_def map_filter_def)
  then show ?thesis by (rule process_all_products_idempotent)
qed

text \<open>
  C5. No duplicate rows: over any sequence of runs, each with its own model behaviour
  and product limit, the output file never holds two rows for the same product, given a
  phase-1 table with distinct names and a file without duplicates to start from. A
  product whose call fails in one run and succeeds in a later one thus ends with one row.
\<close>

theorem run_many_distinct:
  assumes "distinct (map ps_urun products)"
    and "distinct (row_names (rows_of out))"
  shows "distinct (row_names (rows_of (run_many runs json_loads reviews products out)))"
  using assms(2)
proof (induction runs arbitrary: out)
  case Nil
  then show ?case by simp
next
  case (Cons r runs)
  obtain llm m where r: "r = (llm, m)" by (cases r)
  have "distinct (row_names (rows_of (run_extraction llm json_loads m reviews products out)))"
    using run_extraction_distinct [OF assms(1) Cons.prems] .
  then show ?case using Cons.IH r by simp
qed

theorem run_many_distinct_witness:
  "distinct (row_names (rows_of (run_many [(down_llm, None), (reply_llm ''{}'', None), (reply_llm ''{}'', None)]
                                   demo_parser demo_reviews demo_products None)))"
proof -
  have "distinct (map ps_urun demo_products)" by (simp add: demo_products_def demo_product_def)
  moreover have "distinct (row_names (rows_of None))" by simp
  ultimately show ?thesis by (rule run_many_distinct)
qed

text \<open>
  C7. Append-only: whatever the model does, exceptions included, a sequence of runs only
  appends rows to the output file; the rows already there stay, in place and unchanged.
\<close>

theorem run_many_prefix:
  "prefix (rows_of out) (rows_of (run_many runs json_loads reviews products out))"
proof (induction runs arbitrary: out)
  case Nil
  then show ?case by simp
next
  case (Cons r runs)
  obtain llm m where r: "r = (llm, m)" by (cases r)
  have "prefix (rows_of out) (rows_of (run_extraction llm json_loads m reviews products out))"
    by (simp add: run_extraction_effect)
  then show ?case using Cons.IH [of "run_extraction llm json_loads m reviews products out"] r
    by (auto intro: prefix_order.trans)
qed

lemma loop_effect_stop:
  assumes "product_effect llm json_loads reviews products p = Inl e"
  shows "set (row_names (fst (loop_effect llm json_loads reviews products (as @ p # bs)))) \<subseteq> set as"
proof (induction as)
  case Nil
  then show ?case using assms by simp
next
  case (Cons a as)
  show ?case
  proof (cases "product_effect llm json_loads reviews products a")
    case (Inl e')
    then show ?thesis by simp
  next
    case (Inr rs)
    then have "rs = [] \<or> row_names rs = [a]" by (rule product_effect_names)
    with Cons Inr show ?thesis by (auto simp: row_names_append split: prod.splits)
  qed
qed

text \<open>
  C9. A reply that makes classification raise blocks the batch: when the effect of
  product \<open>p\<close> is an exception (for example a dict reply whose quality sentiment is
  JSON null, for a product with at least five reviews), no product after \<open>p\<close> in the
  phase-1 table ever gets a row, however often the script is run again with the same
  model behaviour.
\<close>

theorem poisoned_product_blocks_later:
  assumes "distinct (map ps_urun products)"
    and "map ps_urun products = xs @ p # ys"
    and "product_effect llm json_loads reviews products p = Inl e"
    and "p \<notin> set (row_names (rows_of out))"
    and "q \<in> set ys" and "q \<notin> set (row_names (rows_of out))"
  shows "q \<notin> set (row_names (rows_of (run_many (replicate n (llm, None)) json_loads reviews products out)))"
  using assms(4,6)
proof (induction n arbitrary: out)
  case 0
  then show ?case by simp
next
  case (Suc n)
  let ?old = "set (row_names (rows_of out))"
  let ?W = "filter (\<lambda>x. x \<notin> ?old) (map ps_urun products)"
  have W: "?W = filter (\<lambda>x. x \<notin> ?old) xs @ p # filter (\<lambda>x. x \<notin> ?old) ys"
    using assms(2) Suc.prems(1) by simp
  have new: "set (row_names (fst (loop_effect llm json_loads reviews products ?W))) \<subseteq> set xs"
    using loop_effect_stop [OF assms(3), of "filter (\<lambda>x. x \<notin> ?old) xs"] W by auto
  have "p \<notin> set xs" "q \<notin> set xs"
    using assms(1,2,5) by auto
  with new Suc.prems have "p \<notin> set (row_names (rows_of (run_extraction llm json_loads None reviews products out)))"
    "q \<notin> set (row_names (rows_of (run_extraction llm json_loads None reviews products out)))"
    by (auto simp: run_extraction_effect worklist_init row_names_append)
  then show ?case using Suc.IH by simp
qed

theorem poisoned_product_blocks_later_witness:
  "''b'' \<notin> set (row_names (rows_of (run_many (replicate 3 (reply_llm ''null'', None)) demo_parser
                                     demo_reviews demo_products None)))"
proof -
  have d: "distinct (map ps_urun demo_products)" by (simp add: demo_products_def demo_product_def)
  have n: "map ps_urun demo_products = [] @ ''a'' # [''b'']" by (simp add: demo_products_def demo_product_def)
  have e: "product_effect (reply_llm ''null'') demo_parser demo_reviews demo_products ''a'' = Inl TypeError"
    by code_simp
  show ?thesis
    using poisoned_product_blocks_later [OF d n e, of None "''b''" 3] by simp
qed

lemma write_before_advance_append:
  "write_before_advance es \<Longrightarrow> write_before_advance bs \<Longrightarrow> \<not> starts_with_save bs \<Longrightarrow>
   write_before_advance (es @ bs)"
  by (induction es rule: write_before_advance.induct) (auto elim: starts_with_save.elims)

lemma saved_names_append: "saved_names (xs @ ys) = saved_names xs @ saved_names ys"
  by (simp add: saved_names_def map_filter_def)

lemma save_single_result_names:
  "save_single_result products d out = Inr rows \<Longrightarrow> map_of d col_urun = Some (PyStr p) \<Longrightarrow>
   row_names rows = row_names (rows_of out) @ [p]"
  by (cases "calculate_risk_class products d")
     (auto simp: save_single_result_def rows_of_def row_names_append dict_set_def split: option.splits,
      auto simp: row_names_def)

lemma process_product_events:
  "\<exists>blk. events (fst (process_product llm json_loads st p)) = events st @ blk \<and>
         write_before_advance blk \<and> \<not> starts_with_save blk \<and>
         row_names (rows_of (output_file (fst (process_product llm json_loads st p)))) =
           row_names (rows_of (output_file st)) @ saved_names blk"
  by (auto simp: process_product_def Let_def saved_names_def
      split: option.splits pyval.splits sum.splits
      dest!: save_single_result_names [where p = p] intro: ccontr, simp_all add: dict_set_def)

lemma starts_with_save_append:
  "\<not> starts_with_save a \<Longrightarrow> \<not> starts_with_save b \<Longrightarrow> \<not> starts_with_save (a @ b)"
  by (cases a) (auto elim: starts_with_save.elims)

lemma process_loop_events:
  "\<exists>blk. events (fst (process_loop llm json_loads st ps)) = events st @ blk \<and>
         write_before_advance blk \<and> \<not> starts_with_save blk \<and>
         row_names (rows_of (output_file (fst (process_loop llm json_loads st ps)))) =
           row_names (rows_of (output_file st)) @ saved_names blk"
proof (induction ps arbitrary: st)
  case Nil
  then show ?case by (intro exI [of _ "[]"]) (simp add: saved_names_def)
next
  case (Cons p ps)
  obtain st1 err1 where pp: "process_product llm json_loads st p = (st1, err1)"
    by (cases "process_product llm json_loads st p")
  obtain b1 where b1: "events st1 = events st @ b1" "write_before_advance b1" "\<not> starts_with_save b1"
    "row_names (rows_of (output_file st1)) = row_names (rows_of (output_file st)) @ saved_names b1"
    using process_product_events [of llm json_loads st p] pp by auto
  show ?case
  proof (cases err1)
    case None
    obtain b2 where b2: "events (fst (process_loop llm json_loads st1 ps)) = events st1 @ b2"
      "write_before_advance b2" "\<not> starts_with_save b2"
      "row_names (rows_of (output_file (fst (process_loop llm json_loads st1 ps)))) =
         row_names (rows_of (output_file st1)) @ saved_names b2"
      using Cons.IH [of st1] by blast
    show ?thesis
      using b1 b2 pp None
      by (intro exI [of _ "b1 @ b2"])
         (simp add: write_before_advance_append starts_with_save_append saved_names_append)
  next
    case (Some e)
    with b1 pp show ?thesis by auto
  qed
qed

text \<open>
  C8. Write before advance: in the actions of a run every write of a product's row
  directly follows the model call for that product, before any later call, and the rows
  appended to the file are exactly the products written, in that order.
\<close>

theorem process_all_products_trace:
  "write_before_advance (events (fst (process_all_products llm json_loads m (extractor_init reviews products out)))) \<and>
   row_names (rows_of (output_file (fst (process_all_products llm json_loads m (extractor_init reviews products out))))) =
     row_names (rows_of out) @
     saved_names (events (fst (process_all_products llm json_loads m (extractor_init reviews products out))))"
proof -
  let ?st = "extractor_init reviews products out"
  obtain blk where "events (fst (process_loop llm json_loads ?st (products_to_process m ?st))) = events ?st @ blk"
    "write_before_advance blk"
    "row_names (rows_of (output_file (fst (process_loop llm json_loads ?st (products_to_process m ?st))))) =
       row_names (rows_of (output_file ?st)) @ saved_names blk"
    using process_loop_events by blast
  then show ?thesis
    by (simp add: process_all_products_def Let_def extractor_init_def saved_names_def)
qed

end
