(* ===== verification/ReportMerge.thy ===== *)
theory ReportMerge
  imports BatchRunner
begin

text \<open>
  The final step of \<open>src/scripts/llm_extraction.py\<close>: \<open>finalize_and_save\<close> reads the
  output CSV of the runner, left-joins the phase-1 table onto it by product
  (\<open>merge_with_product_features\<close>) and classifies every merged row again
  (\<open>create_risk_class\<close>, the batch call site). A CSV table is its column list (first
  appearance order over the rows, as \<open>pd.concat\<close> builds it) and its rows; reading a
  row back gives every column, NaN where the row had no value. The CSV's conversion of
  cells is reduced to what the classifier can observe: None and the empty string are
  read back as NaN, other values unchanged.
\<close>

section \<open>The phase-1 table as rows\<close>

definition opt_float :: "real option \<Rightarrow> pyval" where
  "opt_float x = (case x of Some r \<Rightarrow> PyFloat r | None \<Rightarrow> PyNaN)"

definition opt_int :: "int option \<Rightarrow> pyval" where
  "opt_int x = (case x of Some i \<Rightarrow> PyInt i | None \<Rightarrow> PyNaN)"

definition product_row :: "product_stats \<Rightarrow> pydict" where
  "product_row s =
     [(col_urun, PyStr (ps_urun s)), (''Marka'', PyStr (ps_marka s)),
      (''Genel_Puan'', opt_float (ps_genel_puan s)),
      (k_toplam_yorum, PyInt (int (ps_toplam_yorum_sayisi s))),
      (''Puan_Standart_Sapma'', opt_float (ps_puan_std s)),
      (''Min_Puan'', opt_int (ps_min_puan s)), (''Max_Puan'', opt_int (ps_max_puan s)),
      (''Puan_5_Oran'', PyFloat (ps_puan_5_oran s)), (''Puan_4_Oran'', PyFloat (ps_puan_4_oran s)),
      (''Puan_3_Oran'', PyFloat (ps_puan_3_oran s)), (''Puan_2_Oran'', PyFloat (ps_puan_2_oran s)),
      (''Puan_1_Oran'', PyFloat (ps_puan_1_oran s)),
      (''Negatif_Yorum_Oran'', PyFloat (ps_negatif_oran s)),
      (''Pozitif_Yorum_Oran'', PyFloat (ps_pozitif_oran s)),
      (''Yorum_Hizi'', PyFloat (ps_yorum_hizi s))]"

definition product_columns :: "string list" where
  "product_columns =
     [col_urun, ''Marka'', ''Genel_Puan'', k_toplam_yorum, ''Puan_Standart_Sapma'', ''Min_Puan'',
      ''Max_Puan'', ''Puan_5_Oran'', ''Puan_4_Oran'', ''Puan_3_Oran'', ''Puan_2_Oran'',
      ''Puan_1_Oran'', ''Negatif_Yorum_Oran'', ''Pozitif_Yorum_Oran'', ''Yorum_Hizi'']"

section \<open>The runner's CSV read back\<close>

fun csv_cell :: "pyval \<Rightarrow> pyval" where
  "csv_cell PyNone = PyNaN"
| "csv_cell (PyStr []) = PyNaN"
| "csv_cell v = v"

definition table_columns :: "pydict list \<Rightarrow> string list" where
  "table_columns rows = unique_first (concat (map (map fst) rows))"

definition csv_value :: "pydict \<Rightarrow> string \<Rightarrow> pyval" where
  "csv_value r c = (case map_of r c of Some v \<Rightarrow> csv_cell v | None \<Rightarrow> PyNaN)"

definition read_row :: "string list \<Rightarrow> pydict \<Rightarrow> pydict" where
  "read_row cols r = map (\<lambda>c. (c, csv_value r c)) cols"

section \<open>\<open>merge_with_product_features\<close>: the left join\<close>

text \<open>
  \<open>df_products.merge(df_llm, on='Urun', how='left')\<close>: every phase-1 row in order, once
  per matching result row (in file order), or once with NaN in every result column when
  there is none. A column both tables have besides the key gets the suffixes
  \<open>_x\<close> (left) and \<open>_y\<close> (right).
\<close>

definition merge_rename :: "string list \<Rightarrow> string \<Rightarrow> string \<Rightarrow> string" where
  "merge_rename other sfx c = (if c \<noteq> col_urun \<and> c \<in> set other then c @ sfx else c)"

definition merge_left :: "pydict list \<Rightarrow> string list \<Rightarrow> pydict list \<Rightarrow> pydict list" where
  "merge_left lrows rcols rrows =
     concat (map (\<lambda>l.
       let lpart = map (\<lambda>(c, v). (merge_rename rcols ''_x'' c, v)) l;
           rcols' = filter (\<lambda>c. c \<noteq> col_urun) rcols;
           matches = filter (\<lambda>r. map_of r col_urun = map_of l col_urun) rrows
       in if matches = [] then [lpart @ map (\<lambda>c. (merge_rename product_columns ''_y'' c, PyNaN)) rcols']
          else map (\<lambda>r. lpart @ map (\<lambda>c. (merge_rename product_columns ''_y'' c,
                                             the (map_of r c))) rcols') matches) lrows)"

definition merge_with_product_features :: "product_stats list \<Rightarrow> pydict list option \<Rightarrow> pydict list option" where
  "merge_with_product_features products out =
     (case out of
        None \<Rightarrow> None
      | Some rows \<Rightarrow>
          let cols = table_columns rows
          in Some (merge_left (map product_row products) cols (map (read_row cols) rows)))"

section \<open>\<open>create_risk_class\<close> and \<open>finalize_and_save\<close>\<close>

text \<open>
  \<open>df.apply(classify_product, axis=1)\<close> classifies the rows in order; the first exception
  ends the call. The two columns are then set on every row.
\<close>

fun create_risk_class :: "pydict list \<Rightarrow> py_error + pydict list" where
  "create_risk_class [] = Inr []"
| "create_risk_class (row # rows) =
     ebind (classify_product row) (\<lambda>(c, s).
     ebind (create_risk_class rows) (\<lambda>rest.
       Inr (dict_set (dict_set row ''Risk_Class'' (PyInt c)) ''Risk_Score'' (PyInt s) # rest)))"

definition finalize_and_save :: "product_stats list \<Rightarrow> pydict list option \<Rightarrow> (py_error + pydict list) option" where
  "finalize_and_save products out =
     (case merge_with_product_features products out of
        None \<Rightarrow> None
      | Some df_final \<Rightarrow> Some (create_risk_class df_final))"

section \<open>Concrete inputs\<close>

text \<open>
  A reply that fills in all five scored keys, and one (as \<open>demo_parser\<close> returns for the
  text \<open>{}\<close>) that only has \<open>quality_sentiment\<close>; the rows the runner writes for them.
\<close>

definition full_reply :: pydict where
  "full_reply = [(k_fitment_problem, PyBool True), (k_fitment_severity, PyInt 8),
     (k_fabric_quality_issue, PyBool False), (k_quality_sentiment, PyInt 3), (k_delivery_issue, PyBool False)]"
definition scored_columns :: "string list" where
  "scored_columns = [k_fitment_problem, k_fitment_severity, k_fabric_quality_issue,
                     k_quality_sentiment, k_delivery_issue]"
definition full_rows :: "pydict list" where
  "full_rows = [dict_set (dict_set (reply_row full_reply ''a'' 1) ''Risk_Class'' (PyInt 1)) ''Risk_Score'' (PyInt 4),
      dict_set (dict_set (reply_row full_reply ''b'' 1) ''Risk_Class'' (PyInt 2)) ''Risk_Score'' (PyInt 0)]"

definition partial_reply :: pydict where
  "partial_reply = [(k_quality_sentiment, PyInt 2)]"

definition partial_rows :: "pydict list" where
  "partial_rows = [dict_set (dict_set (reply_row partial_reply ''a'' 1) ''Risk_Class'' (PyInt 0)) ''Risk_Score'' (PyInt 3)]"

section \<open>Reading a merged row\<close>

lemma classify_product_eq:
  "classify_product row =
     ebind (row_get row k_toplam_yorum) (\<lambda>n. ebind (py_lt n 5) (\<lambda>few.
     if few then Inr (2, 0)
     else
       ebind (row_get row k_fitment_problem) (\<lambda>fp.
       ebind (if py_is_true fp
              then ebind (row_get row k_fitment_severity) (\<lambda>sev. py_ge sev 7)
              else Inr False) (\<lambda>severe.
       ebind (row_get row k_fabric_quality_issue) (\<lambda>fq.
       ebind (row_get row k_quality_sentiment) (\<lambda>qs.
       ebind (py_le qs 2) (\<lambda>low.
       ebind (row_get row k_delivery_issue) (\<lambda>di.
       Inr (risk_threshold (risk_sum severe (py_is_true fp) (py_is_true fq) low
                              (py_eq_num qs 3) (py_is_true di)))))))))))"
  unfolding classify_product_def risk_threshold_def risk_sum_def Let_def ..








lemma merge_left_cases:
  assumes "row \<in> set (merge_left lrows rcols rrows)"
  obtains l where "l \<in> set lrows"
      and "row = map (\<lambda>(c, v). (merge_rename rcols ''_x'' c, v)) l @
                 map (\<lambda>c. (merge_rename product_columns ''_y'' c, PyNaN)) (filter (\<lambda>c. c \<noteq> col_urun) rcols)"
      and "filter (\<lambda>r. map_of r col_urun = map_of l col_urun) rrows = []"
  | l r where "l \<in> set lrows" and "r \<in> set rrows" and "map_of r col_urun = map_of l col_urun"
      and "row = map (\<lambda>(c, v). (merge_rename rcols ''_x'' c, v)) l @
                 map (\<lambda>c. (merge_rename product_columns ''_y'' c, the (map_of r c))) (filter (\<lambda>c. c \<noteq> col_urun) rcols)"
  using assms by (auto simp: merge_left_def Let_def split: if_splits)

lemma fst_product_row [simp]: "map fst (product_row s) = product_columns"
  by (simp add: product_row_def product_columns_def)

lemma rename_left_id:
  assumes "set rcols \<inter> set product_columns \<subseteq> {col_urun}"
  shows "map (\<lambda>(c, v). (merge_rename rcols ''_x'' c, v)) (product_row s) = product_row s"
proof (rule map_idI)
  fix x assume "x \<in> set (product_row s)"
  then have "fst x \<in> set product_columns"
    by (metis fst_product_row image_eqI list.set_map)
  then show "(case x of (c, v) \<Rightarrow> (merge_rename rcols ''_x'' c, v)) = x"
    using assms by (auto simp: merge_rename_def split: prod.splits)
qed

lemma rename_right_id:
  "set cs \<inter> set product_columns \<subseteq> {col_urun} \<Longrightarrow>
   map (\<lambda>c. (merge_rename product_columns ''_y'' c, f c)) (filter (\<lambda>c. c \<noteq> col_urun) cs) =
   map (\<lambda>c. (c, f c)) (filter (\<lambda>c. c \<noteq> col_urun) cs)"
  by (auto simp: merge_rename_def)

lemma csv_value_PyStr:
  "p \<noteq> [] \<Longrightarrow> csv_value r c = PyStr p \<longleftrightarrow> map_of r c = Some (PyStr p)"
  by (cases "map_of r c"; cases "the (map_of r c)" rule: csv_cell.cases) (auto simp: csv_value_def)

lemma read_row_key:
  "map_of (read_row cols r) c = (if c \<in> set cols then Some (csv_value r c) else None)"
  by (simp add: read_row_def map_of_map_restrict)

lemma row_names_mem:
  "y \<in> set rows \<Longrightarrow> map_of y col_urun = Some (PyStr p) \<Longrightarrow> p \<in> set (row_names rows)"
  by (induction rows) (auto simp: row_names_def List.map_filter_simps split: option.splits pyval.splits)


lemma key_in_table_columns:
  "r \<in> set rows \<Longrightarrow> map_of r c = Some v \<Longrightarrow> c \<in> set (table_columns rows)"
  by (force simp: table_columns_def dest: map_of_SomeD)


lemma merged_row_cases:
  assumes disj: "set (table_columns rows) \<inter> set product_columns \<subseteq> {col_urun}"
    and merged: "merge_with_product_features products (Some rows) = Some merged"
    and row: "row \<in> set merged" "map_of row col_urun = Some (PyStr p)" and p: "p \<noteq> []"
  shows "\<exists>s\<in>set products. ps_urun s = p \<and>
           ((row = product_row s @ map (\<lambda>c. (c, PyNaN)) (filter (\<lambda>c. c \<noteq> col_urun) (table_columns rows))
             \<and> (\<forall>r\<in>set rows. map_of r col_urun \<noteq> Some (PyStr p)))
          \<or> (\<exists>r\<in>set rows. map_of r col_urun = Some (PyStr p) \<and>
               row = product_row s @ map (\<lambda>c. (c, csv_value r c))
                                       (filter (\<lambda>c. c \<noteq> col_urun) (table_columns rows))))"
proof -
  let ?cols = "table_columns rows"
  have row_in: "row \<in> set (merge_left (map product_row products) ?cols (map (read_row ?cols) rows))"
    using merged row(1) by (auto simp: merge_with_product_features_def Let_def)
  have read_key: "map_of (read_row ?cols r) col_urun = Some (PyStr p) \<longleftrightarrow> map_of r col_urun = Some (PyStr p)"
    if "r \<in> set rows" for r
    using that p by (auto simp: read_row_key csv_value_PyStr intro: key_in_table_columns)
  have left_key: "map_of (product_row s) col_urun = Some (PyStr (ps_urun s))" for s
    by (simp add: product_row_def)
  show ?thesis
    using row_in
  proof (cases rule: merge_left_cases)
    case (1 l)
    then obtain s where s: "s \<in> set products" "l = product_row s" by auto
    with 1(2) row(2) have sp: "ps_urun s = p"
      by (simp add: rename_left_id [OF disj] left_key map_of_append)
    have "\<forall>r\<in>set rows. map_of r col_urun \<noteq> Some (PyStr p)"
      using 1(3) s(2) sp read_key by (auto simp: filter_empty_conv left_key)
    with 1(2) s sp disj show ?thesis
      by (auto simp: rename_left_id rename_right_id)
  next
    case (2 l r')
    then obtain s r0 where s: "s \<in> set products" "l = product_row s"
      and r0: "r0 \<in> set rows" "r' = read_row ?cols r0" by auto
    have shape: "row = product_row s @ map (\<lambda>c. (c, the (map_of r' c))) (filter (\<lambda>c. c \<noteq> col_urun) ?cols)"
      using 2(4) s(2) disj by (simp add: rename_left_id rename_right_id)
    with row(2) have sp: "ps_urun s = p"
      by (simp add: left_key map_of_append)
    with 2(3) s(2) r0 read_key have "map_of r0 col_urun = Some (PyStr p)"
      by (simp add: left_key)
    with shape r0 s(1) sp show ?thesis
      by (auto simp: read_row_key)
  qed
qed


lemma toplam_ne_urun [simp]: "k_toplam_yorum \<noteq> col_urun"
  by (simp add: col_urun_def)

lemma product_row_toplam:
  "row_get (product_row ps @ X) k_toplam_yorum = Inr (PyInt (int (ps_toplam_yorum_sayisi ps)))"
proof -
  have "map_of (product_row ps) k_toplam_yorum = Some (PyInt (int (ps_toplam_yorum_sayisi ps)))"
    by (simp add: product_row_def)
  then show ?thesis
    by (simp add: row_get_def map_of_append)
qed

lemma product_row_scored:
  "k \<in> set scored_columns \<Longrightarrow> map_of (product_row ps) k = None"
  unfolding scored_columns_def by (simp add: product_row_def col_urun_def) (elim disjE; simp)

lemma scored_not_urun: "k \<in> set scored_columns \<Longrightarrow> k \<noteq> col_urun"
  unfolding scored_columns_def by (simp add: col_urun_def) (elim disjE; simp)


lemma merged_row_get:
  assumes "k \<in> set scored_columns" "k \<in> set cols"
  shows "row_get (product_row ps @ map (\<lambda>c. (c, f c)) (filter (\<lambda>c. c \<noteq> col_urun) cols)) k = Inr (f k)"
proof -
  have "k \<in> set (filter (\<lambda>c. c \<noteq> col_urun) cols)"
    using assms scored_not_urun by auto
  then show ?thesis
    using assms(1) by (simp add: row_get_def map_of_append product_row_scored map_of_map_restrict
                                 map_add_def restrict_map_def)
qed

lemma classify_product_nan:
  assumes "row_get R k_toplam_yorum = Inr (PyInt (int n))"
    and "\<And>k. k \<in> set scored_columns \<Longrightarrow> row_get R k = Inr PyNaN"
  shows "classify_product R = Inr (if n < 5 then (2, 0) else (0, 0))"
  using assms by (simp add: classify_product_eq scored_columns_def py_order_defs risk_sum_def risk_threshold_def)

lemma merge_rename_keep:
  "sfx \<noteq> [] \<Longrightarrow> last (merge_rename other sfx c) \<noteq> last sfx \<Longrightarrow> merge_rename other sfx c = c"
  by (auto simp: merge_rename_def split: if_splits)

lemma product_row_key: "(c, v) \<in> set (product_row s) \<Longrightarrow> c \<in> set product_columns"
  by (metis fst_product_row fst_conv image_eqI list.set_map)

lemma merged_row_keys:
  assumes "row \<in> set (merge_left (map product_row products) cols rrows)"
    and "k \<notin> set cols" "k \<notin> set product_columns"
    and "last k \<noteq> CHR ''x''" "last k \<noteq> CHR ''y''"
  shows "map_of row k = None"
  using assms(1)
proof (cases rule: merge_left_cases)
  case (1 l)
  then show ?thesis
    using assms(2-5) merge_rename_keep [of "''_x''"] merge_rename_keep [of "''_y''"]
    by (fastforce simp: map_of_eq_None_iff dest: product_row_key)
next
  case (2 l r)
  then show ?thesis
    using assms(2-5) merge_rename_keep [of "''_x''"] merge_rename_keep [of "''_y''"]
    by (fastforce simp: map_of_eq_None_iff dest: product_row_key)
qed

lemma saved_rows_at_most_one:
  "distinct (row_names rows) \<Longrightarrow> length (filter (\<lambda>r. map_of r col_urun = Some (PyStr p)) rows) \<le> 1"
proof (induction rows)
  case (Cons r rows)
  have "filter (\<lambda>r. map_of r col_urun = Some (PyStr p)) rows = []"
    if "map_of r col_urun = Some (PyStr p)"
    using Cons.prems that row_names_mem [of _ rows p]
    by (auto simp: filter_empty_conv row_names_def List.map_filter_simps)
  with Cons show ?case
    by (auto simp: row_names_def List.map_filter_simps split: option.splits pyval.splits)
qed simp

lemma merge_left_one:
  assumes uniq: "distinct (row_names rows)" and p: "ps_urun s \<noteq> []"
    and disj: "set (table_columns rows) \<inter> set product_columns \<subseteq> {col_urun}"
  shows "map (\<lambda>row. map_of row col_urun)
           (merge_left [product_row s] (table_columns rows) (map (read_row (table_columns rows)) rows))
         = [Some (PyStr (ps_urun s))]"
proof -
  let ?cols = "table_columns rows"
  have left_key: "map_of (product_row s) col_urun = Some (PyStr (ps_urun s))"
    by (simp add: product_row_def)
  have "filter (\<lambda>r. map_of (read_row ?cols r) col_urun = Some (PyStr (ps_urun s))) rows
        = filter (\<lambda>r. map_of r col_urun = Some (PyStr (ps_urun s))) rows"
    using p by (auto simp: read_row_key csv_value_PyStr intro!: filter_cong intro: key_in_table_columns)
  then have "length (filter (\<lambda>r. map_of r col_urun = map_of (product_row s) col_urun)
                        (map (read_row ?cols) rows)) \<le> 1"
    using saved_rows_at_most_one [OF uniq] by (simp add: left_key filter_map comp_def)
  then have "filter (\<lambda>r. map_of r col_urun = map_of (product_row s) col_urun) (map (read_row ?cols) rows) = [] \<or>
             (\<exists>y. filter (\<lambda>r. map_of r col_urun = map_of (product_row s) col_urun) (map (read_row ?cols) rows) = [y])"
    by (rule length_le_1_cases)
  moreover have key: "map_of (product_row s @ X) col_urun = Some (PyStr (ps_urun s))" for X
    by (simp add: map_of_append left_key)
  ultimately show ?thesis
    unfolding merge_left_def Let_def rename_left_id [OF disj]
    by (elim disjE exE) (simp_all only: key list.map concat.simps append_Nil2 map_append list.simps if_True if_False
                           list.distinct(1) concat_map_singleton, simp_all add: rename_left_id [OF disj] map_add_def left_key)
qed

section \<open>Batch and incremental classification\<close>



text \<open>
  C10. When no saved reply contains \<open>fitment_problem\<close>, the column is missing from the
  CSV, and the batch classification of any merged row of a product with at least five
  reviews raises \<open>KeyError\<close>; the incremental classification of the same replies used
  the \<open>.get\<close> default (the witness: \<open>Inr (0, 3)\<close> against \<open>Inl KeyError\<close>).
\<close>

theorem batch_missing_column_error:
  assumes merged: "merge_with_product_features products (Some rows) = Some merged"
    and row: "row \<in> set merged"
    and toplam: "row_get row k_toplam_yorum = Inr (PyInt n)" and big: "5 \<le> n"
    and missing: "k_fitment_problem \<notin> set (table_columns rows)"
  shows "classify_product row = Inl KeyError"
proof -
  have "k_fitment_problem \<notin> set product_columns"
    by (simp add: product_columns_def col_urun_def)
  then have "map_of row k_fitment_problem = None"
    using merged row missing
    by (auto simp: merge_with_product_features_def Let_def intro: merged_row_keys)
  then show ?thesis
    using toplam big by (simp add: classify_product_eq row_get_def py_lt_def)
qed

theorem batch_missing_column_error_witness:
  "calculate_risk_class demo_products (reply_row partial_reply ''a'' 1) = Inr (0, 3) \<and>
   classify_product (hd (the (merge_with_product_features demo_products (Some partial_rows)))) = Inl KeyError"
proof -
  have inc: "calculate_risk_class demo_products (reply_row partial_reply ''a'' 1) = Inr (0, 3)"
    by code_simp
  have m: "merge_with_product_features demo_products (Some partial_rows) =
           Some (the (merge_with_product_features demo_products (Some partial_rows)))"
    unfolding partial_rows_def by code_simp
  have r: "hd (the (merge_with_product_features demo_products (Some partial_rows)))
             \<in> set (the (merge_with_product_features demo_products (Some partial_rows)))"
    unfolding partial_rows_def by code_simp
  have t: "row_get (hd (the (merge_with_product_features demo_products (Some partial_rows)))) k_toplam_yorum
             = Inr (PyInt 10)"
    unfolding partial_rows_def by code_simp
  have c: "k_fitment_problem \<notin> set (table_columns partial_rows)"
    unfolding partial_rows_def by code_simp
  show ?thesis
    using inc batch_missing_column_error [OF m r t _ c] by simp
qed

text \<open>
  C12. The left join keeps the phase-1 table: when the output file has at most one row
  per product and no reply column collides with a phase-1 column, the merged table has
  exactly one row per phase-1 product, in the phase-1 order.
\<close>

theorem merge_one_row_per_product:
  assumes uniq: "distinct (row_names rows)"
    and named: "\<forall>s\<in>set products. ps_urun s \<noteq> []"
    and disj: "set (table_columns rows) \<inter> set product_columns \<subseteq> {col_urun}"
    and merged: "merge_with_product_features products (Some rows) = Some merged"
  shows "map (\<lambda>row. map_of row col_urun) merged = map (\<lambda>s. Some (PyStr (ps_urun s))) products"
proof -
  have "map (\<lambda>row. map_of row col_urun)
          (merge_left (map product_row ps) (table_columns rows) (map (read_row (table_columns rows)) rows))
        = map (\<lambda>s. Some (PyStr (ps_urun s))) ps" if "set ps \<subseteq> set products" for ps
    using that
  proof (induction ps)
    case (Cons s ps)
    have "merge_left (map product_row (s # ps)) (table_columns rows) (map (read_row (table_columns rows)) rows)
          = merge_left [product_row s] (table_columns rows) (map (read_row (table_columns rows)) rows) @
            merge_left (map product_row ps) (table_columns rows) (map (read_row (table_columns rows)) rows)"
      by (simp add: merge_left_def)
    with Cons merge_left_one [OF uniq _ disj, of s] named show ?case by simp
  qed (simp add: merge_left_def)
  then show ?thesis
    using merged by (auto simp: merge_with_product_features_def Let_def)
qed

theorem merge_one_row_per_product_witness:
  "map (\<lambda>row. map_of row col_urun) (the (merge_with_product_features demo_products (Some full_rows)))
     = [Some (PyStr ''a''), Some (PyStr ''b'')]"
proof -
  have m: "merge_with_product_features demo_products (Some full_rows) =
           Some (the (merge_with_product_features demo_products (Some full_rows)))"
    unfolding full_rows_def by code_simp
  have u: "distinct (row_names full_rows)"
    unfolding full_rows_def by code_simp
  have n: "\<forall>s\<in>set demo_products. ps_urun s \<noteq> []"
    by (simp add: demo_products_def demo_product_def)
  have d: "set (table_columns full_rows) \<inter> set product_columns \<subseteq> {col_urun}"
    unfolding full_rows_def by code_simp
  show ?thesis
    using merge_one_row_per_product [OF u n d m] by (simp add: demo_products_def demo_product_def)
qed

text \<open>
  C11. A phase-1 product without a saved result (not yet processed, or failed) is
  classified by the batch pass from NaN sentiment fields: \<open>(2, 0)\<close> below five reviews,
  \<open>(0, 0)\<close> (healthy, score 0) otherwise, provided the scored columns exist in the file.
\<close>

theorem batch_unprocessed_default:
  assumes names: "distinct (map ps_urun products)"
    and ps: "ps \<in> set products" "ps_urun ps = p" and p: "p \<noteq> []"
    and unsaved: "p \<notin> set (row_names rows)"
    and scored: "set scored_columns \<subseteq> set (table_columns rows)"
    and disj: "set (table_columns rows) \<inter> set product_columns \<subseteq> {col_urun}"
    and merged: "merge_with_product_features products (Some rows) = Some merged"
  shows "\<forall>row\<in>set merged. map_of row col_urun = Some (PyStr p) \<longrightarrow>
           classify_product row = Inr (if ps_toplam_yorum_sayisi ps < 5 then (2, 0) else (0, 0))"
proof (intro ballI impI)
  fix row assume row: "row \<in> set merged" "map_of row col_urun = Some (PyStr p)"
  obtain s where s: "s \<in> set products" "ps_urun s = p"
    and shape: "row = product_row s @ map (\<lambda>c. (c, PyNaN)) (filter (\<lambda>c. c \<noteq> col_urun) (table_columns rows))"
    using merged_row_cases [OF disj merged row p] unsaved row_names_mem by blast
  have "s = ps"
    using names s ps by (metis distinct_map inj_onD)
  moreover have "classify_product (product_row ps @ map (\<lambda>c. (c, PyNaN))
                   (filter (\<lambda>c. c \<noteq> col_urun) (table_columns rows)))
                 = Inr (if ps_toplam_yorum_sayisi ps < 5 then (2, 0) else (0, 0))"
    by (rule classify_product_nan [OF product_row_toplam]) (use scored merged_row_get [where f = "\<lambda>_. PyNaN"] in blast)
  ultimately show "classify_product row = Inr (if ps_toplam_yorum_sayisi ps < 5 then (2, 0) else (0, 0))"
    using shape by simp
qed

theorem batch_unprocessed_default_witness:
  "classify_product (hd (the (merge_with_product_features demo_products (Some (tl full_rows))))) = Inr (0, 0)"
proof -
  have m: "merge_with_product_features demo_products (Some (tl full_rows)) =
           Some (the (merge_with_product_features demo_products (Some (tl full_rows))))"
    unfolding full_rows_def by code_simp
  have n: "distinct (map ps_urun demo_products)"
    by (simp add: demo_products_def demo_product_def)
  have ps: "demo_product ''a'' 10 \<in> set demo_products" "ps_urun (demo_product ''a'' 10) = ''a''"
    by (simp_all add: demo_products_def demo_product_def)
  have un: "''a'' \<notin> set (row_names (tl full_rows))"
    unfolding full_rows_def by code_simp
  have sc: "set scored_columns \<subseteq> set (table_columns (tl full_rows))"
    unfolding full_rows_def by code_simp
  have d: "set (table_columns (tl full_rows)) \<inter> set product_columns \<subseteq> {col_urun}"
    unfolding full_rows_def by code_simp
  have r: "hd (the (merge_with_product_features demo_products (Some (tl full_rows))))
             \<in> set (the (merge_with_product_features demo_products (Some (tl full_rows))))"
    unfolding full_rows_def by code_simp
  have k: "map_of (hd (the (merge_with_product_features demo_products (Some (tl full_rows))))) col_urun
             = Some (PyStr ''a'')"
    unfolding full_rows_def by code_simp
  show ?thesis
    using batch_unprocessed_default [OF n ps _ un sc d m] r k by (simp add: demo_product_def)
qed

end
