(* ===== verification/TrainPrep.thy ===== *)
theory TrainPrep
  imports ReportMerge
begin

text \<open>
  Feature preparation of \<open>src/scripts/train_model.py\<close> (lines 35--61), the part of the
  training script that is not a library call: the seven sentiment columns of the final
  table are converted by their pandas dtype (\<open>bool\<close> through \<open>astype(int)\<close>,
  \<open>object\<close> through \<open>map({'True': 1, 'False': 0, True: 1, False: 0})\<close>), missing
  values are filled with 0, and \<open>X\<close> and \<open>y\<close> are taken. A column of the CSV is its
  dtype, as \<open>read_csv\<close> inferred it, and its cells. The split, SMOTE, XGBoost, SHAP and
  the plots are library calls and are not modelled.
\<close>

datatype dtype = DBool | DObject | DInt64 | DFloat64

definition llm_features :: "string list" where
  "llm_features =
     [k_fitment_problem, k_fitment_severity, k_quality_sentiment, k_delivery_issue,
      ''color_mismatch'', k_fabric_quality_issue, ''price_value_perception'']"

type_synonym column = "dtype \<times> pyval list"

text \<open>
  One cell through the dict of \<open>Series.map\<close>: the keys are looked up by hash and
  equality, so besides the strings and booleans the numbers equal to \<open>True\<close> and
  \<open>False\<close> (1, 1.0, 0, 0.0) are found too; anything else becomes NaN. An unhashable cell
  (a list or dict) raises \<open>TypeError\<close>.
\<close>

fun bool_map :: "pyval \<Rightarrow> py_error + pyval" where
  "bool_map (PyStr s) = Inr (if s = ''True'' then PyInt 1 else if s = ''False'' then PyInt 0 else PyNaN)"
| "bool_map (PyBool b) = Inr (PyInt (if b then 1 else 0))"
| "bool_map (PyList xs) = Inl TypeError"
| "bool_map (PyDict d) = Inl TypeError"
| "bool_map v = Inr (if py_eq_num v 1 then PyInt 1 else if py_eq_num v 0 then PyInt 0 else PyNaN)"

fun map_cells :: "(pyval \<Rightarrow> py_error + pyval) \<Rightarrow> pyval list \<Rightarrow> py_error + pyval list" where
  "map_cells f [] = Inr []"
| "map_cells f (v # vs) = ebind (f v) (\<lambda>w. ebind (map_cells f vs) (\<lambda>ws. Inr (w # ws)))"

text \<open>
  The loop body of lines 46--54: only \<open>bool\<close> and \<open>object\<close> columns are converted; an
  exception inside the \<open>try\<close> sets the whole column to 0.
\<close>

definition convert_column :: "column \<Rightarrow> column" where
  "convert_column col =
     (case col of
        (DBool, vs) \<Rightarrow> (DInt64, map (\<lambda>v. case v of PyBool b \<Rightarrow> PyInt (if b then 1 else 0) | _ \<Rightarrow> v) vs)
      | (DObject, vs) \<Rightarrow>
          (case map_cells bool_map vs of
             Inr ws \<Rightarrow> (DObject, ws)
           | Inl e \<Rightarrow> (DInt64, replicate (length vs) (PyInt 0)))
      | (dt, vs) \<Rightarrow> (dt, vs))"

text \<open>\<open>fillna(0)\<close>: NaN and None cells become 0.\<close>

definition fillna0 :: "column \<Rightarrow> column" where
  "fillna0 col = (fst col, map (\<lambda>v. if v = PyNaN \<or> v = PyNone then PyInt 0 else v) (snd col))"

text \<open>
  The whole preparation on a table given by its columns: \<open>df[col]\<close> raises
  \<open>KeyError\<close> for a feature column the table lacks (the lookup of \<open>dtype\<close> is outside
  the \<open>try\<close>), and so does \<open>df['Risk_Class']\<close>.
\<close>

fun prepare_columns :: "(string \<times> column) list \<Rightarrow> string list \<Rightarrow> py_error + (string \<times> column) list" where
  "prepare_columns table [] = Inr []"
| "prepare_columns table (c # cs) =
     (case map_of table c of
        None \<Rightarrow> Inl KeyError
      | Some col \<Rightarrow> ebind (prepare_columns table cs) (\<lambda>rest. Inr ((c, fillna0 (convert_column col)) # rest)))"

definition prepare_features ::
  "(string \<times> column) list \<Rightarrow> py_error + (string \<times> column) list \<times> column" where
  "prepare_features table =
     ebind (prepare_columns table llm_features) (\<lambda>X.
       (case map_of table ''Risk_Class'' of None \<Rightarrow> Inl KeyError | Some y \<Rightarrow> Inr (X, y)))"

fun is_bool :: "pyval \<Rightarrow> bool" where
  "is_bool (PyBool b) = True"
| "is_bool v = False"

fun is_int :: "pyval \<Rightarrow> bool" where
  "is_int (PyInt i) = True"
| "is_int v = False"

fun is_float_or_nan :: "pyval \<Rightarrow> bool" where
  "is_float_or_nan (PyFloat r) = True"
| "is_float_or_nan PyNaN = True"
| "is_float_or_nan v = False"

text \<open>The cells \<open>read_csv\<close> gives a column of each dtype.\<close>

definition column_ok :: "column \<Rightarrow> bool" where
  "column_ok col \<longleftrightarrow>
     (case col of
        (DBool, vs) \<Rightarrow> list_all is_bool vs
      | (DInt64, vs) \<Rightarrow> list_all is_int vs
      | (DFloat64, vs) \<Rightarrow> list_all is_float_or_nan vs
      | (DObject, vs) \<Rightarrow> True)"

definition train_table :: "(string \<times> column) list" where
  "train_table = map (\<lambda>c. (c, (DFloat64, [PyNaN, PyFloat 3]))) llm_features @
                 [(''Risk_Class'', (DInt64, [PyInt 0, PyInt 1]))]"

section \<open>Properties\<close>

lemma is_tag_iff:
  "is_bool v \<longleftrightarrow> (\<exists>b. v = PyBool b)"
  "is_int v \<longleftrightarrow> (\<exists>i. v = PyInt i)"
  "is_float_or_nan v \<longleftrightarrow> v = PyNaN \<or> (\<exists>r. v = PyFloat r)"
  by (cases v; simp)+

lemma bool_map_flag: "bool_map v = Inr w \<Longrightarrow> w \<in> {PyInt 0, PyInt 1, PyNaN}"
  by (cases v rule: bool_map.cases) (auto split: if_splits)

lemma map_cells_set: "map_cells f vs = Inr ws \<Longrightarrow> \<forall>w\<in>set ws. \<exists>v\<in>set vs. f v = Inr w"
proof (induction vs arbitrary: ws)
  case (Cons v vs)
  then obtain w ws' where "f v = Inr w" "map_cells f vs = Inr ws'" "ws = w # ws'"
    by (auto simp: ebind_eq_Inr)
  with Cons.IH show ?case
    by fastforce
qed simp

lemma map_cells_nth:
  "map_cells f vs = Inr ws \<Longrightarrow> length ws = length vs \<and> (\<forall>i<length vs. f (vs ! i) = Inr (ws ! i))"
proof (induction vs arbitrary: ws)
  case (Cons v vs)
  then obtain w ws' where "f v = Inr w" "map_cells f vs = Inr ws'" "ws = w # ws'"
    by (auto simp: ebind_eq_Inr)
  with Cons.IH show ?case
    by (auto simp: nth_Cons split: nat.splits)
qed simp

lemma converted_flags_object:
  "fst col = DObject \<Longrightarrow> \<forall>v\<in>set (snd (convert_column col)). v \<in> {PyInt 0, PyInt 1, PyNaN}"
  by (cases col) (auto simp: convert_column_def split: sum.splits dest!: map_cells_set bool_map_flag)

text \<open>
  C30. Every \<open>object\<close> column, and every \<open>bool\<close> column, leaves the preparation as 0/1
  values only. An ordinal column that \<open>read_csv\<close> typed as \<open>object\<close> (one non-numeric
  cell suffices) therefore loses its values 2 and above.
\<close>

theorem converted_flags:
  assumes "fst col = DObject \<or> (fst col = DBool \<and> list_all is_bool (snd col))"
  shows "\<forall>v\<in>set (snd (fillna0 (convert_column col))). v = PyInt 0 \<or> v = PyInt 1"
proof -
  have "\<forall>v\<in>set (snd (convert_column col)). v \<in> {PyInt 0, PyInt 1, PyNaN}"
    using assms
  proof
    assume "fst col = DObject"
    then show ?thesis
      by (rule converted_flags_object)
  next
    assume b: "fst col = DBool \<and> list_all is_bool (snd col)"
    then obtain vs where col: "col = (DBool, vs)"
      by (cases col) auto
    show ?thesis
    proof
      fix w assume "w \<in> set (snd (convert_column col))"
      then obtain v where v: "v \<in> set vs" "w = (case v of PyBool b \<Rightarrow> PyInt (if b then 1 else 0) | _ \<Rightarrow> v)"
        by (auto simp: col convert_column_def)
      moreover obtain bb where "v = PyBool bb"
        using b v(1) col by (cases v) (auto simp: list_all_iff)
      ultimately show "w \<in> {PyInt 0, PyInt 1, PyNaN}"
        by simp
    qed
  qed
  then show ?thesis
    by (auto simp: fillna0_def)
qed

text \<open>
  C31. A missing (NaN) feature cell becomes 0 whatever the column's dtype; in particular the
  sentiment fields of a product without a saved result enter training as 0.
\<close>

theorem nan_feature_zero:
  assumes "i < length (snd col)" "snd col ! i = PyNaN"
  shows "snd (fillna0 (convert_column col)) ! i = PyInt 0"
proof -
  obtain dt vs where col: "col = (dt, vs)" by (cases col)
  have "snd (convert_column col) ! i \<in> {PyNaN, PyInt 0} \<and> length (snd (convert_column col)) = length vs"
  proof (cases dt)
    case DObject
    then show ?thesis
      using assms col by (auto simp: convert_column_def split: sum.splits dest!: map_cells_nth)
  qed (use assms col in \<open>simp_all add: convert_column_def\<close>)
  then show ?thesis
    using assms col by (auto simp: fillna0_def)
qed

lemma prepare_columns_Inl:
  "prepare_columns table cs = Inl e \<longleftrightarrow> e = KeyError \<and> \<not> set cs \<subseteq> dom (map_of table)"
  by (induction cs) (auto simp: ebind_eq_Inl ebind_eq_Inr split: option.splits)

lemma prepare_columns_Inr:
  "prepare_columns table cs = Inr X \<Longrightarrow>
   X = map (\<lambda>c. (c, fillna0 (convert_column (the (map_of table c))))) cs"
  by (induction cs arbitrary: X) (auto simp: ebind_eq_Inr split: option.splits)

text \<open>
  C32. The preparation fails exactly when a feature column or \<open>Risk_Class\<close> is absent from
  the final table, and then with \<open>KeyError\<close>.
\<close>

theorem prepare_features_error:
  "prepare_features table = Inl e \<longleftrightarrow>
   e = KeyError \<and> \<not> set (''Risk_Class'' # llm_features) \<subseteq> dom (map_of table)"
proof (cases "prepare_columns table llm_features")
  case (Inl e')
  then have "e' = KeyError" "\<not> set llm_features \<subseteq> dom (map_of table)"
    by (simp_all add: prepare_columns_Inl)
  with Inl show ?thesis
    by (auto simp: prepare_features_def)
next
  case (Inr X)
  have "set llm_features \<subseteq> dom (map_of table)"
  proof (rule ccontr)
    assume "\<not> set llm_features \<subseteq> dom (map_of table)"
    then have "prepare_columns table llm_features = Inl KeyError"
      by (simp add: prepare_columns_Inl)
    with Inr show False by simp
  qed
  with Inr show ?thesis
    by (auto simp: prepare_features_def split: option.splits)
qed

lemma column_numeric:
  assumes "column_ok col"
  shows "\<forall>v\<in>set (snd (fillna0 (convert_column col))). py_num v \<noteq> None"
proof -
  obtain dt vs where col: "col = (dt, vs)" by (cases col)
  have "\<forall>v\<in>set (snd (convert_column col)). v = PyNaN \<or> py_num v \<noteq> None"
  proof (cases dt)
    case DObject
    then show ?thesis
      using converted_flags_object [of col] col by auto
  qed (use assms col in \<open>auto simp: convert_column_def column_ok_def list_all_iff is_tag_iff\<close>)
  then show ?thesis
    by (auto simp: fillna0_def)
qed

text \<open>
  C33. On columns as \<open>read_csv\<close> types them, every prepared feature value is a number.
\<close>

theorem features_numeric:
  assumes "prepare_features table = Inr (X, y)"
    and "\<forall>c\<in>set llm_features. column_ok (the (map_of table c))"
  shows "\<forall>(c, col)\<in>set X. \<forall>v\<in>set (snd col). py_num v \<noteq> None"
proof -
  obtain X' where "prepare_columns table llm_features = Inr X'" "X' = X"
    using assms(1) by (auto simp: prepare_features_def ebind_eq_Inr split: option.splits)
  then have X: "X = map (\<lambda>c. (c, fillna0 (convert_column (the (map_of table c))))) llm_features"
    by (simp add: prepare_columns_Inr)
  show ?thesis
  proof
    fix p assume "p \<in> set X"
    then obtain c where "c \<in> set llm_features" "p = (c, fillna0 (convert_column (the (map_of table c))))"
      unfolding X by auto
    then show "case p of (c, col) \<Rightarrow> \<forall>v\<in>set (snd col). py_num v \<noteq> None"
      using column_numeric [of "the (map_of table c)"] assms(2) by auto
  qed
qed

theorem converted_flags_witness:
  "PyInt 3 \<notin> set (snd (fillna0 (convert_column (DObject, [PyInt 3, PyInt 4, PyStr ''x'']))))"
  using converted_flags [of "(DObject, [PyInt 3, PyInt 4, PyStr ''x''])"] by auto

theorem nan_feature_zero_witness:
  "snd (fillna0 (convert_column (DFloat64, [PyFloat 3, PyNaN]))) ! 1 = PyInt 0"
  using nan_feature_zero [of 1 "(DFloat64, [PyFloat 3, PyNaN])"] by simp

theorem features_numeric_witness:
  "PyNaN \<notin> set (snd (snd (hd (fst (projr (prepare_features train_table))))))"
proof -
  have p: "prepare_features train_table = Inr (fst (projr (prepare_features train_table)), snd (projr (prepare_features train_table)))"
    unfolding train_table_def by code_simp
  have ok: "\<forall>c\<in>set llm_features. column_ok (the (map_of train_table c))"
    unfolding train_table_def by code_simp
  have ne: "fst (projr (prepare_features train_table)) \<noteq> []"
    unfolding train_table_def by code_simp
  show ?thesis
    using features_numeric [OF p ok] ne by (cases "fst (projr (prepare_features train_table))") force+
qed

end
