(* ===== verification/TrainEval.thy ===== *)
theory TrainEval
  imports TrainPrep
begin

text \<open>
  The evaluation part of \<open>src/scripts/train_model.py\<close> (lines 122--226): the test-set
  metrics, the classification report, the confusion matrix with its row-normalised
  annotation, and the count of wrong predictions. The fitted model is not modelled:
  the predicted labels \<open>y_pred\<close> are a parameter. The scikit-learn functions the script
  calls are written out as the library documents them: labels are the sorted union of
  the true and predicted labels, \<open>classification_report\<close> raises \<open>ValueError\<close> when
  their number differs from the number of \<open>target_names\<close>, and a confusion-matrix row
  of a label that never occurs in \<open>y_test\<close> normalises to NaN (\<open>None\<close>), numpy's
  \<open>0/0\<close>. The weighted F1 score, the plots, feature importances and SHAP values do not
  influence what the script computes or whether it raises, and are left out.
\<close>

type_synonym label = int

definition class_names :: "string list" where
  "class_names = [''Healthy'', ''Quality Churn'', ''Engagement Churn'']"

section \<open>The stratified split\<close>

text \<open>
  \<open>train_test_split(X, y, test_size=0.25, random_state=42, stratify=y)\<close> (lines 71--73):
  the sizes are \<open>n_test = ceil(0.25 n)\<close> and \<open>n_train = n - n_test\<close>, and the split raises
  \<open>ValueError\<close> before drawing when the training part would be empty, when a class of
  \<open>y\<close> has a single member, or when either part is smaller than the number of classes.
  The random draw itself is not modelled; the result is the two sizes.
\<close>

definition stratified_split_check :: "label list \<Rightarrow> py_error + nat \<times> nat" where
  "stratified_split_check y =
     (let n_samples = length y;
          n_test = (n_samples + 3) div 4;
          n_train = n_samples - n_test;
          classes = remdups y
      in if n_train = 0 then Inl ValueError
         else if \<exists>c\<in>set classes. count_list y c < 2 then Inl ValueError
         else if n_train < length classes then Inl ValueError
         else if n_test < length classes then Inl ValueError
         else Inr (n_train, n_test))"

section \<open>The scikit-learn metrics\<close>

definition unique_labels :: "label list \<Rightarrow> label list \<Rightarrow> label list" where
  "unique_labels y_true y_pred = sort (remdups (y_true @ y_pred))"

definition accuracy_score :: "label list \<Rightarrow> label list \<Rightarrow> real" where
  "accuracy_score y_true y_pred =
     real (length (filter (\<lambda>(t, p). t = p) (zip y_true y_pred))) / real (length y_true)"

definition classification_report :: "label list \<Rightarrow> label list \<Rightarrow> string list \<Rightarrow> py_error + unit" where
  "classification_report y_true y_pred target_names =
     (if length (unique_labels y_true y_pred) \<noteq> length target_names then Inl ValueError else Inr ())"

definition confusion_matrix :: "label list \<Rightarrow> label list \<Rightarrow> nat list list" where
  "confusion_matrix y_true y_pred =
     (let labels = unique_labels y_true y_pred
      in map (\<lambda>i. map (\<lambda>j. count_list (zip y_true y_pred) (i, j)) labels) labels)"

section \<open>The script's own computations\<close>

text \<open>\<open>cm.astype('float') / cm.sum(axis=1)[:, np.newaxis]\<close> (line 137).\<close>

definition normalize_rows :: "nat list list \<Rightarrow> real option list list" where
  "normalize_rows cm =
     map (\<lambda>row. map (\<lambda>x. if sum_list row = 0 then None else Some (real x / real (sum_list row))) row) cm"

text \<open>
  The annotation loop (lines 142--147): \<open>cm_normalized[i, j]\<close> for \<open>i\<close> and \<open>j\<close> in
  \<open>range(len(class_names))\<close>, raising \<open>IndexError\<close> outside the matrix.
\<close>

definition annotate_cells :: "real option list list \<Rightarrow> nat \<Rightarrow> py_error + real option list" where
  "annotate_cells cm_normalized n =
     emap (\<lambda>(i, j). ebind (py_getitem cm_normalized i) (\<lambda>row. py_getitem row j))
          (List.product [0..<n] [0..<n])"

text \<open>\<open>results_df[results_df['True_Class'] != results_df['Predicted_Class']]\<close> (line 225).\<close>

definition wrong_count :: "label list \<Rightarrow> label list \<Rightarrow> nat" where
  "wrong_count y_true y_pred = length (filter (\<lambda>(t, p). t \<noteq> p) (zip y_true y_pred))"

record evaluation =
  ev_accuracy :: real
  ev_cm :: "nat list list"
  ev_cm_normalized :: "real option list list"
  ev_wrong :: nat

text \<open>Lines 122--226 in order; the first exception ends the script.\<close>

definition evaluate :: "label list \<Rightarrow> label list \<Rightarrow> py_error + evaluation" where
  "evaluate y_test y_pred =
     (let accuracy = accuracy_score y_test y_pred in
      ebind (classification_report y_test y_pred class_names) (\<lambda>_.
      let cm = confusion_matrix y_test y_pred;
          cm_normalized = normalize_rows cm
      in ebind (annotate_cells cm_normalized (length class_names)) (\<lambda>_.
      Inr \<lparr> ev_accuracy = accuracy, ev_cm = cm, ev_cm_normalized = cm_normalized,
            ev_wrong = wrong_count y_test y_pred \<rparr>)))"

section \<open>Concrete inputs\<close>

text \<open>A test split without any Engagement Churn product, all of it predicted correctly.\<close>

definition demo_y_test :: "label list" where
  "demo_y_test = [0, 1, 0, 1]"

section \<open>Lemmas\<close>

lemma set_unique_labels [simp]: "set (unique_labels y_true y_pred) = set y_true \<union> set y_pred"
  by (simp add: unique_labels_def)

lemma distinct_unique_labels [simp]: "distinct (unique_labels y_true y_pred)"
  by (simp add: unique_labels_def)

lemma length_unique_labels: "length (unique_labels y_true y_pred) = card (set y_true \<union> set y_pred)"
  by (simp add: unique_labels_def length_remdups_card_conv)

lemma confusion_matrix_shape:
  "length (confusion_matrix y_true y_pred) = length (unique_labels y_true y_pred)"
  "row \<in> set (confusion_matrix y_true y_pred) \<Longrightarrow> length row = length (unique_labels y_true y_pred)"
  by (auto simp: confusion_matrix_def Let_def)

lemma confusion_matrix_nth:
  "i < length (unique_labels y_true y_pred) \<Longrightarrow>
   confusion_matrix y_true y_pred ! i =
   map (\<lambda>j. count_list (zip y_true y_pred) (unique_labels y_true y_pred ! i, j)) (unique_labels y_true y_pred)"
  by (simp add: confusion_matrix_def Let_def)

lemma annotate_cells_square:
  assumes "length m = n" and "\<And>row. row \<in> set m \<Longrightarrow> length row = n"
  shows "\<exists>r. annotate_cells m n = Inr r"
  unfolding annotate_cells_def
proof (rule emap_Inr_all)
  fix x assume "x \<in> set (List.product [0..<n] [0..<n])"
  then obtain i j where "x = (i, j)" "i < n" "j < n" by auto
  with assms show "\<exists>y. (case x of (i, j) \<Rightarrow> ebind (py_getitem m i) (\<lambda>row. py_getitem row j)) = Inr y"
    by (simp add: py_getitem_def)
qed

lemma sum_indicator:
  "distinct L \<Longrightarrow> sum_list (map (\<lambda>j. if b = j then 1 else 0) L) = (if b \<in> set L then 1 else (0::nat))"
  by (induction L) auto

lemma count_pairs_row:
  assumes "length ys = length ps" and "set ps \<subseteq> set L" and "distinct L"
  shows "sum_list (map (\<lambda>j. count_list (zip ys ps) (i, j)) L) = count_list ys i"
  using assms(1,2)
proof (induction ys ps rule: list_induct2)
  case (Cons a as b bs)
  have "sum_list (map (\<lambda>j. count_list (zip (a # as) (b # bs)) (i, j)) L) =
        sum_list (map (\<lambda>j. if a = i \<and> b = j then 1 else 0) L) +
        sum_list (map (\<lambda>j. count_list (zip as bs) (i, j)) L)"
  proof -
    have "\<And>j. count_list (zip (a # as) (b # bs)) (i, j) =
              (if a = i \<and> b = j then 1 else 0) + count_list (zip as bs) (i, j)" by simp
    then show ?thesis by (simp only: sum_list_addf)
  qed
  also have "\<dots> = (if a = i then 1 else 0) + count_list as i"
    using Cons sum_indicator [OF assms(3), of b] by (cases "a = i") simp_all
  finally show ?case by simp
qed simp



lemma sum_list_divide: "sum_list (map (\<lambda>x. real x / c) xs) = real (sum_list xs) / c"
  by (induction xs) (simp_all add: add_divide_distrib)

lemma normalize_rows_shape:
  "length (normalize_rows cm) = length cm"
  "i < length cm \<Longrightarrow> length (normalize_rows cm ! i) = length (cm ! i)"
  by (simp_all add: normalize_rows_def)

lemma card_three_labels:
  assumes "A \<subseteq> {0, 1, 2 :: int}"
  shows "card A = 3 \<longleftrightarrow> {0, 1, 2} \<subseteq> A"
proof
  assume "card A = 3"
  moreover have "card {0, 1, 2 :: int} = 3" by simp
  ultimately have "A = {0, 1, 2}"
    using assms by (intro card_subset_eq) simp_all
  then show "{0, 1, 2} \<subseteq> A" by simp
next
  assume "{0, 1, 2} \<subseteq> A"
  with assms have "A = {0, 1, 2}" by blast
  then show "card A = 3" by simp
qed

lemma length_class_names: "length class_names = 3"
  by (simp add: class_names_def)

lemma evaluate_cases:
  "evaluate y_test y_pred =
   (if length (unique_labels y_test y_pred) = 3
    then ebind (annotate_cells (normalize_rows (confusion_matrix y_test y_pred)) 3) (\<lambda>_.
           Inr \<lparr> ev_accuracy = accuracy_score y_test y_pred, ev_cm = confusion_matrix y_test y_pred,
                 ev_cm_normalized = normalize_rows (confusion_matrix y_test y_pred),
                 ev_wrong = wrong_count y_test y_pred \<rparr>)
    else Inl ValueError)"
  by (simp add: evaluate_def classification_report_def length_class_names Let_def)


text \<open>
  A split of a table holding all three risk classes needs at least nine products: the
  test part, a quarter of the table rounded up, must hold one product of each class.
\<close>

lemma stratified_split_three_classes:
  assumes "stratified_split_check y = Inr r" and "card (set y) = 3"
  shows "9 \<le> length y"
proof -
  have "length (remdups y) = 3"
    using assms(2) by (simp add: length_remdups_card_conv)
  then have "3 \<le> (length y + 3) div 4"
    using assms(1) by (auto simp: stratified_split_check_def Let_def split: if_splits)
  then show ?thesis by linarith
qed

lemma stratified_split_eight_products:
  "stratified_split_check [0, 0, 0, 1, 1, 1, 2, 2] = Inl ValueError"
  by (simp add: stratified_split_check_def)

section \<open>Properties\<close>

text \<open>
  C36. With the three risk classes as labels, the evaluation runs to the end exactly when
  every class occurs in the test labels or the predictions; otherwise it stops at
  \<open>classification_report\<close> with \<open>ValueError\<close>, before the confusion matrix is drawn.
  No other exception is possible: the annotation loop never leaves the matrix.
\<close>

theorem evaluate_error:
  assumes "set y_test \<union> set y_pred \<subseteq> {0, 1, 2}"
  shows "((\<exists>r. evaluate y_test y_pred = Inr r) \<longleftrightarrow> {0, 1, 2} \<subseteq> set y_test \<union> set y_pred) \<and>
         (\<forall>e. evaluate y_test y_pred = Inl e \<longrightarrow> e = ValueError)"
proof -
  let ?L = "unique_labels y_test y_pred"
  have len: "length ?L = 3 \<longleftrightarrow> {0, 1, 2} \<subseteq> set y_test \<union> set y_pred"
    using card_three_labels [OF assms] by (simp add: length_unique_labels)
  have ok: "\<exists>r. annotate_cells (normalize_rows (confusion_matrix y_test y_pred)) 3 = Inr r"
    if "length ?L = 3"
    using that by (intro annotate_cells_square)
      (auto simp: normalize_rows_shape confusion_matrix_shape confusion_matrix_nth in_set_conv_nth)
  have "(\<exists>r. evaluate y_test y_pred = Inr r) \<longleftrightarrow> {0, 1, 2} \<subseteq> set y_test \<union> set y_pred"
    using ok len by (auto simp: evaluate_cases)
  moreover have "\<forall>e. evaluate y_test y_pred = Inl e \<longrightarrow> e = ValueError"
    using ok by (auto simp: evaluate_cases split: if_splits)
  ultimately show ?thesis ..
qed

theorem evaluate_error_witness:
  "evaluate demo_y_test demo_y_test = Inl ValueError"
proof -
  have sub: "set demo_y_test \<union> set demo_y_test \<subseteq> {0, 1, 2}"
    by (simp add: demo_y_test_def)
  have "\<not> {0, 1, 2} \<subseteq> set demo_y_test \<union> set demo_y_test"
    by (simp add: demo_y_test_def)
  moreover note evaluate_error [OF sub]
  ultimately have "(\<nexists>r. evaluate demo_y_test demo_y_test = Inr r) \<and>
                   (\<forall>e. evaluate demo_y_test demo_y_test = Inl e \<longrightarrow> e = ValueError)"
    by blast
  then show ?thesis
    by (cases "evaluate demo_y_test demo_y_test") auto
qed

text \<open>
  C37. Each row of the confusion matrix counts the test samples of its label, and its
  normalisation sums to one; the row of a label that only the predictions contain
  (\<open>y_test\<close> never has it) is NaN throughout, and the annotation shows \<open>nan%\<close> there.
\<close>

theorem confusion_matrix_rows:
  assumes len: "length y_true = length y_pred" and i: "i < length (unique_labels y_true y_pred)"
  shows "sum_list (confusion_matrix y_true y_pred ! i) = count_list y_true (unique_labels y_true y_pred ! i) \<and>
         (unique_labels y_true y_pred ! i \<in> set y_true \<longrightarrow>
            sum_list (map the (normalize_rows (confusion_matrix y_true y_pred) ! i)) = 1) \<and>
         (unique_labels y_true y_pred ! i \<notin> set y_true \<longrightarrow>
            set (normalize_rows (confusion_matrix y_true y_pred) ! i) = {None})"
proof -
  let ?L = "unique_labels y_true y_pred" and ?cm = "confusion_matrix y_true y_pred"
  have row: "sum_list (?cm ! i) = count_list y_true (?L ! i)"
    using count_pairs_row [OF len, of ?L] i by (simp add: confusion_matrix_nth)
  have n: "normalize_rows ?cm ! i =
           map (\<lambda>x. if sum_list (?cm ! i) = 0 then None else Some (real x / real (sum_list (?cm ! i)))) (?cm ! i)"
    using i by (simp add: normalize_rows_def confusion_matrix_shape)
  have one: "?L ! i \<in> set y_true \<longrightarrow> sum_list (map the (normalize_rows ?cm ! i)) = 1"
  proof
    assume "?L ! i \<in> set y_true"
    then have "sum_list (?cm ! i) \<noteq> 0"
      using row by (simp add: count_list_0_iff)
    then show "sum_list (map the (normalize_rows ?cm ! i)) = 1"
      using n by (simp add: comp_def sum_list_divide del: sum_list_eq_0_iff)
  qed
  have nan: "?L ! i \<notin> set y_true \<longrightarrow> set (normalize_rows ?cm ! i) = {None}"
  proof
    assume "?L ! i \<notin> set y_true"
    then have "sum_list (?cm ! i) = 0"
      using row by (simp add: count_list_0_iff)
    moreover have "?cm ! i \<noteq> []"
      using i by (auto simp: confusion_matrix_nth)
    ultimately show "set (normalize_rows ?cm ! i) = {None}"
      using n by (simp add: image_constant_conv del: sum_list_eq_0_iff)
  qed
  show ?thesis
    using row one nan by blast
qed

theorem confusion_matrix_rows_witness:
  "sum_list (confusion_matrix [0, 1, 0] [0, 1, 2] ! 0) = 2 \<and>
   sum_list (map the (normalize_rows (confusion_matrix [0, 1, 0] [0, 1, 2]) ! 0)) = 1 \<and>
   set (normalize_rows (confusion_matrix [0, 1, 0] [0, 1, 2]) ! 2) = {None}"
proof -
  have L: "unique_labels [0, 1, 0] [0, 1, 2] = [0, 1, 2 :: int]"
    by (simp add: unique_labels_def)
  have len: "length [0, 1, 0 :: int] = length [0, 1, 2 :: int]" by simp
  have "(0::nat) < length (unique_labels [0, 1, 0] [0, 1, 2])" "(2::nat) < length (unique_labels [0, 1, 0] [0, 1, 2])"
    by (simp_all add: L)
  note r0 = confusion_matrix_rows [OF len this(1)] and r2 = confusion_matrix_rows [OF len this(2)]
  show ?thesis
    using r0 r2 by (simp add: L)
qed



end
