(* ===== verification/DateParsing.thy ===== *)
theory DateParsing
  imports BaseMetrics PyString
begin

text \<open>
  The date handling of \<open>parse_turkish_dates\<close> (\<open>src/scripts/base_metrics.py\<close>; the
  copy in \<open>_parse_dates\<close> of \<open>src/scripts/llm_extraction.py\<close> is translated in
  \<open>Pipeline\<close> and proved equal to it): each
  Turkish month name of the \<open>Tarih\<close> text is replaced by its English name, in the
  order of \<open>month_mapping\<close>, and the result is handed to
  \<open>pd.to_datetime(..., format='%d %B %Y')\<close>. That library call is a parameter
  (\<open>date_parser\<close>, \<open>None\<close> where it raises); rows whose date does not parse are dropped.
  Turkish names are written as their UTF-8 bytes.
\<close>

type_synonym date_parser = "string \<Rightarrow> int option"

definition month_mapping :: "(string \<times> string) list" where
  "month_mapping =
     [(''Ocak'', ''January''), ([CHR 0xC5, CHR 0x9E] @ ''ubat'', ''February''), (''Mart'', ''March''),
      (''Nisan'', ''April''), (''May'' @ [CHR 0xC4, CHR 0xB1] @ ''s'', ''May''), (''Haziran'', ''June''),
      (''Temmuz'', ''July''), (''A'' @ [CHR 0xC4, CHR 0x9F] @ ''ustos'', ''August''),
      (''Eyl'' @ [CHR 0xC3, CHR 0xBC] @ ''l'', ''September''), (''Ekim'', ''October''),
      (''Kas'' @ [CHR 0xC4, CHR 0xB1] @ ''m'', ''November''), (''Aral'' @ [CHR 0xC4, CHR 0xB1] @ ''k'', ''December'')]"

text \<open>The \<open>for tr, en in month_mapping.items()\<close> loop of \<open>convert_date\<close>.\<close>

definition convert_months :: "string \<Rightarrow> string" where
  "convert_months s = fold (\<lambda>(tr, en) s. py_replace tr en s) month_mapping s"

definition convert_date :: "date_parser \<Rightarrow> string option \<Rightarrow> int option" where
  "convert_date to_datetime date_str =
     (case date_str of None \<Rightarrow> None | Some s \<Rightarrow> to_datetime (convert_months s))"

text \<open>
  \<open>df['parsed_date'] = df['Tarih'].apply(convert_date)\<close> followed by
  \<open>dropna(subset=['parsed_date'])\<close>: a row is the raw \<open>Tarih\<close> cell with the rest of the
  review, whose day number is set from the parsed date.
\<close>

definition parse_turkish_dates :: "date_parser \<Rightarrow> (string option \<times> review) list \<Rightarrow> review list" where
  "parse_turkish_dates to_datetime rows =
     List.map_filter (\<lambda>(t, r). map_option (\<lambda>d. r\<lparr>rv_date := d\<rparr>) (convert_date to_datetime t)) rows"

section \<open>The replacement loop on one month name\<close>

text \<open>
  The loop seen on the month name alone: each step turns the name into the English one
  when it is that step's Turkish key, and leaves it otherwise.
\<close>

definition month_step :: "string \<Rightarrow> string \<times> string \<Rightarrow> string" where
  "month_step x m = (if x = fst m then snd m else x)"

definition digit_or_space :: "char set" where
  "digit_or_space = set ''0123456789 ''"

definition month_names :: "string set" where
  "month_names = set (map fst month_mapping) \<union> set (map snd month_mapping)"

lemma replace_around:
  assumes "old \<noteq> []" "set old \<inter> digit_or_space = {}"
    and "set a \<subseteq> digit_or_space" "set b \<subseteq> digit_or_space"
    and "x = old \<or> \<not> sublist old x"
  shows "py_replace old new (a @ x @ b) = a @ (if x = old then new else x) @ b"
proof (cases "x = old")
  case True
  have "hd old \<notin> set a"
    using assms(1-3) by (cases old) auto
  moreover have "\<not> sublist old b"
    using assms(1,2,4) by (auto dest!: set_mono_sublist simp: neq_Nil_conv)
  ultimately show ?thesis
    using True assms(1) by (simp add: py_replace_def replace_from_skip replace_from_hit replace_from_absent)
next
  case False
  with assms(5) have x: "\<not> sublist old x" by simp
  have "\<not> sublist old (a @ x @ b)"
  proof
    assume "sublist old (a @ x @ b)"
    then have "sublist old (x @ b)"
      by (rule sublist_prepend_nonletters [where L = "- digit_or_space"]) (use assms in auto)
    then have "sublist old x"
      by (rule sublist_append_nonletters [where L = "- digit_or_space"]) (use assms in auto)
    with x show False ..
  qed
  with False assms(1) show ?thesis
    by (simp add: py_replace_def replace_from_absent)
qed

lemma fold_replace_around:
  assumes "\<forall>(tr, en)\<in>set ms. tr \<noteq> [] \<and> set tr \<inter> digit_or_space = {} \<and> en \<in> N \<and>
                            (\<forall>y\<in>N. y = tr \<or> \<not> sublist tr y)"
    and "x \<in> N" "set a \<subseteq> digit_or_space" "set b \<subseteq> digit_or_space"
  shows "fold (\<lambda>(tr, en) s. py_replace tr en s) ms (a @ x @ b) = a @ fold (\<lambda>m x. month_step x m) ms x @ b"
  using assms(1,2)
proof (induction ms arbitrary: x)
  case (Cons m ms)
  obtain tr en where m: "m = (tr, en)" by (cases m)
  with Cons.prems have "py_replace tr en (a @ x @ b) = a @ month_step x m @ b"
    using assms(3,4) by (simp add: replace_around month_step_def)
  moreover have "month_step x m \<in> N"
    using Cons.prems m by (simp add: month_step_def)
  ultimately show ?case
    using Cons.IH Cons.prems m by simp
qed simp

lemma month_table:
  "\<forall>(tr, en)\<in>set month_mapping. tr \<noteq> [] \<and> set tr \<inter> digit_or_space = {} \<and> en \<in> month_names \<and>
                                (\<forall>y\<in>month_names. y = tr \<or> \<not> sublist tr y)"
  unfolding month_mapping_def month_names_def digit_or_space_def by code_simp

lemma month_fold:
  "\<forall>(tr, en)\<in>set month_mapping. fold (\<lambda>m x. month_step x m) month_mapping tr = en"
  unfolding month_mapping_def month_step_def by code_simp

section \<open>Properties\<close>

text \<open>
  C23. The month replacement of \<open>convert_date\<close> turns every date of the form
  \<open>d Ay yyyy\<close> (day and year made of digits and spaces, \<open>Ay\<close> a Turkish month name of
  \<open>month_mapping\<close>) into \<open>d Month yyyy\<close> with the English name: no replacement of the
  loop touches the day, the year or the name produced by an earlier replacement.
\<close>

theorem convert_months_date:
  assumes "(tr, en) \<in> set month_mapping"
    and "set d \<subseteq> digit_or_space" and "set y \<subseteq> digit_or_space"
  shows "convert_months (d @ '' '' @ tr @ '' '' @ y) = d @ '' '' @ en @ '' '' @ y"
proof -
  have "tr \<in> month_names"
    using assms(1) by (force simp: month_names_def)
  moreover have "set (d @ '' '') \<subseteq> digit_or_space" "set ('' '' @ y) \<subseteq> digit_or_space"
    using assms(2,3) by (auto simp: digit_or_space_def)
  ultimately have "convert_months ((d @ '' '') @ tr @ ('' '' @ y)) =
                   (d @ '' '') @ fold (\<lambda>m x. month_step x m) month_mapping tr @ ('' '' @ y)"
    unfolding convert_months_def by (rule fold_replace_around [OF month_table])
  then show ?thesis
    using month_fold assms(1) by auto
qed

theorem convert_months_date_witness:
  "convert_months (''12 Ocak 2024'') = ''12 January 2024''"
proof -
  have "(''Ocak'', ''January'') \<in> set month_mapping"
    by (simp add: month_mapping_def)
  moreover have "set ''12'' \<subseteq> digit_or_space" "set ''2024'' \<subseteq> digit_or_space"
    by (simp_all add: digit_or_space_def)
  ultimately have "convert_months (''12'' @ '' '' @ ''Ocak'' @ '' '' @ ''2024'') = ''12'' @ '' '' @ ''January'' @ '' '' @ ''2024''"
    by (rule convert_months_date)
  then show ?thesis
    by simp
qed

end
