(* ===== verification/Pipeline.thy ===== *)
theory Pipeline
  imports ReportMerge DateParsing
begin

text \<open>
  How the phases are put together by the scripts' main blocks. Phase 1
  (\<open>src/scripts/base_metrics.py\<close>, lines 117--131) parses the dates of the raw review
  table, builds the product table and saves it (\<open>save_processed_data\<close>). Phase 2 (\<open>src/scripts/llm_extraction.py\<close>,
  lines 441--463) reads the same raw table, parses its dates again with its own copy of
  the date code (\<open>_parse_dates\<close>, lines 38--59), loads the phase-1 table and the output
  file, processes every product and, when no exception escaped, merges and classifies.
  The phase-1 CSV is handed to phase 2 as it was computed: the round trip through
  \<open>to_csv\<close>/\<open>read_csv\<close> is not modelled.
\<close>

section \<open>Phase 2's copy of the date code\<close>

definition llm_month_mapping :: "(string \<times> string) list" where
  "llm_month_mapping =
     [(''Ocak'', ''January''), ([CHR 0xC5, CHR 0x9E] @ ''ubat'', ''February''), (''Mart'', ''March''),
      (''Nisan'', ''April''), (''May'' @ [CHR 0xC4, CHR 0xB1] @ ''s'', ''May''), (''Haziran'', ''June''),
      (''Temmuz'', ''July''), (''A'' @ [CHR 0xC4, CHR 0x9F] @ ''ustos'', ''August''),
      (''Eyl'' @ [CHR 0xC3, CHR 0xBC] @ ''l'', ''September''), (''Ekim'', ''October''),
      (''Kas'' @ [CHR 0xC4, CHR 0xB1] @ ''m'', ''November''), (''Aral'' @ [CHR 0xC4, CHR 0xB1] @ ''k'', ''December'')]"

definition llm_convert_date :: "date_parser \<Rightarrow> string option \<Rightarrow> int option" where
  "llm_convert_date to_datetime date_str =
     (case date_str of
        None \<Rightarrow> None
      | Some s \<Rightarrow> to_datetime (fold (\<lambda>(tr, en) s. py_replace tr en s) llm_month_mapping s))"

definition llm_parse_dates :: "date_parser \<Rightarrow> (string option \<times> review) list \<Rightarrow> review list" where
  "llm_parse_dates to_datetime raw =
     List.map_filter (\<lambda>(t, r). map_option (\<lambda>d. r\<lparr>rv_date := d\<rparr>) (llm_convert_date to_datetime t)) raw"

section \<open>The main blocks\<close>

text \<open>
  \<open>save_processed_data\<close> (lines 102--112): the product table is written as CSV (its
  rows; a table built from no product has no column), then four of its columns are
  selected for \<open>describe()\<close>, which raises \<open>KeyError\<close> on a table without columns.
  The result is the written file and the returned table or the exception.
\<close>

definition save_processed_data :: "product_stats list \<Rightarrow> pydict list \<times> (py_error + product_stats list)" where
  "save_processed_data product_features =
     (map product_row product_features,
      if product_features = [] then Inl KeyError else Inr product_features)"

text \<open>
  Phase 1: \<open>LeakFreeProductPreparator(input_path)\<close>, \<open>parse_turkish_dates()\<close>,
  \<open>create_product_features()\<close>, \<open>save_processed_data(output_path)\<close>. The result is the
  phase-1 CSV (\<open>None\<close> when an exception came before it was written) and the returned
  table or the exception that ended the script.
\<close>

definition base_metrics_main ::
  "date_parser \<Rightarrow> (string option \<times> review) list \<Rightarrow> pydict list option \<times> (py_error + product_stats list)" where
  "base_metrics_main to_datetime raw =
     (case create_product_features (parse_turkish_dates to_datetime raw) of
        Inl e \<Rightarrow> (None, Inl e)
      | Inr product_features \<Rightarrow>
          (case save_processed_data product_features of (file, r) \<Rightarrow> (Some file, r)))"

text \<open>
  Phase 2: the constructor (with \<open>_parse_dates\<close> and \<open>_load_processed_products\<close>),
  \<open>process_all_products(max_products=None)\<close>, then \<open>finalize_and_save\<close>, which is
  not reached when an exception escapes the loop. The result is the output file and
  either that exception or what \<open>finalize_and_save\<close> returned.
\<close>

definition llm_extraction_main ::
  "llm_oracle \<Rightarrow> json_parser \<Rightarrow> date_parser \<Rightarrow> (string option \<times> review) list \<Rightarrow> product_stats list \<Rightarrow>
   pydict list option \<Rightarrow> pydict list option \<times> (py_error + (py_error + pydict list) option)" where
  "llm_extraction_main llm json_loads to_datetime raw products out =
     (let extractor = extractor_init (llm_parse_dates to_datetime raw) products out
      in case process_all_products llm json_loads None extractor of
           (st, Some e) \<Rightarrow> (output_file st, Inl e)
         | (st, None) \<Rightarrow> (output_file st, Inr (finalize_and_save products (output_file st))))"

section \<open>Concrete inputs\<close>

text \<open>The raw rows of \<open>demo_df\<close> with date texts that a parser maps back to their days.\<close>

definition demo_raw :: "(string option \<times> review) list" where
  "demo_raw = map (\<lambda>r. (Some [char_of (48 + nat (rv_date r))], r)) demo_df"

definition demo_dates :: date_parser where
  "demo_dates s = (case s of [c] \<Rightarrow> Some (int (of_char c) - 48) | _ \<Rightarrow> None)"

section \<open>Lemmas\<close>

lemma llm_month_mapping_eq: "llm_month_mapping = month_mapping"
  unfolding llm_month_mapping_def month_mapping_def ..

lemma llm_parse_dates_eq: "llm_parse_dates = parse_turkish_dates"
  unfolding llm_parse_dates_def parse_turkish_dates_def llm_convert_date_def convert_date_def
    convert_months_def llm_month_mapping_eq ..

lemma features_loop_length: "features_loop df ps = Inr res \<Longrightarrow> length res = length ps"
  by (induction df ps arbitrary: res rule: features_loop.induct)
     (auto simp: Let_def ebind_eq_Inr split: if_splits)

lemma unique_first_Nil_iff: "unique_first xs = [] \<longleftrightarrow> xs = []"
  by (metis set_empty set_unique_first)

lemma create_product_features_nonempty:
  "create_product_features df = Inr res \<Longrightarrow> res = [] \<longleftrightarrow> df = []"
  by (auto simp: create_product_features_def unique_first_Nil_iff dest!: features_loop_length)

lemma base_metrics_main_Inr:
  "snd (base_metrics_main to_datetime raw) = Inr products \<Longrightarrow>
   create_product_features (parse_turkish_dates to_datetime raw) = Inr products"
  by (auto simp: base_metrics_main_def save_processed_data_def split: sum.splits if_splits)

lemma length_recent_reviews:
  "length (extract_product_comments df p n) = min n (length (filter (\<lambda>r. rv_urun r = Some p) df))"
  by (simp add: extract_product_comments_def recent_reviews_def)

section \<open>Properties\<close>

text \<open>
  C39. The two phases see the same reviews: for every product of the phase-1 table, the
  comment list phase 2 builds for the model has exactly \<open>min(100, Toplam_Yorum_Sayisi)\<close>
  entries (the \<open>Yorum_Sayisi\<close> it saves), so it is never empty and no product of the
  table is skipped for lack of comments.
\<close>

theorem llm_comments_match_phase1:
  assumes "snd (base_metrics_main to_datetime raw) = Inr products" and "s \<in> set products"
  shows "length (extract_product_comments (llm_parse_dates to_datetime raw) (ps_urun s) 100) =
         min 100 (ps_toplam_yorum_sayisi s)"
proof -
  obtain a where "s = product_stats_of a (filter (\<lambda>r. rv_urun r = Some a) (parse_turkish_dates to_datetime raw))"
    using create_product_features_Inr base_metrics_main_Inr [OF assms(1)] assms(2) by metis
  then show ?thesis
    by (simp add: llm_parse_dates_eq length_recent_reviews)
qed

theorem llm_comments_match_phase1_witness:
  "length (extract_product_comments (llm_parse_dates demo_dates demo_raw) ''a'' 100) = 2"
proof -
  have p: "parse_turkish_dates demo_dates demo_raw = demo_df"
    unfolding parse_turkish_dates_def demo_raw_def demo_dates_def demo_df_def demo_review_def
      convert_date_def convert_months_def month_mapping_def by code_simp
  let ?s = "product_stats_of ''a'' [demo_review ''a'' 1 (Some 5) ''iyi'', demo_review ''a'' 3 (Some 4) ''fena degil'']"
  have m: "snd (base_metrics_main demo_dates demo_raw) =
           Inr [?s, product_stats_of ''b'' [demo_review ''b'' 2 (Some 1) ''kotu'']]"
    by (simp add: base_metrics_main_def save_processed_data_def p demo_df_features)
  have "?s \<in> set [?s, product_stats_of ''b'' [demo_review ''b'' 2 (Some 1) ''kotu'']]" by simp
  from llm_comments_match_phase1 [OF m this] show ?thesis by simp
qed

text \<open>
  C28. Phase 1 on a table in which no date parses: \<open>create_product_features\<close> builds a
  table without rows or columns, \<open>save_processed_data\<close> writes it as an empty CSV and
  then raises \<open>KeyError\<close> at the \<open>describe()\<close> selection. This is the only way the
  script ends with \<open>KeyError\<close>.
\<close>

theorem base_metrics_main_empty:
  "(snd (base_metrics_main to_datetime raw) = Inl KeyError \<longleftrightarrow> parse_turkish_dates to_datetime raw = []) \<and>
   (parse_turkish_dates to_datetime raw = [] \<longrightarrow> fst (base_metrics_main to_datetime raw) = Some [])"
proof -
  let ?df = "parse_turkish_dates to_datetime raw"
  have empty: "base_metrics_main to_datetime raw = (Some [], Inl KeyError)" if "?df = []"
    using that by (simp add: base_metrics_main_def save_processed_data_def create_product_features_def)
  have "snd (base_metrics_main to_datetime raw) \<noteq> Inl KeyError" if "?df \<noteq> []"
  proof (cases "create_product_features ?df")
    case (Inl e)
    then have "e = IndexError"
      by (simp add: create_product_features_eq split: if_splits)
    with Inl show ?thesis by (simp add: base_metrics_main_def)
  next
    case (Inr res)
    with that have "res \<noteq> []" by (simp add: create_product_features_nonempty)
    with Inr show ?thesis by (simp add: base_metrics_main_def save_processed_data_def)
  qed
  with empty show ?thesis by auto
qed

theorem base_metrics_main_empty_witness:
  "base_metrics_main (\<lambda>_. None) demo_raw = (Some [], Inl KeyError)"
proof -
  have "parse_turkish_dates (\<lambda>_. None) demo_raw = []"
    by (simp add: parse_turkish_dates_def convert_date_def demo_raw_def demo_df_def List.map_filter_simps)
  then show ?thesis
    using base_metrics_main_empty [of "\<lambda>_. None" demo_raw] by (cases "base_metrics_main (\<lambda>_. None) demo_raw") simp
qed

end
