(* ===== verification/Scraper.thy ===== *)
theory Scraper
  imports PyString
begin

text \<open>
  The pure parts of the scraper \<open>src/webscraping/ty_scrapping.py\<close>: the review-page link
  (\<open>get_review_link\<close>), the star rating read from the width of the star bar
  (\<open>extract_padding_value\<close>, \<open>closest_star_from_padding\<close>), the bounded scroll loop
  that loads the reviews, and the construction of one CSV row per review. The browser is
  an input: a DOM lookup is \<open>None\<close> where \<open>find_element\<close> raises, and the page height
  read by \<open>execute_script\<close> is a function of the number of reads so far. Paddings are
  real numbers; the model does not follow the rounding of Python's binary floats.
\<close>

section \<open>get_review_link\<close>

definition get_review_link :: "string \<Rightarrow> string" where
  "get_review_link product_link =
     (let parts = py_split1 CHR ''?'' product_link;
          base_url = py_rstrip_char CHR ''/'' (parts ! 0);
          query_params = (if 1 < length parts then ''?'' @ parts ! 1 else '''')
      in base_url @ ''/yorumlar'' @ query_params)"

section \<open>The star rating\<close>

text \<open>\<open>PADDING_TO_STAR\<close>, in the dict's order.\<close>

definition padding_to_star :: "(real \<times> nat) list" where
  "padding_to_star = [(668571 / 10000, 1), (501429 / 10000, 2), (334286 / 10000, 3),
                      (167143 / 10000, 4), (0, 5)]"

text \<open>\<open>min(xs, key=f)\<close>: the first element with the least key.\<close>

definition py_min_by :: "('a \<Rightarrow> real) \<Rightarrow> 'a \<Rightarrow> 'a list \<Rightarrow> 'a" where
  "py_min_by f x xs = foldl (\<lambda>best y. if f y < f best then y else best) x xs"

definition closest_star_from_padding :: "real option \<Rightarrow> nat option" where
  "closest_star_from_padding padding_value =
     (case padding_value of
        None \<Rightarrow> None
      | Some v \<Rightarrow>
          let closest = py_min_by (\<lambda>k. \<bar>k - v\<bar>) (fst (hd padding_to_star)) (map fst (tl padding_to_star))
          in map_of padding_to_star closest)"

text \<open>
  \<open>re.search(r'padding-inline-end\s*:\s*([\d\.]+)px', s)\<close>. At a given position the
  pattern has one way to match: \<open>\s*\<close> cannot take the colon, and \<open>[\d\.]+\<close> must be
  followed by \<open>p\<close>, which is neither a digit nor a dot, so only its longest run can be
  followed by \<open>px\<close>. \<open>padding_match\<close> is the match at the start of a string (the group);
  \<open>padding_search\<close> the leftmost match. \<open>\s\<close> is taken as \<open>py_space\<close> and \<open>\d\<close> as an
  ASCII digit.
\<close>

definition py_digit :: "char \<Rightarrow> bool" where
  "py_digit c \<longleftrightarrow> 48 \<le> (of_char c :: nat) \<and> (of_char c :: nat) \<le> 57"

definition digit_or_dot :: "char \<Rightarrow> bool" where
  "digit_or_dot c \<longleftrightarrow> py_digit c \<or> c = CHR ''.''"

definition padding_match :: "string \<Rightarrow> string option" where
  "padding_match s =
     (if prefix ''padding-inline-end'' s
      then (case dropWhile py_space (drop 18 s) of
              c # r \<Rightarrow>
                if c = CHR '':'' then
                  (let r' = dropWhile py_space r; g = takeWhile digit_or_dot r'
                   in if g \<noteq> [] \<and> prefix ''px'' (dropWhile digit_or_dot r') then Some g else None)
                else None
            | [] \<Rightarrow> None)
      else None)"

fun padding_search :: "string \<Rightarrow> string option" where
  "padding_search [] = None"
| "padding_search (c # s) = (case padding_match (c # s) of Some g \<Rightarrow> Some g | None \<Rightarrow> padding_search s)"

text \<open>
  \<open>float(g)\<close> on a run of digits and dots: valid with at most one dot and at least one
  digit (\<open>1.\<close>, \<open>.5\<close>), \<open>ValueError\<close> otherwise, which the code turns into \<open>None\<close>.
\<close>

definition digits_val :: "string \<Rightarrow> nat" where
  "digits_val ds = foldl (\<lambda>n c. 10 * n + (of_char c - 48)) 0 ds"

definition float_of_digits :: "string \<Rightarrow> real option" where
  "float_of_digits g =
     (let ip = takeWhile (\<lambda>c. c \<noteq> CHR ''.'') g; rest = dropWhile (\<lambda>c. c \<noteq> CHR ''.'') g;
          fp = drop 1 rest
      in if CHR ''.'' \<in> set fp \<or> (ip = [] \<and> fp = []) then None
         else Some (real (digits_val ip) + real (digits_val fp) / 10 ^ length fp))"

definition extract_padding_value :: "string option \<Rightarrow> real option" where
  "extract_padding_value style_str =
     (case style_str of
        None \<Rightarrow> None
      | Some s \<Rightarrow> if s = [] then None
                  else (case padding_search s of None \<Rightarrow> None | Some g \<Rightarrow> float_of_digits g))"

text \<open>
  Lines 237--244: the star element's \<open>style\<close> attribute (\<open>None\<close> for no attribute), or no
  element at all (the outer \<open>None\<close>), to the rating \<open>Puan\<close>.
\<close>

definition star_rating :: "string option option \<Rightarrow> nat option" where
  "star_rating star_elem =
     (case star_elem of
        None \<Rightarrow> None
      | Some style \<Rightarrow> closest_star_from_padding (extract_padding_value style))"

section \<open>The scroll loop\<close>

text \<open>
  Lines 154--187. \<open>height r\<close> is the page height returned by the \<open>r\<close>-th call of
  \<open>execute_script("return document.body.scrollHeight")\<close>. An iteration scrolls, reads
  the new height and, if it equals the last one, waits and reads once more; two equal
  reads end the loop by \<open>break\<close> (the attempt is not counted). The result is the final
  \<open>scroll_attempts\<close> and the number of height reads. The sleeps and the scrolling
  itself have no effect on the model's state.
\<close>

definition max_total_scroll_attempts :: nat where
  "max_total_scroll_attempts = 50"

function scroll_loop :: "(nat \<Rightarrow> int) \<Rightarrow> nat \<Rightarrow> nat \<Rightarrow> int \<Rightarrow> nat \<times> nat" where
  "scroll_loop height r scroll_attempts last_height =
     (if scroll_attempts < max_total_scroll_attempts then
        (let new_height = height r in
         if new_height = last_height \<and> height (r + 1) = new_height then (scroll_attempts, r + 2)
         else scroll_loop height (if new_height = last_height then r + 2 else r + 1)
                (scroll_attempts + 1) new_height)
      else (scroll_attempts, r))"
  by pat_completeness auto
termination
  by (relation "measure (\<lambda>(height, r, a, l). max_total_scroll_attempts - a)") auto

declare scroll_loop.simps [simp del]

definition scroll_reviews :: "(nat \<Rightarrow> int) \<Rightarrow> nat \<times> nat" where
  "scroll_reviews height = scroll_loop height 1 0 (height 0)"

section \<open>One review row\<close>

text \<open>
  Lines 209--222: the size attributes of a review. A variant is its label and value
  texts, \<open>None\<close> where \<open>find_element\<close> raises; the exception leaves the loop, and the
  \<open>except: pass\<close> keeps what was assigned before it.
\<close>

type_synonym attrs = "string option \<times> string option \<times> string option"

fun variant_loop :: "attrs \<Rightarrow> (string option \<times> string option) list \<Rightarrow> attrs" where
  "variant_loop acc [] = acc"
| "variant_loop (boy, kilo, beden) ((lbl, val) # vs) =
     (case (lbl, val) of
        (Some l, Some v) \<Rightarrow>
          (let label = py_lower (py_strip l); value = py_strip v in
           if py_in ''boy'' label then variant_loop (Some value, kilo, beden) vs
           else if py_in ''kilo'' label then variant_loop (boy, Some value, beden) vs
           else if py_in ''beden'' label then variant_loop (boy, kilo, Some value) vs
           else variant_loop (boy, kilo, beden) vs)
      | _ \<Rightarrow> (boy, kilo, beden))"

text \<open>
  What the page offers for one review container: the name, date, comment and seller
  texts, the size variants, and the star element (its \<open>style\<close> attribute).
\<close>

record review_dom =
  rd_name :: "string option"
  rd_date :: "string option"
  rd_variants :: "(string option \<times> string option) list"
  rd_comment :: "string option"
  rd_seller :: "string option"
  rd_star :: "string option option"

text \<open>The dict appended to \<open>data\<close> (lines 246--259).\<close>

record scraped_review =
  sr_marka :: string
  sr_urun :: string
  sr_fiyat :: string
  sr_genel_puan :: "real option"
  sr_ad :: "string option"
  sr_yorum :: string
  sr_tarih :: "string option"
  sr_boy :: "string option"
  sr_kilo :: "string option"
  sr_beden :: "string option"
  sr_satici :: "string option"
  sr_puan :: "nat option"

text \<open>
  The product's header fields (lines 121--149): brand and title from the info span (its
  text and the text of its \<open>b\<close> child; \<open>None\<close> if either lookup raises), the first of
  the three price selectors that is found, and the rating text through \<open>float\<close>, a
  library conversion passed as \<open>py_float\<close> (\<open>None\<close> where it raises).
\<close>

record product_header =
  ph_marka :: string
  ph_aciklama :: string
  ph_fiyat :: string
  ph_genel_puan :: "real option"

definition scrape_header ::
  "(string \<Rightarrow> real option) \<Rightarrow> (string \<times> string) option \<Rightarrow> string option list \<Rightarrow> string option \<Rightarrow> product_header" where
  "scrape_header py_float info prices rate_text =
     (let (marka, aciklama) =
            (case info of None \<Rightarrow> ([], [])
             | Some (span_text, b_text) \<Rightarrow>
                 let marka = py_strip b_text in (marka, py_strip (py_replace marka [] span_text)));
          fiyat = (case List.find (\<lambda>p. p \<noteq> None) prices of Some (Some p) \<Rightarrow> py_strip p | _ \<Rightarrow> []);
          genel_puan = (case rate_text of None \<Rightarrow> None
                        | Some t \<Rightarrow> py_float (py_replace '','' ''.'' (py_strip t)))
      in \<lparr> ph_marka = marka, ph_aciklama = aciklama, ph_fiyat = fiyat, ph_genel_puan = genel_puan \<rparr>)"

definition scrape_review :: "product_header \<Rightarrow> review_dom \<Rightarrow> scraped_review" where
  "scrape_review h container =
     (let (boy, kilo, beden) = variant_loop (None, None, None) (rd_variants container) in
      \<lparr> sr_marka = ph_marka h, sr_urun = ph_aciklama h, sr_fiyat = ph_fiyat h,
        sr_genel_puan = ph_genel_puan h,
        sr_ad = map_option py_strip (rd_name container),
        sr_yorum = (case rd_comment container of None \<Rightarrow> [] | Some c \<Rightarrow> py_strip c),
        sr_tarih = map_option (\<lambda>t. py_replace [CHR 0x0A] '' '' (py_strip t)) (rd_date container),
        sr_boy = boy, sr_kilo = kilo, sr_beden = beden,
        sr_satici = map_option py_strip (rd_seller container),
        sr_puan = star_rating (rd_star container) \<rparr>)"

text \<open>The rows of one product: one per review container, in page order (lines 194--259).\<close>

definition scrape_product :: "product_header \<Rightarrow> review_dom list \<Rightarrow> scraped_review list" where
  "scrape_product h revs = map (scrape_review h) revs"

section \<open>Lemmas and properties\<close>

text \<open>
  Splitting the review link at its first \<open>?\<close> gives back the product link's query
  part unchanged, after the product path with its trailing slashes removed and
  \<open>/yorumlar\<close> appended; a link without a query becomes a link ending in \<open>/yorumlar\<close>.
\<close>

theorem get_review_link_split:
  "py_split1 CHR ''?'' (get_review_link l) =
     (py_rstrip_char CHR ''/'' (hd (py_split1 CHR ''?'' l)) @ ''/yorumlar'') # tl (py_split1 CHR ''?'' l)"
proof (cases l rule: py_split1_cases [of "CHR ''?''"])
  case (1 a)
  then show ?thesis
    using rstrip_no_char [of "CHR ''?''" a] by (simp add: get_review_link_def py_split1_miss)
next
  case (2 a q)
  have link: "get_review_link l = (py_rstrip_char CHR ''/'' a @ ''/yorumlar'') @ CHR ''?'' # q"
    using 2(3) by (simp add: get_review_link_def Let_def)
  have "CHR ''?'' \<notin> set (py_rstrip_char CHR ''/'' a @ ''/yorumlar'')"
    using 2(1) rstrip_no_char [of "CHR ''?''" a] by simp
  then have "py_split1 CHR ''?'' (get_review_link l) = [py_rstrip_char CHR ''/'' a @ ''/yorumlar'', q]"
    unfolding link by (rule py_split1_hit)
  then show ?thesis
    using 2(3) by simp
qed

lemma closest_eq:
  "closest_star_from_padding (Some v) =
     map_of padding_to_star (py_min_by (\<lambda>k. \<bar>k - v\<bar>) (668571 / 10000) [501429 / 10000, 334286 / 10000, 167143 / 10000, 0])"
  by (simp add: closest_star_from_padding_def padding_to_star_def)

lemma min_by_step: "py_min_by f x (y # ys) = py_min_by f (if f y < f x then y else x) ys"
  by (simp add: py_min_by_def)

text \<open>
  C25. \<open>closest_star_from_padding\<close> is the threshold rule of the five bar widths: the star
  of the nearest padding, a padding exactly between two keys going to the first key in the
  dict's order (the fewer stars).
\<close>

theorem closest_star_thresholds:
  "closest_star_from_padding (Some v) =
     Some (if 585 / 10 \<le> v then 1 else if 4178575 / 100000 \<le> v then 2
           else if 2507145 / 100000 \<le> v then 3 else if 835715 / 100000 \<le> v then 4 else 5)"
proof -
  consider "585 / 10 \<le> v" | "4178575 / 100000 \<le> v" "v < 585 / 10" | "2507145 / 100000 \<le> v" "v < 4178575 / 100000"
    | "835715 / 100000 \<le> v" "v < 2507145 / 100000" | "v < 835715 / 100000"
    by linarith
  then show ?thesis
    by cases (simp_all add: closest_eq min_by_step py_min_by_def abs_if padding_to_star_def)
qed
lemma digits_not_dot: "\<forall>c\<in>set ds. py_digit c \<Longrightarrow> CHR ''.'' \<notin> set ds"
  by (auto simp: py_digit_def)

lemma digits_not_space: "\<forall>c\<in>set ds. py_digit c \<Longrightarrow> ds \<noteq> [] \<Longrightarrow> \<not> py_space (hd ds)"
  by (cases ds) (auto simp: py_digit_def py_space_def)

lemma decimal_run:
  assumes "\<forall>c\<in>set ip. py_digit c" "\<forall>c\<in>set fp. py_digit c"
  shows "takeWhile digit_or_dot (ip @ ''.'' @ fp @ ''px'' @ rest) = ip @ ''.'' @ fp"
    and "dropWhile digit_or_dot (ip @ ''.'' @ fp @ ''px'' @ rest) = ''px'' @ rest"
  using assms by (simp_all add: takeWhile_append dropWhile_append digit_or_dot_def py_digit_def)

lemma float_of_decimal:
  assumes "ip \<noteq> []" "\<forall>c\<in>set ip. py_digit c" "\<forall>c\<in>set fp. py_digit c"
  shows "float_of_digits (ip @ ''.'' @ fp) = Some (real (digits_val ip) + real (digits_val fp) / 10 ^ length fp)"
proof -
  have "CHR ''.'' \<notin> set ip" "CHR ''.'' \<notin> set fp"
    using assms(2,3) by (simp_all add: digits_not_dot)
  then show ?thesis
    using assms(1) by (simp add: float_of_digits_def takeWhile_append dropWhile_append)
qed

text \<open>
  C26. \<open>extract_padding_value\<close> reads back a decimal width written as
  \<open>padding-inline-end: d.ddddpx\<close> (any whitespace around the colon, anything after
  \<open>px\<close>) as its exact value.
\<close>

theorem extract_padding_value_roundtrip:
  assumes "\<forall>c\<in>set ws1. py_space c" "\<forall>c\<in>set ws2. py_space c"
    and "ip \<noteq> []" "\<forall>c\<in>set ip. py_digit c" "\<forall>c\<in>set fp. py_digit c"
  shows "extract_padding_value (Some (''padding-inline-end'' @ ws1 @ '':'' @ ws2 @ ip @ ''.'' @ fp @ ''px'' @ rest))
           = Some (real (digits_val ip) + real (digits_val fp) / 10 ^ length fp)"
proof -
  have "dropWhile py_space (ws1 @ '':'' @ ws2 @ ip @ ''.'' @ fp @ ''px'' @ rest) = '':'' @ ws2 @ ip @ ''.'' @ fp @ ''px'' @ rest"
    using assms(1) by (simp add: dropWhile_append py_space_def)
  moreover have "dropWhile py_space (ip @ ''.'' @ fp @ ''px'' @ rest) = ip @ ''.'' @ fp @ ''px'' @ rest"
    by (rule dropWhile_keep) (use assms(3) digits_not_space [OF assms(4,3)] in auto)
  then have "dropWhile py_space (ws2 @ ip @ ''.'' @ fp @ ''px'' @ rest) = ip @ ''.'' @ fp @ ''px'' @ rest"
    by (simp add: dropWhile_append2 assms(2))
  ultimately have "padding_match (''padding-inline-end'' @ ws1 @ '':'' @ ws2 @ ip @ ''.'' @ fp @ ''px'' @ rest)
                   = Some (ip @ ''.'' @ fp)"
    using decimal_run [OF assms(4,5)] assms(3) by (simp add: padding_match_def)
  then show ?thesis
    using float_of_decimal [OF assms(3-5)] by (simp add: extract_padding_value_def)
qed


theorem extract_padding_value_roundtrip_witness:
  "extract_padding_value (Some ''padding-inline-end: 16.7143px;'') = Some (167143 / 10000)"
proof -
  have "extract_padding_value (Some (''padding-inline-end'' @ [] @ '':'' @ '' '' @ ''16'' @ ''.'' @ ''7143'' @ ''px'' @ '';''))
          = Some (real (digits_val ''16'') + real (digits_val ''7143'') / 10 ^ length ''7143'')"
    by (rule extract_padding_value_roundtrip) (simp_all add: py_space_def py_digit_def)
  then show ?thesis
    by (simp add: digits_val_def)
qed




lemma scroll_loop_reads:
  "scroll_attempts \<le> max_total_scroll_attempts \<Longrightarrow>
   fst (scroll_loop height r scroll_attempts last_height) \<le> max_total_scroll_attempts \<and>
   snd (scroll_loop height r scroll_attempts last_height) \<le> r + 2 * (max_total_scroll_attempts - scroll_attempts)"
proof (induction height r scroll_attempts last_height rule: scroll_loop.induct)
  case (1 height r scroll_attempts last_height)
  show ?case
  proof (cases "scroll_attempts < max_total_scroll_attempts")
    case True
    with "1.IH" [OF True refl] show ?thesis
      by (auto simp: scroll_loop.simps [of height r scroll_attempts last_height] Let_def)
  next
    case False
    then have "scroll_loop height r scroll_attempts last_height = (scroll_attempts, r)"
      by (subst scroll_loop.simps) simp
    with False "1.prems" show ?thesis
      by simp
  qed
qed

text \<open>
  C24. The scroll loop ends on every page behaviour: after at most 50 counted attempts
  and at most 101 height reads (so at most 101 sleeps of bounded length).
\<close>

theorem scroll_reviews_bound:
  "fst (scroll_reviews height) \<le> 50 \<and> snd (scroll_reviews height) \<le> 101"
  using scroll_loop_reads [of 0 height 1 "height 0"]
  by (simp add: scroll_reviews_def max_total_scroll_attempts_def)

lemma scroll_loop_growing:
  assumes "\<forall>i. height (Suc i) \<noteq> height i"
  shows "scroll_attempts \<le> max_total_scroll_attempts \<Longrightarrow>
         scroll_loop height (Suc r) scroll_attempts (height r) =
           (max_total_scroll_attempts, Suc r + (max_total_scroll_attempts - scroll_attempts))"
proof (induction "max_total_scroll_attempts - scroll_attempts" arbitrary: r scroll_attempts)
  case 0
  then show ?case
    by (subst scroll_loop.simps) simp
next
  case (Suc n)
  then have "scroll_attempts < max_total_scroll_attempts" by simp
  with Suc.hyps(1) [of "Suc scroll_attempts" "Suc r"] Suc.hyps(2) assms show ?case
    by (simp add: scroll_loop.simps [of height "Suc r" scroll_attempts] Let_def)
qed

text \<open>
  On a page whose height changes at every read, the loop runs all 50 attempts and
  reads the height 51 times: the attempt bound, not the stable-height test, ends it.
\<close>

theorem scroll_growing_page:
  assumes "\<forall>i. height (Suc i) \<noteq> height i"
  shows "scroll_reviews height = (50, 51)"
  using scroll_loop_growing [OF assms, of 0 0] by (simp add: scroll_reviews_def max_total_scroll_attempts_def)

theorem scroll_growing_page_witness: "scroll_reviews int = (50, 51)"
  using scroll_growing_page [of int] by simp

text \<open>
  C29. A size variant whose label or value element is missing ends the attribute scan:
  the values found before it are kept and the later variants are ignored.
\<close>

theorem variant_loop_error:
  assumes "lbl = None \<or> val = None"
  shows "variant_loop acc (vs @ (lbl, val) # ws) = variant_loop acc vs"
proof (induction acc vs rule: variant_loop.induct)
  case (1 acc)
  obtain boy kilo beden where "acc = (boy, kilo, beden)" by (cases acc)
  with assms show ?case by (auto split: option.splits)
next
  case (2 boy kilo beden lbl' val' vs)
  then show ?case
    by (simp add: Let_def split: option.splits)
qed


theorem variant_loop_error_witness:
  "variant_loop (None, None, None) [(Some ''Boy'', Some ''170''), (None, Some ''x''), (Some ''Kilo'', Some ''60'')]
     = (Some ''170'', None, None)"
proof -
  have "variant_loop (None, None, None) ([(Some ''Boy'', Some ''170'')] @ (None, Some ''x'') # [(Some ''Kilo'', Some ''60'')])
        = variant_loop (None, None, None) [(Some ''Boy'', Some ''170'')]"
    by (rule variant_loop_error) simp
  also have "\<dots> = (Some ''170'', None, None)"
    by code_simp
  finally show ?thesis
    by simp
qed

end
