(* ===== verification/ScrapeRun.thy ===== *)
theory ScrapeRun
  imports Scraper
begin

text \<open>
  The main loop of \<open>src/webscraping/ty_scrapping.py\<close> (lines 86--271): for each product
  link the review page is opened, the product is skipped when neither of the two waited-for
  elements appears, and otherwise its header fields and review rows are scraped and
  written to \<open>OUT_CSV\<close>: appended without a header when the file exists, written with
  the frame's header otherwise. The browser is a function from the requested URL to the
  page it shows; the CSV file is its header and its rows, \<open>None\<close> while it does not
  exist. Sleeps, prints, the redirect warning (which only prints) and \<open>driver.quit()\<close>
  have no effect on the file. The scroll loop (\<open>Scraper.scroll_reviews\<close>) only decides
  how many review containers the page holds when they are collected; the containers
  after scrolling are part of the page.
\<close>

record page =
  pg_rate_visible :: bool
  pg_container_present :: bool
  pg_info :: "(string \<times> string) option"
  pg_prices :: "string option list"
  pg_rate :: "string option"
  pg_reviews :: "review_dom list"

type_synonym browser = "string \<Rightarrow> page"

type_synonym csv_file = "(string list \<times> scraped_review list) option"

text \<open>
  Lines 96--107: the page counts as loaded when the rating summary becomes visible or,
  failing that, a review container is present; otherwise the loop \<open>continue\<close>s.
\<close>

definition page_loaded :: "page \<Rightarrow> bool" where
  "page_loaded pg \<longleftrightarrow> pg_rate_visible pg \<or> pg_container_present pg"

definition page_header :: "(string \<Rightarrow> real option) \<Rightarrow> page \<Rightarrow> product_header" where
  "page_header py_float pg = scrape_header py_float (pg_info pg) (pg_prices pg) (pg_rate pg)"

text \<open>
  The columns of \<open>pd.DataFrame(data)\<close>: the keys of the row dicts in insertion order, and
  no column at all for an empty \<open>data\<close>. The Turkish letters of two names are written in UTF-8.
\<close>

definition scraped_columns :: "string list" where
  "scraped_columns =
     [''Marka'', [CHR 0xC3, CHR 0x9C] @ ''r'' @ [CHR 0xC3, CHR 0xBC] @ ''n'', ''Fiyat'',
      ''Genel Puan'', ''Ad'', ''Yorum'', ''Tarih'', ''Boy'', ''Kilo'', ''Beden'',
      ''Sat'' @ [CHR 0xC4, CHR 0xB1] @ ''c'' @ [CHR 0xC4, CHR 0xB1], ''Puan'']"

definition frame_columns :: "scraped_review list \<Rightarrow> string list" where
  "frame_columns data = (if data = [] then [] else scraped_columns)"

text \<open>Lines 262--266: append without header, or create the file with the frame's header.\<close>

definition save_csv :: "csv_file \<Rightarrow> scraped_review list \<Rightarrow> csv_file" where
  "save_csv out_csv data =
     (case out_csv of
        Some (header, rows) \<Rightarrow> Some (header, rows @ data)
      | None \<Rightarrow> Some (frame_columns data, data))"

text \<open>One iteration of \<open>for idx, link in enumerate(product_links, start=1)\<close>.\<close>

definition scrape_link :: "(string \<Rightarrow> real option) \<Rightarrow> browser \<Rightarrow> csv_file \<Rightarrow> string \<Rightarrow> csv_file" where
  "scrape_link py_float driver out_csv link =
     (let pg = driver (get_review_link link) in
      if \<not> page_loaded pg then out_csv
      else save_csv out_csv (scrape_product (page_header py_float pg) (pg_reviews pg)))"

definition scrape_all :: "(string \<Rightarrow> real option) \<Rightarrow> browser \<Rightarrow> string list \<Rightarrow> csv_file \<Rightarrow> csv_file" where
  "scrape_all py_float driver product_links out_csv =
     fold (\<lambda>link f. scrape_link py_float driver f link) product_links out_csv"

section \<open>Reading the file\<close>

definition csv_rows :: "csv_file \<Rightarrow> scraped_review list" where
  "csv_rows f = (case f of None \<Rightarrow> [] | Some (h, rows) \<Rightarrow> rows)"

text \<open>A file whose header names the twelve columns of every row.\<close>

definition csv_good :: "csv_file \<Rightarrow> bool" where
  "csv_good f \<longleftrightarrow> (case f of None \<Rightarrow> True | Some (h, rows) \<Rightarrow> h = scraped_columns)"

definition link_rows :: "(string \<Rightarrow> real option) \<Rightarrow> browser \<Rightarrow> string \<Rightarrow> scraped_review list" where
  "link_rows py_float driver link =
     (let pg = driver (get_review_link link) in
      if page_loaded pg then scrape_product (page_header py_float pg) (pg_reviews pg) else [])"

definition first_loaded :: "browser \<Rightarrow> string list \<Rightarrow> string option" where
  "first_loaded driver links = find (\<lambda>l. page_loaded (driver (get_review_link l))) links"

section \<open>Concrete inputs\<close>

text \<open>
  Two product links; the first page loads (its rating summary is visible) but shows no
  review, the second shows one review without a star element.
\<close>

definition demo_links :: "string list" where
  "demo_links = [''https://t.co/a-p-1'', ''https://t.co/b-p-2'']"

definition demo_review_dom :: review_dom where
  "demo_review_dom = \<lparr> rd_name = Some ''A'', rd_date = Some ''12 Ocak 2024'', rd_variants = [],
                       rd_comment = Some ''iyi'', rd_seller = None, rd_star = None \<rparr>"

definition demo_page :: "review_dom list \<Rightarrow> page" where
  "demo_page revs = \<lparr> pg_rate_visible = True, pg_container_present = (revs \<noteq> []), pg_info = None,
                      pg_prices = [], pg_rate = None, pg_reviews = revs \<rparr>"

definition demo_browser :: browser where
  "demo_browser url = (if url = ''https://t.co/a-p-1/yorumlar'' then demo_page [] else demo_page [demo_review_dom])"

section \<open>Lemmas\<close>

lemma save_csv_Some: "save_csv (Some (h, rows)) data = Some (h, rows @ data)"
  by (simp add: save_csv_def)

lemma scrape_link_Some:
  "scrape_link py_float driver (Some (h, rows)) link = Some (h, rows @ link_rows py_float driver link)"
  by (simp add: scrape_link_def link_rows_def save_csv_Some Let_def)

lemma scrape_all_Some:
  "scrape_all py_float driver links (Some (h, rows)) =
   Some (h, rows @ concat (map (link_rows py_float driver) links))"
  by (induction links arbitrary: rows) (simp_all add: scrape_all_def scrape_link_Some)

lemma scrape_all_Cons:
  "scrape_all py_float driver (l # ls) f = scrape_all py_float driver ls (scrape_link py_float driver f l)"
  by (simp add: scrape_all_def)

lemma link_rows_unloaded:
  "\<not> page_loaded (driver (get_review_link l)) \<Longrightarrow> link_rows py_float driver l = []"
  by (simp add: link_rows_def)

lemma scrape_all_None:
  "scrape_all py_float driver links None =
   (case first_loaded driver links of
      None \<Rightarrow> None
    | Some l \<Rightarrow> Some (frame_columns (link_rows py_float driver l),
                     concat (map (link_rows py_float driver) links)))"
proof (induction links)
  case Nil
  then show ?case by (simp add: scrape_all_def first_loaded_def)
next
  case (Cons l ls)
  show ?case
  proof (cases "page_loaded (driver (get_review_link l))")
    case True
    then show ?thesis
      by (simp add: scrape_all_Cons scrape_link_def save_csv_def scrape_all_Some first_loaded_def link_rows_def Let_def)
  next
    case False
    then show ?thesis
      using Cons.IH by (simp add: scrape_all_Cons scrape_link_def first_loaded_def link_rows_unloaded Let_def split: option.split)
  qed
qed

lemma link_rows_loaded:
  "page_loaded (driver (get_review_link l)) \<Longrightarrow>
   link_rows py_float driver l = [] \<longleftrightarrow> pg_reviews (driver (get_review_link l)) = []"
  by (simp add: link_rows_def scrape_product_def Let_def)

section \<open>Properties\<close>

text \<open>
  C34. The file after a run holds the rows it held before, followed by the rows of each
  product link in list order: the review rows of the page when it loaded, nothing when
  it did not.
\<close>

theorem scrape_all_rows:
  "csv_rows (scrape_all py_float driver links out_csv) =
   csv_rows out_csv @ concat (map (link_rows py_float driver) links)"
proof (cases out_csv)
  case None
  then show ?thesis
    by (simp add: scrape_all_None csv_rows_def first_loaded_def find_None_iff link_rows_unloaded
             split: option.split)
next
  case (Some f)
  then show ?thesis
    by (cases f) (simp add: scrape_all_Some csv_rows_def)
qed

text \<open>
  C35. A run that creates the file writes the twelve column names exactly when the first
  product page that loads has a review: \<open>pd.DataFrame([])\<close> has no columns, so when that
  page is empty the file is created without the column names and every later row is
  appended under that empty header.
\<close>

theorem scrape_all_header:
  assumes "first_loaded driver links = Some l"
  shows "csv_good (scrape_all py_float driver links None) \<longleftrightarrow> pg_reviews (driver (get_review_link l)) \<noteq> []"
proof -
  have "page_loaded (driver (get_review_link l))"
    using assms by (auto simp: first_loaded_def find_Some_iff)
  then show ?thesis
    using assms link_rows_loaded [of driver l py_float]
    by (simp add: scrape_all_None csv_good_def frame_columns_def scraped_columns_def)
qed

theorem scrape_all_header_witness:
  "\<not> csv_good (scrape_all (\<lambda>_. None) demo_browser demo_links None) \<and>
   csv_rows (scrape_all (\<lambda>_. None) demo_browser demo_links None) \<noteq> []"
proof -
  have f: "first_loaded demo_browser demo_links = Some ''https://t.co/a-p-1''"
    unfolding first_loaded_def demo_links_def demo_browser_def demo_page_def page_loaded_def by code_simp
  have e: "pg_reviews (demo_browser (get_review_link ''https://t.co/a-p-1'')) = []"
    unfolding demo_browser_def demo_page_def by code_simp
  have r: "csv_rows (scrape_all (\<lambda>_. None) demo_browser demo_links None) \<noteq> []"
    unfolding scrape_all_None f csv_rows_def
    unfolding link_rows_def demo_links_def demo_browser_def demo_page_def page_loaded_def by code_simp
  show ?thesis
    using scrape_all_header [OF f, of "\<lambda>_. None"] e r by simp
qed

end
