(* ===== verification/Spec2Isabelle.thy ===== *)
theory Spec2Isabelle
  imports TrainEval Pipeline ScrapeRun
begin

text \<open>
  A verification development of the review-based churn-prediction pipeline under
  \<open>src/\<close>. The pipeline has four programs, run one after another:
  \<^item> the scraper \<open>src/webscraping/ty_scrapping.py\<close> collects the reviews of each
    product page (text, star rating, date, variant attributes);
  \<^item> phase 1, \<open>src/scripts/base_metrics.py\<close>, parses the Turkish dates and builds one
    row of aggregate features per product (\<open>LeakFreeProductPreparator\<close>);
  \<^item> phase 2, \<open>src/scripts/llm_extraction.py\<close>, asks a language model about the
    100 most recent reviews of each product, classifies the reply with a rule engine,
    saves one row per product in a resumable output file, and merges the replies back
    into the phase-1 table (\<open>finalize_and_save\<close>);
  \<^item> \<open>src/scripts/train_model.py\<close> turns the merged table into numeric features,
    trains a classifier and evaluates it on a test split.

  \<^bold>\<open>Theories.\<close>
  \<^item> \<open>Prelude\<close>: the exception monad \<open>'e + 'a\<close> (\<open>Inl\<close> the exception, \<open>ebind\<close>
    its bind, \<open>emap\<close> a loop whose body may raise), \<open>py_join\<close>, and generic lemmas
    on lists and maps.
  \<^item> \<open>PyValue\<close>: \<open>pyval\<close>, the Python and pandas values a cell or a parsed JSON
    reply holds; numeric reading with \<open>bool\<close> a subclass of \<open>int\<close>, comparisons that
    raise \<open>TypeError\<close> on non-numbers and are false on NaN; dicts as association
    lists with \<open>dict.get\<close> and \<open>row[c]\<close>; \<open>xs[i]\<close> raising \<open>IndexError\<close>.
  \<^item> \<open>PyString\<close>: \<open>str.strip\<close>, \<open>rstrip\<close>, \<open>replace\<close>, \<open>split(c, 1)\<close>, \<open>in\<close>,
    \<open>split\<close>, \<open>endswith\<close> and \<open>lower\<close> on strings as UTF-8 byte lists.
  \<^item> \<open>BaseMetrics\<close>: the review record and \<open>create_product_features\<close> with its helpers
    (star counts and proportions, review velocity, deviation, first/last date).
  \<^item> \<open>DateParsing\<close>: \<open>convert_date\<close> and \<open>parse_turkish_dates\<close> of \<open>base_metrics.py\<close>.
  \<^item> \<open>SentimentExtractor\<close>: \<open>extract_product_comments\<close>, \<open>create_llm_prompt\<close> with
    its full instruction text (as UTF-8 bytes) around the comment block, and the
    reply cleaning of \<open>call_llm_api\<close>.
  \<^item> \<open>RiskClassifier\<close>: \<open>calculate_risk_class\<close> (the incremental call site, reading
    the reply with \<open>dict.get\<close>) and \<open>classify_product\<close> (the batch call site, reading
    a merged row with \<open>row[c]\<close>), and an abstract rule table they refine.
  \<^item> \<open>BatchRunner\<close>: the extractor object as a record (tables, output file, the
    \<open>processed_products\<close> set, and a trace of the events the code performs);
    \<open>_save_single_result\<close>, \<open>process_product\<close>, \<open>process_all_products\<close> and
    \<open>run_extraction\<close> as state-passing functions; the output file is a value of the
    state, \<open>None\<close> while it does not exist.
  \<^item> \<open>ReportMerge\<close>: \<open>finalize_and_save\<close>: the CSV round trip of the saved rows,
    the left join on \<open>Urun\<close>, and the batch classification.
  \<^item> \<open>Scraper\<close>: the pure parts of the scraper (link building, padding-to-star
    mapping with \<open>min(..., key=...)\<close>, the \<open>padding-inline-end\<close> regular expression,
    the scroll loop, the variant loop and the per-review and per-page record
    building), with the browser as a parameter.
  \<^item> \<open>ScrapeRun\<close>: the scraper's main loop: the page-load waits and \<open>continue\<close>,
    the rows of each loaded product, and the append-or-create write of the CSV with
    its header; the browser is a function from URL to page, the file its header
    and rows.
  \<^item> \<open>TrainPrep\<close>: the feature preparation of \<open>train_model.py\<close>: the dtype-dependent
    conversion of the boolean LLM columns, \<open>fillna(0)\<close>, and the feature table.
  \<^item> \<open>TrainEval\<close>: the evaluation of \<open>train_model.py\<close> on given predictions: accuracy,
    the classification report and its \<open>ValueError\<close>, the confusion matrix, its
    row normalisation and annotation loop, and the wrong-prediction count, and the
    size checks of the stratified split; the scikit-learn functions are written out
    as documented.
  \<^item> \<open>Pipeline\<close>: the two main blocks composed: phase 1's parse, aggregate and
    \<open>save_processed_data\<close>,
    phase 2's constructor (with its own copy of the date code, \<open>_parse_dates\<close>,
    proved equal to phase 1's), processing and finalisation.

  \<^bold>\<open>What is proved.\<close> The properties C1 to C40 of the development are each stated
  after a text block naming them. In order of importance: the rule engine refines an
  abstract rule table, its two call sites agree, and its exceptions are exactly the
  unorderable values it compares (C1 to C3, C10); the runner is idempotent, never
  saves a product twice, resumes after an interruption as if it had not been stopped,
  only appends to its file, and stops at the first product whose reply raises (C4 to
  C9); the merge keeps one row per product and classifies products without a reply
  from NaN fields, as Engagement Churn below five reviews and healthy otherwise
  (C11, C12); phase 1 fails exactly when a review has no product name and otherwise
  gives one row per product, partitions the reviews, and its star proportions sum
  to one exactly when every review is rated (C13 to C17); the classifier's
  scores are bounded (C18, C19); the comment selection and reply cleaning are
  correct (C20 to C22); the month replacement translates every date (C23); the
  scroll loop ends within 50 attempts, the star mapping is a threshold function, the
  padding regex reads back the number it is given, every scraped rating is a star
  or missing, and the variant loop stops on a missing attribute (C24 to C27, C29);
  phase 1 ends with \<open>KeyError\<close> exactly when no date parses, after writing an empty
  file (C28); the training features are numeric, with missing values zero, and an
  ordinal column read as \<open>object\<close> collapses to 0/1 (C30 to C33). The scraper's file
  holds the rows of the loaded pages in link order, and gets its column names
  exactly when the first loaded page has a review (C34, C35); the evaluation raises
  exactly when a risk class is missing from the test labels and predictions, the
  confusion matrix rows count the test labels, and the accuracy, the matrix
  diagonal and the wrong-prediction count agree (C36 to C38); the comment list
  phase 2 builds for each phase-1 product has \<open>min(100, Toplam_Yorum_Sayisi)\<close>
  entries (C39); and the prompt carries the kept comments exactly, one per line
  (C40). Beside the claims, the theories prove the lemmas they rest on, among them
  that a stratified split of a table holding the three classes needs nine products
  (\<open>TrainEval.stratified_split_three_classes\<close>) and that the scroll loop runs all
  50 attempts on a page that keeps growing (\<open>Scraper.scroll_growing_page\<close>).

  \<^bold>\<open>Bounds and fuel.\<close> No model uses fuel. The only loop that is not structural,
  the scroll loop of \<open>scroll_reviews\<close>, is a \<open>function\<close> whose termination measure
  is the distance of the attempt counter to \<open>max_total_scroll_attempts = 50\<close>, the
  code's own bound; the page height is a function from the number of reads so far,
  so every browser behaviour is covered. All other loops run over finite lists.

  \<^bold>\<open>Not modelled.\<close> The browser (Selenium) and file system are parameters or
  values: page contents are records given to the scraper, the output CSV is a list
  of rows. \<open>pd.to_datetime\<close>, \<open>float()\<close> on scraped text, the language model
  client and \<open>json.loads\<close> are parameters returning \<open>None\<close> where the code sees an
  exception. Model fitting (the random draw of the stratified split, SMOTE, sample
  weights, XGBoost), the F1 score, feature importances, SHAP values and all plots are not
  modelled: they are library code the scripts only call, and the predictions are a
  parameter of the evaluation. Chrome options, waits, sleeps, prints and the
  redirect warning of the scraper, the API-key prompt, and the CSV round trip of
  the phase-1 table have no effect on the modelled state. Unicode case
  mapping and whitespace beyond ASCII, and binary floating-point rounding, are not
  modelled; the star thresholds are exact reals. The scraper's output is not the
  phase-2 input directly: phase 2 reads a separately corrected text column
  (\<open>duzeltilmis_yorum\<close>).
\<close>

end
